theory Spec2Isabelle
  imports Main "HOL-Library.Char_ord" "HOL-Library.List_Lexorder"
begin

chapter \<open>The terminal of the personal website: the shell emulator and its virtual file system\<close>

text \<open>
  The source is one React component, \<^verbatim>\<open>Terminal\<close>. Its state lives in \<^verbatim>\<open>useState\<close>
  cells, its file system is an object literal, and \<^verbatim>\<open>processCommand\<close> maps one input line to
  a list of result records while calling state setters and scheduling timers.

  Conventions of the embedding:
  \<^item> JavaScript strings are \<open>string\<close> (lists of characters). A printable ASCII character
    other than the opening brace stands for itself. Every other character (those outside
    ASCII, and the opening brace) is written \<^verbatim>\<open>{U+XXXX}\<close> with its code point in upper-case
    hexadecimal digits, in the literals of the source and in the lines entered alike; so a
    string of the model stands for at most one JavaScript string. The separators the
    program searches for are ASCII characters that occur in no such group (blank, slash,
    dash, bar, greater-than, dot, tilde and the dollar sign), and where it cuts a string at
    an index the characters before the cut are ASCII.
  \<^item> \<^verbatim>\<open>toLowerCase\<close> maps A to Z and the Kelvin sign U+212A to their ASCII lower case and
    copies every other character; see its definition.
  \<^item> A state setter does not change what the running handler reads: the handler reads the
    values of the render it was created in. Every handler therefore takes two states, the
    snapshot it reads and the pending state the setters write, and returns the pending state.
  \<^item> The constant \<^verbatim>\<open>fileSystem\<close> is built by the component function every time it runs, each
    node stamped with \<^verbatim>\<open>new Date()\<close>. It is a function of the time of the render and no part
    of the state.
  \<^item> An uncaught JavaScript exception is the value \<open>Inl TypeError\<close>; a call that recurses
    without bound has no value (\<open>None\<close>).
\<close>

section \<open>JavaScript strings and arrays\<close>

text \<open>\<^verbatim>\<open>s.startsWith(p)\<close>\<close>

definition startsWith :: "string \<Rightarrow> string \<Rightarrow> bool" where
  "startsWith s p = (take (length p) s = p)"

text \<open>\<^verbatim>\<open>s.includes(p)\<close>: \<open>p\<close> occurs in \<open>s\<close> as a contiguous substring.\<close>

fun js_includes :: "string \<Rightarrow> string \<Rightarrow> bool" where
  "js_includes [] p = (p = [])"
| "js_includes (c # cs) p = (startsWith (c # cs) p \<or> js_includes cs p)"

text \<open>\<^verbatim>\<open>s.split(sep)\<close> for a separator of one character. The result is never empty:
  \<^verbatim>\<open>''.split('/')\<close> is \<^verbatim>\<open>['']\<close>.\<close>

fun js_split :: "char \<Rightarrow> string \<Rightarrow> string list" where
  "js_split sep [] = [[]]"
| "js_split sep (c # cs) =
     (if c = sep then [] # js_split sep cs
      else (case js_split sep cs of
              [] \<Rightarrow> [[c]]
            | p # ps \<Rightarrow> (c # p) # ps))"

text \<open>\<^verbatim>\<open>parts.filter(p => p)\<close>: the empty string is the only falsy string.\<close>

definition filterTruthy :: "string list \<Rightarrow> string list" where
  "filterTruthy parts = filter (\<lambda>p. p \<noteq> []) parts"

text \<open>\<^verbatim>\<open>xs.join(sep)\<close>\<close>

fun join :: "string \<Rightarrow> string list \<Rightarrow> string" where
  "join sep [] = []"
| "join sep [x] = x"
| "join sep (x # y # ys) = x @ sep @ join sep (y # ys)"

text \<open>
  \<^verbatim>\<open>s.toLowerCase()\<close>. The program only ever compares its result with names written in
  ASCII letters (the command names, \<^verbatim>\<open>start\<close>, \<^verbatim>\<open>en\<close> and \<^verbatim>\<open>zh\<close>). On the characters of ASCII
  it maps A to Z to a to z. Of all other characters exactly one has an ASCII lower case:
  the Kelvin sign U+212A, whose lower case is the letter k. Every other character outside
  ASCII has a lower case outside ASCII, whatever it is, and is copied here as it stands:
  the result then differs from every ASCII name in the code and in the model alike.
\<close>

definition toLowerChar :: "char \<Rightarrow> char" where
  "toLowerChar c =
     (case map_of (zip ''ABCDEFGHIJKLMNOPQRSTUVWXYZ'' ''abcdefghijklmnopqrstuvwxyz'') c of
        Some l \<Rightarrow> l
      | None \<Rightarrow> c)"

function toLowerCase :: "string \<Rightarrow> string" where
  "toLowerCase [] = []"
| "toLowerCase (c # cs) =
     (if startsWith (c # cs) ''{U+212A}'' then CHR ''k'' # toLowerCase (drop 7 cs)
      else if c = CHR ''{''
      then c # takeWhile (\<lambda>x. x \<noteq> CHR ''}'') cs @ toLowerCase (dropWhile (\<lambda>x. x \<noteq> CHR ''}'') cs)
      else toLowerChar c # toLowerCase cs)"
  by pat_completeness auto

termination
  by (relation "measure length") (auto simp: less_Suc_eq_le length_dropWhile_le)

text \<open>\<^verbatim>\<open>s[i]\<close>: the character at an index, \<^verbatim>\<open>undefined\<close> (\<open>None\<close>) out of range.\<close>

definition charAt :: "string \<Rightarrow> nat \<Rightarrow> char option" where
  "charAt s i = (if i < length s then Some (s ! i) else None)"

text \<open>A number in a template literal: its decimal digits.\<close>

definition digitChar :: "nat \<Rightarrow> char" where
  "digitChar d = ''0123456789'' ! (d mod 10)"

fun toDecimal :: "nat \<Rightarrow> string" where
  "toDecimal n = (if n < 10 then [digitChar n] else toDecimal (n div 10) @ [digitChar n])"

declare toDecimal.simps [simp del]

text \<open>
  \<^verbatim>\<open>a.localeCompare(b)\<close>. The collation of the host decides it; the model compares character
  codes, which gives the same order on the names of this file system in every directory
  (lower-case letters, dash and dot; the one name with capitals, README.md, is alone in its
  directory).
\<close>

definition localeCompare :: "string \<Rightarrow> string \<Rightarrow> int" where
  "localeCompare a b = (if a < b then - 1 else if a = b then 0 else 1)"

text \<open>
  \<^verbatim>\<open>items.sort(compare)\<close>: a stable sort by a comparison function, written as insertion from
  the right. An element is placed before the first element it does not follow.
\<close>

fun insertBy :: "('a \<Rightarrow> 'a \<Rightarrow> int) \<Rightarrow> 'a \<Rightarrow> 'a list \<Rightarrow> 'a list" where
  "insertBy compare x [] = [x]"
| "insertBy compare x (y # ys) =
     (if compare x y \<le> 0 then x # y # ys else y # insertBy compare x ys)"

definition sortBy :: "('a \<Rightarrow> 'a \<Rightarrow> int) \<Rightarrow> 'a list \<Rightarrow> 'a list" where
  "sortBy compare xs = foldr (insertBy compare) xs []"

section \<open>The file system\<close>

text \<open>
  \<^verbatim>\<open>FileItem\<close> and \<^verbatim>\<open>DirectoryItem\<close> of the source; the field \<^verbatim>\<open>type\<close> is the constructor.
  The content of a directory is a JavaScript object: an association list in the order the
  keys were inserted, which is the order \<^verbatim>\<open>Object.keys\<close> returns. \<open>lastModified\<close> is the
  reading of the clock (\<^verbatim>\<open>new Date()\<close>) when the literal was built; no line of the program
  reads it.
\<close>

datatype FileSystemItem =
    FileItem (content: "string list") (contentEn: "string list option")
      (permissions: string) (owner: string) (groupName: string) (lastModified: nat)
  | DirectoryItem (entries: "(string \<times> FileSystemItem) list")
      (permissions: string) (owner: string) (groupName: string) (lastModified: nat)

text \<open>
  The object \<^verbatim>\<open>fileSystem\<close> has the single key \<^verbatim>\<open>'~'\<close>, bound to a directory: the fields of
  that directory.
\<close>

type_synonym DirectoryItem = "(string \<times> FileSystemItem) list \<times> string \<times> string \<times> string \<times> nat"

definition asItem :: "DirectoryItem \<Rightarrow> FileSystemItem" where
  "asItem d = (case d of (c, p, ow, g, m) \<Rightarrow> DirectoryItem c p ow g m)"

text \<open>What a path lookup can return: the object \<^verbatim>\<open>fileSystem\<close> itself, or one of its items.\<close>

datatype FsRef = TheFileSystem | Item FileSystemItem

subsection \<open>The literal of the source\<close>

definition fs_about_bio_txt :: "nat \<Rightarrow> FileSystemItem" where
  \<open>fs_about_bio_txt now =
   FileItem
     [''====== {U+95DC}{U+65BC}{U+6211} ======'',
      ''{U+6211}{U+662F}{U+4E00}{U+540D}{U+71B1}{U+8877}{U+65BC}{U+524D}{U+7AEF}{U+8207}{U+5168}{U+7AEF}{U+958B}{U+767C}{U+7684}{U+8EDF}{U+9AD4}{U+5DE5}{U+7A0B}{U+5E2B}{U+FF0C}{U+64C1}{U+6709}{U+8C50}{U+5BCC}{U+7684}{U+7DB2}{U+9801}{U+61C9}{U+7528}{U+958B}{U+767C}{U+7D93}{U+9A57}{U+3002}'',
      ''{U+6211}{U+71B1}{U+611B}{U+5275}{U+9020}{U+76F4}{U+89BA}{U+4E14}{U+7F8E}{U+89C0}{U+7684}{U+4F7F}{U+7528}{U+8005}{U+4ECB}{U+9762}{U+FF0C}{U+4E26}{U+4E14}{U+91CD}{U+8996}{U+7A0B}{U+5F0F}{U+78BC}{U+54C1}{U+8CEA}{U+8207}{U+4F7F}{U+7528}{U+8005}{U+9AD4}{U+9A57}{U+3002}'',
      ''{U+5728}{U+5DE5}{U+4F5C}{U+4E4B}{U+5916}{U+FF0C}{U+6211}{U+4E5F}{U+662F}{U+958B}{U+6E90}{U+5C08}{U+6848}{U+7684}{U+8CA2}{U+737B}{U+8005}{U+FF0C}{U+559C}{U+6B61}{U+5206}{U+4EAB}{U+77E5}{U+8B58}{U+4E26}{U+6301}{U+7E8C}{U+5B78}{U+7FD2}{U+65B0}{U+6280}{U+8853}{U+3002}'',
      ''{U+6211}{U+7684}GitHub: https://github.com/Thetoicxdude'']
     (Some [''====== About Me ======'',
            ''I am a software engineer passionate about frontend and full-stack development, with extensive experience in web application development.'',
            ''I love creating intuitive and beautiful user interfaces, and I value code quality and user experience.'',
            ''Outside of work, I am also an open-source contributor, enjoying knowledge sharing and continuously learning new technologies.'',
            ''My GitHub: https://github.com/Thetoicxdude''])
     ''rw-r--r--'' ''deviser'' ''users'' now\<close>

definition fs_about_education_txt :: "nat \<Rightarrow> FileSystemItem" where
  \<open>fs_about_education_txt now =
   FileItem
     [''====== {U+6559}{U+80B2}{U+80CC}{U+666F} ======'',
      ''2019-2023 - {U+8A08}{U+7B97}{U+6A5F}{U+79D1}{U+5B78}{U+5B78}{U+58EB}'',
      ''{U+4E3B}{U+4FEE}{U+9818}{U+57DF}{U+FF1A}{U+8EDF}{U+9AD4}{U+5DE5}{U+7A0B}{U+3001}{U+7DB2}{U+9801}{U+958B}{U+767C}{U+3001}{U+4EBA}{U+5DE5}{U+667A}{U+80FD}'']
     (Some [''====== Education ======'',
            ''2019-2023 - Bachelor of Computer Science'',
            ''Major fields: Software Engineering, Web Development, Artificial Intelligence''])
     ''rw-r--r--'' ''deviser'' ''users'' now\<close>

definition fs_about_experience_txt :: "nat \<Rightarrow> FileSystemItem" where
  \<open>fs_about_experience_txt now =
   FileItem
     [''====== {U+5DE5}{U+4F5C}{U+7D93}{U+9A57} ======'',
      ''2022-{U+81F3}{U+4ECA} - {U+9AD8}{U+7D1A}{U+524D}{U+7AEF}{U+958B}{U+767C}{U+8005}'',
      ''2020-2022 - {U+7DB2}{U+9801}{U+958B}{U+767C}{U+5BE6}{U+7FD2}{U+751F}'',
      ''{U+4E3B}{U+8981}{U+8077}{U+8CAC}{U+FF1A}{U+958B}{U+767C}{U+8207}{U+7DAD}{U+8B77}{U+4F01}{U+696D}{U+7D1A}{U+7DB2}{U+9801}{U+61C9}{U+7528}{U+FF0C}{U+8A2D}{U+8A08}{U+7528}{U+6236}{U+4ECB}{U+9762}{U+FF0C}{U+512A}{U+5316}{U+524D}{U+7AEF}{U+6027}{U+80FD}'']
     (Some [''====== Work Experience ======'',
            ''2022-Present - Senior Frontend Developer'',
            ''2020-2022 - Web Development Intern'',
            ''Main responsibilities: Developing and maintaining enterprise web applications, designing user interfaces, optimizing frontend performance''])
     ''rw-r--r--'' ''deviser'' ''users'' now\<close>

definition fs_about :: "nat \<Rightarrow> FileSystemItem" where
  \<open>fs_about now =
   DirectoryItem
     [(''bio.txt'', fs_about_bio_txt now),
      (''education.txt'', fs_about_education_txt now),
      (''experience.txt'', fs_about_experience_txt now)]
     ''rwxr-xr-x'' ''deviser'' ''users'' now\<close>

definition fs_skills_frontend_txt :: "nat \<Rightarrow> FileSystemItem" where
  \<open>fs_skills_frontend_txt now =
   FileItem
     [''====== {U+524D}{U+7AEF}{U+6280}{U+8853} ======'',
      ''JavaScript/TypeScript {U+2588}{U+2588}{U+2588}{U+2588}{U+2588}{U+2588}{U+2588}{U+2588}{U+2588}{U+2588}{U+2588} 95%'',
      ''React.js            {U+2588}{U+2588}{U+2588}{U+2588}{U+2588}{U+2588}{U+2588}{U+2588}{U+2588}{U+2588}  90%'',
      ''Vue.js              {U+2588}{U+2588}{U+2588}{U+2588}{U+2588}{U+2588}{U+2588}{U+2588}    80%'',
      ''HTML/CSS            {U+2588}{U+2588}{U+2588}{U+2588}{U+2588}{U+2588}{U+2588}{U+2588}{U+2588}{U+2588}{U+2588} 95%'']
     (Some [''====== Frontend Technologies ======'',
            ''JavaScript/TypeScript {U+2588}{U+2588}{U+2588}{U+2588}{U+2588}{U+2588}{U+2588}{U+2588}{U+2588}{U+2588}{U+2588} 95%'',
            ''React.js            {U+2588}{U+2588}{U+2588}{U+2588}{U+2588}{U+2588}{U+2588}{U+2588}{U+2588}{U+2588}  90%'',
            ''Vue.js              {U+2588}{U+2588}{U+2588}{U+2588}{U+2588}{U+2588}{U+2588}{U+2588}    80%'',
            ''HTML/CSS            {U+2588}{U+2588}{U+2588}{U+2588}{U+2588}{U+2588}{U+2588}{U+2588}{U+2588}{U+2588}{U+2588} 95%''])
     ''rw-r--r--'' ''deviser'' ''users'' now\<close>

definition fs_skills_backend_txt :: "nat \<Rightarrow> FileSystemItem" where
  \<open>fs_skills_backend_txt now =
   FileItem
     [''====== {U+5F8C}{U+7AEF}{U+6280}{U+8853} ======'',
      ''Node.js             {U+2588}{U+2588}{U+2588}{U+2588}{U+2588}{U+2588}{U+2588}{U+2588}    80%'',
      ''Express             {U+2588}{U+2588}{U+2588}{U+2588}{U+2588}{U+2588}{U+2588}     70%'',
      ''Python              {U+2588}{U+2588}{U+2588}{U+2588}{U+2588}{U+2588}      60%'',
      ''Database            {U+2588}{U+2588}{U+2588}{U+2588}{U+2588}{U+2588}{U+2588}{U+2588}    80%'']
     (Some [''====== Backend Technologies ======'',
            ''Node.js             {U+2588}{U+2588}{U+2588}{U+2588}{U+2588}{U+2588}{U+2588}{U+2588}    80%'',
            ''Express             {U+2588}{U+2588}{U+2588}{U+2588}{U+2588}{U+2588}{U+2588}     70%'',
            ''Python              {U+2588}{U+2588}{U+2588}{U+2588}{U+2588}{U+2588}      60%'',
            ''Database            {U+2588}{U+2588}{U+2588}{U+2588}{U+2588}{U+2588}{U+2588}{U+2588}    80%''])
     ''rw-r--r--'' ''deviser'' ''users'' now\<close>

definition fs_skills_other_txt :: "nat \<Rightarrow> FileSystemItem" where
  \<open>fs_skills_other_txt now =
   FileItem
     [''====== {U+5176}{U+4ED6}{U+6280}{U+80FD} ======'',
      ''Git/GitHub          {U+2588}{U+2588}{U+2588}{U+2588}{U+2588}{U+2588}{U+2588}{U+2588}{U+2588}{U+2588}  90%'',
      ''Discord Bots        {U+2588}{U+2588}{U+2588}{U+2588}{U+2588}{U+2588}{U+2588}{U+2588}    80%'',
      ''AI & ML             {U+2588}{U+2588}{U+2588}{U+2588}{U+2588}{U+2588}{U+2588}{U+2588}{U+2588}   85%'',
      ''Linux               {U+2588}{U+2588}{U+2588}{U+2588}{U+2588}{U+2588}{U+2588}{U+2588}{U+2588}   85%'']
     (Some [''====== Other Skills ======'',
            ''Git/GitHub          {U+2588}{U+2588}{U+2588}{U+2588}{U+2588}{U+2588}{U+2588}{U+2588}{U+2588}{U+2588}  90%'',
            ''Discord Bots        {U+2588}{U+2588}{U+2588}{U+2588}{U+2588}{U+2588}{U+2588}{U+2588}    80%'',
            ''AI & ML             {U+2588}{U+2588}{U+2588}{U+2588}{U+2588}{U+2588}{U+2588}{U+2588}{U+2588}   85%'',
            ''Linux               {U+2588}{U+2588}{U+2588}{U+2588}{U+2588}{U+2588}{U+2588}{U+2588}{U+2588}   85%''])
     ''rw-r--r--'' ''deviser'' ''users'' now\<close>

definition fs_skills :: "nat \<Rightarrow> FileSystemItem" where
  \<open>fs_skills now =
   DirectoryItem
     [(''frontend.txt'', fs_skills_frontend_txt now),
      (''backend.txt'', fs_skills_backend_txt now),
      (''other.txt'', fs_skills_other_txt now)]
     ''rwxr-xr-x'' ''deviser'' ''users'' now\<close>

definition fs_projects_terminal_portfolio_README_md :: "nat \<Rightarrow> FileSystemItem" where
  \<open>fs_projects_terminal_portfolio_README_md now =
   FileItem
     [''# {U+7D42}{U+7AEF}{U+6A5F}{U+98A8}{U+683C}{U+500B}{U+4EBA}{U+7DB2}{U+7AD9}'',
      ''{U+4F7F}{U+7528} React {U+548C} TypeScript {U+5EFA}{U+7ACB}{U+7684}{U+7D42}{U+7AEF}{U+6A5F}{U+98A8}{U+683C}{U+500B}{U+4EBA}{U+7DB2}{U+7AD9}'',
      '''',
      ''## {U+6280}{U+8853}'',
      ''- React'',
      ''- TypeScript'',
      ''- Styled-Components'',
      '''',
      ''## {U+529F}{U+80FD}'',
      ''- {U+4E92}{U+52D5}{U+5F0F}{U+547D}{U+4EE4}{U+884C}{U+4ECB}{U+9762}'',
      ''- {U+4E3B}{U+984C}{U+5207}{U+63DB}'',
      ''- {U+97FF}{U+61C9}{U+5F0F}{U+8A2D}{U+8A08}'',
      '''',
      ''## {U+9023}{U+7D50}'',
      ''https://github.com/Thetoicxdude/terminal-portfolio'']
     None
     ''rw-r--r--'' ''deviser'' ''users'' now\<close>

definition fs_projects_terminal_portfolio :: "nat \<Rightarrow> FileSystemItem" where
  \<open>fs_projects_terminal_portfolio now =
   DirectoryItem
     [(''README.md'', fs_projects_terminal_portfolio_README_md now)]
     ''rwxr-xr-x'' ''deviser'' ''users'' now\<close>

definition fs_projects_ai_transformer_README_md :: "nat \<Rightarrow> FileSystemItem" where
  \<open>fs_projects_ai_transformer_README_md now =
   FileItem
     [''# AI Transformer'',
      ''{U+5BE6}{U+73FE}{U+548C}{U+7814}{U+7A76}{U+7684}Transformer{U+6A21}{U+578B}{U+5C08}{U+6848}'',
      '''',
      ''## {U+6280}{U+8853}'',
      ''- Python'',
      ''- PyTorch'',
      ''- {U+81EA}{U+7136}{U+8A9E}{U+8A00}{U+8655}{U+7406}'',
      '''',
      ''## {U+529F}{U+80FD}'',
      ''- {U+5BE6}{U+73FE}transformer{U+67B6}{U+69CB}'',
      ''- {U+6587}{U+672C}{U+8655}{U+7406}{U+8207}{U+5206}{U+6790}'',
      ''- {U+6A21}{U+578B}{U+8A13}{U+7DF4}{U+8207}{U+8A55}{U+4F30}'',
      '''',
      ''## {U+9023}{U+7D50}'',
      ''https://github.com/Thetoicxdude/Ai-transformer'']
     None
     ''rw-r--r--'' ''deviser'' ''users'' now\<close>

definition fs_projects_ai_transformer :: "nat \<Rightarrow> FileSystemItem" where
  \<open>fs_projects_ai_transformer now =
   DirectoryItem
     [(''README.md'', fs_projects_ai_transformer_README_md now)]
     ''rwxr-xr-x'' ''deviser'' ''users'' now\<close>

definition fs_projects_crowdfunding_platform_README_md :: "nat \<Rightarrow> FileSystemItem" where
  \<open>fs_projects_crowdfunding_platform_README_md now =
   FileItem
     [''# {U+773E}{U+7C4C}{U+5E73}{U+53F0}'',
      ''{U+73FE}{U+4EE3}{U+5316}{U+7684}{U+773E}{U+7C4C}{U+7DB2}{U+7AD9}{U+5E73}{U+53F0}'',
      '''',
      ''## {U+6280}{U+8853}'',
      ''- JavaScript'',
      ''- React'',
      ''- Node.js'',
      ''- {U+652F}{U+4ED8}{U+6574}{U+5408}'',
      '''',
      ''## {U+529F}{U+80FD}'',
      ''- {U+5C08}{U+6848}{U+5275}{U+5EFA}{U+8207}{U+5C55}{U+793A}'',
      ''- {U+652F}{U+4ED8}{U+7CFB}{U+7D71}{U+6574}{U+5408}'',
      ''- {U+7528}{U+6236}{U+8A8D}{U+8B49}'',
      ''- {U+5C08}{U+6848}{U+7BA1}{U+7406}{U+5100}{U+8868}{U+677F}'',
      '''',
      ''## {U+9023}{U+7D50}'',
      ''https://github.com/Thetoicxdude/crowdfunding-platform'']
     None
     ''rw-r--r--'' ''deviser'' ''users'' now\<close>

definition fs_projects_crowdfunding_platform :: "nat \<Rightarrow> FileSystemItem" where
  \<open>fs_projects_crowdfunding_platform now =
   DirectoryItem
     [(''README.md'', fs_projects_crowdfunding_platform_README_md now)]
     ''rwxr-xr-x'' ''deviser'' ''users'' now\<close>

definition fs_projects_implicit_sentiment_analysis_README_md :: "nat \<Rightarrow> FileSystemItem" where
  \<open>fs_projects_implicit_sentiment_analysis_README_md now =
   FileItem
     [''# {U+96B1}{U+542B}{U+60C5}{U+611F}{U+5206}{U+6790}{U+6A21}{U+578B}'',
      ''{U+7528}{U+65BC}{U+5206}{U+6790}{U+6587}{U+672C}{U+4E2D}{U+96B1}{U+542B}{U+60C5}{U+611F}{U+7684}AI{U+6A21}{U+578B}'',
      '''',
      ''## {U+6280}{U+8853}'',
      ''- Python'',
      ''- {U+6A5F}{U+5668}{U+5B78}{U+7FD2}'',
      ''- {U+81EA}{U+7136}{U+8A9E}{U+8A00}{U+8655}{U+7406}'',
      ''- {U+6DF1}{U+5EA6}{U+5B78}{U+7FD2}'',
      '''',
      ''## {U+529F}{U+80FD}'',
      ''- {U+60C5}{U+611F}{U+5206}{U+6790}'',
      ''- {U+6587}{U+672C}{U+5206}{U+985E}'',
      ''- {U+96B1}{U+542B}{U+60C5}{U+611F}{U+6AA2}{U+6E2C}'',
      '''',
      ''## {U+9023}{U+7D50}'',
      ''https://github.com/Thetoicxdude/Implicit-sentiment-analysis-model'']
     None
     ''rw-r--r--'' ''deviser'' ''users'' now\<close>

definition fs_projects_implicit_sentiment_analysis :: "nat \<Rightarrow> FileSystemItem" where
  \<open>fs_projects_implicit_sentiment_analysis now =
   DirectoryItem
     [(''README.md'', fs_projects_implicit_sentiment_analysis_README_md now)]
     ''rwxr-xr-x'' ''deviser'' ''users'' now\<close>

definition fs_projects_starhub_server_README_md :: "nat \<Rightarrow> FileSystemItem" where
  \<open>fs_projects_starhub_server_README_md now =
   FileItem
     [''# Starhub Server'',
      ''{U+4F7F}{U+7528}GitHub Pages{U+5EFA}{U+7ACB}{U+7684}{U+7DB2}{U+7AD9}{U+5C08}{U+6848}'',
      '''',
      ''## {U+6280}{U+8853}'',
      ''- HTML'',
      ''- CSS'',
      ''- JavaScript'',
      ''- GitHub Pages'',
      '''',
      ''## {U+529F}{U+80FD}'',
      ''- {U+975C}{U+614B}{U+7DB2}{U+7AD9}{U+5C55}{U+793A}'',
      ''- {U+8CC7}{U+8A0A}{U+9801}{U+9762}'',
      ''- {U+97FF}{U+61C9}{U+5F0F}{U+8A2D}{U+8A08}'',
      '''',
      ''## {U+9023}{U+7D50}'',
      ''https://github.com/Thetoicxdude/Starhub-Server-.github.io'']
     None
     ''rw-r--r--'' ''deviser'' ''users'' now\<close>

definition fs_projects_starhub_server :: "nat \<Rightarrow> FileSystemItem" where
  \<open>fs_projects_starhub_server now =
   DirectoryItem
     [(''README.md'', fs_projects_starhub_server_README_md now)]
     ''rwxr-xr-x'' ''deviser'' ''users'' now\<close>

definition fs_projects_zu_discord_bot_README_md :: "nat \<Rightarrow> FileSystemItem" where
  \<open>fs_projects_zu_discord_bot_README_md now =
   FileItem
     [''# Zu Discord Bot'',
      ''Discord{U+804A}{U+5929}{U+6A5F}{U+5668}{U+4EBA}{U+5C08}{U+6848}'',
      '''',
      ''## {U+6280}{U+8853}'',
      ''- JavaScript/TypeScript'',
      ''- Discord.js'',
      ''- Node.js'',
      '''',
      ''## {U+529F}{U+80FD}'',
      ''- {U+804A}{U+5929}{U+6307}{U+4EE4}{U+8655}{U+7406}'',
      ''- {U+81EA}{U+52D5}{U+5316}{U+4EFB}{U+52D9}'',
      ''- {U+4E92}{U+52D5}{U+5F0F}{U+56DE}{U+61C9}'',
      ''- {U+97F3}{U+6A02}{U+64AD}{U+653E}{U+8207}{U+7BA1}{U+7406}'',
      '''',
      ''## {U+9023}{U+7D50}'',
      ''https://github.com/Thetoicxdude/Zu-discord-bot'']
     None
     ''rw-r--r--'' ''deviser'' ''users'' now\<close>

definition fs_projects_zu_discord_bot :: "nat \<Rightarrow> FileSystemItem" where
  \<open>fs_projects_zu_discord_bot now =
   DirectoryItem
     [(''README.md'', fs_projects_zu_discord_bot_README_md now)]
     ''rwxr-xr-x'' ''deviser'' ''users'' now\<close>

definition fs_projects :: "nat \<Rightarrow> FileSystemItem" where
  \<open>fs_projects now =
   DirectoryItem
     [(''terminal-portfolio'', fs_projects_terminal_portfolio now),
      (''ai-transformer'', fs_projects_ai_transformer now),
      (''crowdfunding-platform'', fs_projects_crowdfunding_platform now),
      (''implicit-sentiment-analysis'', fs_projects_implicit_sentiment_analysis now),
      (''starhub-server'', fs_projects_starhub_server now),
      (''zu-discord-bot'', fs_projects_zu_discord_bot now)]
     ''rwxr-xr-x'' ''deviser'' ''users'' now\<close>

definition fs_contact_info_txt :: "nat \<Rightarrow> FileSystemItem" where
  \<open>fs_contact_info_txt now =
   FileItem
     [''====== {U+806F}{U+7D61}{U+65B9}{U+5F0F} ======'',
      ''{U+1F4E7} Email: yourname@example.com'',
      ''{U+1F4BC} LinkedIn: linkedin.com/in/yourprofile'',
      ''{U+1F431} GitHub: https://github.com/Thetoicxdude'',
      ''{U+1F426} Twitter: @yourhandle'']
     (Some [''====== Contact Information ======'',
            ''{U+1F4E7} Email: yourname@example.com'',
            ''{U+1F4BC} LinkedIn: linkedin.com/in/yourprofile'',
            ''{U+1F431} GitHub: https://github.com/Thetoicxdude'',
            ''{U+1F426} Twitter: @yourhandle''])
     ''rw-r--r--'' ''deviser'' ''users'' now\<close>

definition fs_contact_social_txt :: "nat \<Rightarrow> FileSystemItem" where
  \<open>fs_contact_social_txt now =
   FileItem
     [''====== {U+793E}{U+4EA4}{U+5A92}{U+9AD4} ======'',
      ''Instagram: @yourhandle'',
      ''Facebook: yourname'',
      ''Discord: yourname#1234'']
     (Some [''====== Social Media ======'',
            ''Instagram: @yourhandle'',
            ''Facebook: yourname'',
            ''Discord: yourname#1234''])
     ''rw-r--r--'' ''deviser'' ''users'' now\<close>

definition fs_contact :: "nat \<Rightarrow> FileSystemItem" where
  \<open>fs_contact now =
   DirectoryItem
     [(''info.txt'', fs_contact_info_txt now),
      (''social.txt'', fs_contact_social_txt now)]
     ''rwxr-xr-x'' ''deviser'' ''users'' now\<close>

definition fs_github_profile_txt :: "nat \<Rightarrow> FileSystemItem" where
  \<open>fs_github_profile_txt now =
   FileItem
     [''====== GitHub {U+8CC7}{U+8A0A} ======'',
      ''{U+7528}{U+6236}{U+540D}: Thetoicxdude'',
      ''{U+500B}{U+4EBA}{U+6A94}{U+6848}: https://github.com/Thetoicxdude'',
      ''{U+5132}{U+5B58}{U+5EAB}{U+6578}{U+91CF}: 11'',
      ''{U+8FFD}{U+8E64}{U+8005}: 0'',
      ''{U+8FFD}{U+8E64}{U+4E2D}: 1'',
      ''{U+6210}{U+5C31}: Pull Shark'',
      '''',
      ''{U+4E3B}{U+8981}{U+5C08}{U+6848}:'',
      ''- Ai-transformer'',
      ''- crowdfunding-platform'',
      ''- Implicit-sentiment-analysis-model'',
      ''- Starhub-Server-.github.io'',
      ''- Zu-discord-bot'']
     None
     ''rw-r--r--'' ''deviser'' ''users'' now\<close>

definition fs_github_stats_txt :: "nat \<Rightarrow> FileSystemItem" where
  \<open>fs_github_stats_txt now =
   FileItem
     [''====== GitHub {U+7D71}{U+8A08} ======'',
      ''{U+4E3B}{U+8981}{U+8A9E}{U+8A00}: JavaScript, Python, HTML, TypeScript'',
      ''{U+8CA2}{U+737B}{U+7D71}{U+8A08}: {U+6D3B}{U+8E8D}{U+8CA2}{U+737B}{U+8005}'',
      ''{U+661F}{U+6A19}{U+5C08}{U+6848}: 4'',
      '''',
      ''{U+6700}{U+8FD1}{U+6D3B}{U+52D5}:'',
      ''- {U+5C08}{U+6848}{U+66F4}{U+65B0}'',
      ''- {U+63D0}{U+4EA4}{U+4EE3}{U+78BC}'',
      ''- Fork{U+4E86}{U+958B}{U+6E90}{U+5C08}{U+6848}'']
     None
     ''rw-r--r--'' ''deviser'' ''users'' now\<close>

definition fs_github :: "nat \<Rightarrow> FileSystemItem" where
  \<open>fs_github now =
   DirectoryItem
     [(''profile.txt'', fs_github_profile_txt now),
      (''stats.txt'', fs_github_stats_txt now)]
     ''rwxr-xr-x'' ''deviser'' ''users'' now\<close>

definition fs_resume_pdf :: "nat \<Rightarrow> FileSystemItem" where
  \<open>fs_resume_pdf now =
   FileItem
     [''[PDF {U+6587}{U+4EF6}{U+5167}{U+5BB9} - {U+986F}{U+793A}{U+70BA}{U+4E8C}{U+9032}{U+5236}]'']
     None
     ''rw-r--r--'' ''deviser'' ''users'' now\<close>

definition fs_bashrc :: "nat \<Rightarrow> FileSystemItem" where
  \<open>fs_bashrc now =
   FileItem
     [''# .bashrc'',
      (''PS1="'' @ [CHR 0x5C] @ ''['' @ [CHR 0x5C] @ ''033[01;32m'' @ [CHR 0x5C] @ '']'' @ [CHR 0x5C] @ ''u@'' @ [CHR 0x5C] @ ''h'' @ [CHR 0x5C] @ ''['' @ [CHR 0x5C] @ ''033[00m'' @ [CHR 0x5C] @ '']:'' @ [CHR 0x5C] @ ''['' @ [CHR 0x5C] @ ''033[01;34m'' @ [CHR 0x5C] @ '']'' @ [CHR 0x5C] @ ''w'' @ [CHR 0x5C] @ ''['' @ [CHR 0x5C] @ ''033[00m'' @ [CHR 0x5C] @ '']'' @ [CHR 0x5C] @ ''$ "''),
      ''alias ll="ls -la"'',
      ''alias la="ls -a"'',
      ''alias l="ls -CF"'',
      ''alias gh="cd ~/.github"'']
     None
     ''rw-r--r--'' ''deviser'' ''users'' now\<close>

definition fileSystemLiteral :: "nat \<Rightarrow> DirectoryItem" where
  \<open>fileSystemLiteral now =
   ([(''about'', fs_about now),
     (''skills'', fs_skills now),
     (''projects'', fs_projects now),
     (''contact'', fs_contact now),
     (''.github'', fs_github now),
     (''resume.pdf'', fs_resume_pdf now),
     (''.bashrc'', fs_bashrc now)],
    ''rwxr-xr-x'', ''deviser'', ''users'', now)\<close>

section \<open>Result records, the clock, timers and the state of the component\<close>

text \<open>\<^verbatim>\<open>CommandResult\<close>: a type tag and a content. The content is a string or, for \<^verbatim>\<open>ls\<close>, a
  React fragment with one element per listed name: the name, whether it is shown as a
  directory (with a slash), and in the long format the permissions, owner and group.\<close>

datatype Language = zh_TW | en_US

datatype ResultType = Error | Success | Info | Warning | System

datatype LsEntry = LsEntry (entryName: string) (entryIsDir: bool)
  (entryDetails: "(string \<times> string \<times> string) option")

datatype Content = Text string | Listing "LsEntry list"

datatype CommandResult = CommandResult (rtype: ResultType) (rcontent: Content)

text \<open>The two readings of \<^verbatim>\<open>new Date()\<close> the program prints.\<close>

record Clock =
  toLocaleString :: string
  toISOString :: string

text \<open>
  What a timer callback does to the state. Every callback of the source is one of these:
  it appends records to the result of the last entry of the output history (nothing when the
  history is empty), replaces that result, replaces the history, pushes an entry, or sets
  one of two flags. A callback that prints the time reads the clock when it fires.
\<close>

datatype Task =
    AppendToLast "Clock \<Rightarrow> CommandResult list"
  | ReplaceLast "CommandResult list"
  | SetOutputHistory "(string \<times> CommandResult list) list"
  | PushOutput "Clock \<Rightarrow> string \<times> CommandResult list"
  | SetIsRickRolling bool
  | SetIsBooting bool

text \<open>
  What a handler created in one render can read: the \<^verbatim>\<open>useState\<close> cells that
  \<^verbatim>\<open>processCommand\<close> and its helpers read or set, the number of calls of the property
  \<^verbatim>\<open>toggleTheme\<close>, the timers scheduled so far, each with its delay in milliseconds from
  the call that scheduled it, and the reading of the clock when the component function ran
  for this render. The last one is no cell and no setter writes it: it stamps the
  constant \<^verbatim>\<open>fileSystem\<close>, which the component function builds anew, from the same literal,
  every time it runs. The cells of the input line (\<^verbatim>\<open>input\<close>, \<^verbatim>\<open>cursorPosition\<close>,
  \<^verbatim>\<open>commandHistory\<close>, \<^verbatim>\<open>historyIndex\<close>) belong to the form and the keyboard handler and are
  left out.
\<close>

record Terminal =
  language :: Language
  outputHistory :: "(string \<times> CommandResult list) list"
  userName :: string
  hostName :: string
  currentDirectory :: string
  isBooting :: bool
  bootStage :: nat
  isRickRolling :: bool
  isRoot :: bool
  groups :: "string list"
  passwordAttempts :: nat
  isSudoPrompt :: bool
  sudoCommand :: string
  isFullFeatured :: bool
  previousDirectory :: "string option"
  themeToggles :: nat
  timers :: "(nat \<times> Task list) list"
  renderedAt :: nat

text \<open>
  The constant \<^verbatim>\<open>fileSystem\<close> of a render: the literal of the source, every node of it
  stamped with the clock of that render (the readings taken while one literal is built are
  not told apart). The tree is no part of the state; a later render has the same literal
  with its own stamps.
\<close>

definition fileSystem :: "Terminal \<Rightarrow> DirectoryItem" where
  "fileSystem t = fileSystemLiteral (renderedAt t)"

text \<open>The component function runs again, at the time \<open>now\<close>, on the cells as they are.\<close>

definition rerender :: "nat \<Rightarrow> Terminal \<Rightarrow> Terminal" where
  "rerender now t = t\<lparr>renderedAt := now\<rparr>"

text \<open>The state of the first render, with the welcome entry its effect installs.\<close>

definition initialTerminal :: "nat \<Rightarrow> Terminal" where
  \<open>initialTerminal now =
   \<lparr> language = zh_TW,
     outputHistory =
       [('''',
         [CommandResult System (Text ''=========== Deviser {U+7D42}{U+7AEF}{U+6A5F} v1.0.0 ===========''),
          CommandResult Success (Text ''{U+6B61}{U+8FCE}{U+4F7F}{U+7528} Deviser {U+7D42}{U+7AEF}{U+6A5F}{U+98A8}{U+683C}{U+500B}{U+4EBA}{U+7DB2}{U+7AD9}{U+FF01}''),
          CommandResult Info (Text ''{U+57FA}{U+672C}{U+4F7F}{U+7528}{U+8AAA}{U+660E}:''),
          CommandResult Success (Text ''{U+8F38}{U+5165} "help" {U+67E5}{U+770B}{U+53EF}{U+7528}{U+547D}{U+4EE4}{U+5217}{U+8868}''),
          CommandResult Success (Text ''{U+8F38}{U+5165} "deviser start" {U+555F}{U+52D5} deviser {U+670D}{U+52D9}{U+3002}'')])],
     userName = ''user'',
     hostName = ''terminal'',
     currentDirectory = ''~'',
     isBooting = False,
     bootStage = 5,
     isRickRolling = False,
     isRoot = False,
     groups = [''users''],
     passwordAttempts = 0,
     isSudoPrompt = False,
     sudoCommand = '''',
     isFullFeatured = False,
     previousDirectory = None,
     themeToggles = 0,
     timers = [],
     renderedAt = now \<rparr>\<close>

text \<open>A timer callback fires: the functional updates of \<^verbatim>\<open>setOutputHistory\<close> and the two
  flag setters.\<close>

fun fire :: "Clock \<Rightarrow> Task \<Rightarrow> Terminal \<Rightarrow> Terminal" where
  "fire clk (AppendToLast f) t =
     (case rev (outputHistory t) of
        [] \<Rightarrow> t
      | (c, r) # earlier \<Rightarrow> t\<lparr>outputHistory := rev earlier @ [(c, r @ f clk)]\<rparr>)"
| "fire clk (ReplaceLast rs) t =
     (case rev (outputHistory t) of
        [] \<Rightarrow> t
      | (c, r) # earlier \<Rightarrow> t\<lparr>outputHistory := rev earlier @ [(c, rs)]\<rparr>)"
| "fire clk (SetOutputHistory h) t = t\<lparr>outputHistory := h\<rparr>"
| "fire clk (PushOutput f) t = t\<lparr>outputHistory := outputHistory t @ [f clk]\<rparr>"
| "fire clk (SetIsRickRolling b) t = t\<lparr>isRickRolling := b\<rparr>"
| "fire clk (SetIsBooting b) t = t\<lparr>isBooting := b\<rparr>"

text \<open>The callbacks of a list of timers fire one after the other.\<close>

definition fireAll :: "Clock \<Rightarrow> Task list \<Rightarrow> Terminal \<Rightarrow> Terminal" where
  "fireAll clk tasks t = foldl (\<lambda>s task. fire clk task s) t tasks"

text \<open>\<^verbatim>\<open>setTimeout\<close> and the ticks of \<^verbatim>\<open>setInterval\<close>, as seen from the pending state.\<close>

definition schedule :: "nat \<Rightarrow> Task list \<Rightarrow> Terminal \<Rightarrow> Terminal" where
  "schedule delay tasks t = t\<lparr>timers := timers t @ [(delay, tasks)]\<rparr>"

section \<open>Path lookup\<close>

datatype exn = TypeError

text \<open>The object \<^verbatim>\<open>fileSystem\<close> as a record of items.\<close>

definition topLevel :: "DirectoryItem \<Rightarrow> (string \<times> FileSystemItem) list" where
  "topLevel root = [(''~'', asItem root)]"

subsection \<open>\<^verbatim>\<open>getCurrentDirectoryContent\<close>\<close>

fun getCurrentDirectoryContent_loop ::
  "(string \<times> FileSystemItem) list \<Rightarrow> string list \<Rightarrow> (string \<times> FileSystemItem) list option" where
  "getCurrentDirectoryContent_loop current [] = Some current"
| "getCurrentDirectoryContent_loop current (dir # path) =
     (if dir = [] then getCurrentDirectoryContent_loop current path
      else (case map_of current dir of
              Some (DirectoryItem c p ow g m) \<Rightarrow> getCurrentDirectoryContent_loop c path
            | _ \<Rightarrow> None))"

definition getCurrentDirectoryContent :: "Terminal \<Rightarrow> (string \<times> FileSystemItem) list option" where
  "getCurrentDirectoryContent t =
     getCurrentDirectoryContent_loop (topLevel (fileSystem t))
       (if currentDirectory t = ''~'' then [''~''] else js_split CHR ''/'' (currentDirectory t))"

subsection \<open>\<^verbatim>\<open>getFileContent\<close>\<close>

text \<open>The path relative to the root, as both \<^verbatim>\<open>getFileContent\<close> and \<^verbatim>\<open>getFileSystemItem\<close>
  compute it.\<close>

definition normalizedPath :: "Terminal \<Rightarrow> string \<Rightarrow> string" where
  "normalizedPath t filePath =
     (if startsWith filePath ''/'' then drop 1 filePath
      else if currentDirectory t = ''~'' then filePath
      else drop 2 (currentDirectory t) @ ''/'' @ filePath)"

fun getFileContent_loop ::
  "(string \<times> FileSystemItem) list \<Rightarrow> string list \<Rightarrow> (string \<times> FileSystemItem) list option" where
  "getFileContent_loop current [] = Some current"
| "getFileContent_loop current (part # parts) =
     (case map_of current part of
        Some (DirectoryItem c p ow g m) \<Rightarrow> getFileContent_loop c parts
      | _ \<Rightarrow> None)"

text \<open>The file the walk ends at. With no part at all the name read is \<^verbatim>\<open>parts[-1]\<close>, that is
  \<^verbatim>\<open>undefined\<close>, which as a key is the string \<^verbatim>\<open>'undefined'\<close>.\<close>

definition getFileContent_file :: "Terminal \<Rightarrow> string \<Rightarrow> FileSystemItem option" where
  "getFileContent_file t filePath =
     (let parts = filterTruthy (js_split CHR ''/'' (normalizedPath t filePath))
      in case getFileContent_loop (fst (fileSystem t)) (butlast parts) of
           None \<Rightarrow> None
         | Some current \<Rightarrow>
             (let fileName = (if parts = [] then ''undefined'' else last parts)
              in case map_of current fileName of
                   Some (FileItem c ce p ow g m) \<Rightarrow> Some (FileItem c ce p ow g m)
                 | _ \<Rightarrow> None))"

definition getFileContent :: "Terminal \<Rightarrow> string \<Rightarrow> string list option" where
  "getFileContent t filePath =
     (case getFileContent_file t filePath of
        Some (FileItem c ce p ow g m) \<Rightarrow>
          (if language t = en_US
           then (case ce of Some en \<Rightarrow> Some en | None \<Rightarrow> Some c)
           else Some c)
      | _ \<Rightarrow> None)"

subsection \<open>\<^verbatim>\<open>getFileSystemItem\<close>\<close>

text \<open>
  The walk starts at the object \<^verbatim>\<open>fileSystem\<close> (\<open>None\<close>) and moves to the root only when the
  normalised path starts with a tilde. The object \<^verbatim>\<open>fileSystem\<close> has no property
  \<^verbatim>\<open>content\<close>, so reading \<^verbatim>\<open>current.content[part]\<close> there throws a TypeError. Property
  lookup in the content of a directory is lookup among its own keys (members inherited
  from \<^verbatim>\<open>Object.prototype\<close>, such as \<^verbatim>\<open>constructor\<close>, are not modelled).
\<close>

definition refOf :: "DirectoryItem option \<Rightarrow> FsRef" where
  "refOf current = (case current of None \<Rightarrow> TheFileSystem | Some d \<Rightarrow> Item (asItem d))"

fun getFileSystemItem_loop :: "DirectoryItem option \<Rightarrow> string list \<Rightarrow> exn + FsRef option" where
  "getFileSystemItem_loop current [] = Inr (Some (refOf current))"
| "getFileSystemItem_loop None (part # parts) = Inl TypeError"
| "getFileSystemItem_loop (Some (c, meta)) (part # parts) =
     (if parts = [] then Inr (map_option Item (map_of c part))
      else (case map_of c part of
              Some (DirectoryItem c' p ow g m) \<Rightarrow> getFileSystemItem_loop (Some (c', p, ow, g, m)) parts
            | _ \<Rightarrow> Inr None))"

definition getFileSystemItem :: "Terminal \<Rightarrow> string \<Rightarrow> exn + FsRef option" where
  "getFileSystemItem t filePath =
     (let normalized = normalizedPath t filePath;
          parts = filterTruthy (js_split CHR ''/'' normalized)
      in if startsWith normalized ''~''
         then getFileSystemItem_loop (Some (fileSystem t)) (tl parts)
         else getFileSystemItem_loop None parts)"

subsection \<open>\<^verbatim>\<open>getDirectoryFromPath\<close>\<close>

fun getDirectoryFromPath_loop :: "DirectoryItem option \<Rightarrow> string list \<Rightarrow> exn + FsRef option" where
  "getDirectoryFromPath_loop current [] = Inr (Some (refOf current))"
| "getDirectoryFromPath_loop None (part # parts) = Inl TypeError"
| "getDirectoryFromPath_loop (Some (c, meta)) (part # parts) =
     (case map_of c part of
        Some (DirectoryItem c' p ow g m) \<Rightarrow> getDirectoryFromPath_loop (Some (c', p, ow, g, m)) parts
      | _ \<Rightarrow> Inr None)"

definition getDirectoryFromPath :: "DirectoryItem \<Rightarrow> string \<Rightarrow> exn + FsRef option" where
  "getDirectoryFromPath root dirPath =
     (if dirPath = ''~'' then Inr (Some (Item (asItem root)))
      else (let parts = filterTruthy (js_split CHR ''/'' dirPath)
            in if startsWith dirPath ''~''
               then getDirectoryFromPath_loop (Some root) (tl parts)
               else getDirectoryFromPath_loop None parts))"

section \<open>The permission check\<close>

datatype Access = Read | Write | Execute

text \<open>\<^verbatim>\<open>checkPermission\<close>: \<^verbatim>\<open>item.permissions[permIndex] !== '-'\<close>, so an index past the end of
  the permission string (\<^verbatim>\<open>undefined\<close>) allows.\<close>

definition checkPermission :: "Terminal \<Rightarrow> FileSystemItem \<Rightarrow> Access \<Rightarrow> bool" where
  "checkPermission t item ty =
     (if isRoot t then True
      else (let isOwner = (owner item = userName t);
                isInGroup = (groupName item \<in> set (groups t));
                permIndex =
                  (case ty of
                     Read \<Rightarrow> (if isOwner then 0 else if isInGroup then 3 else 6)
                   | Write \<Rightarrow> (if isOwner then 1 else if isInGroup then 4 else 7)
                   | Execute \<Rightarrow> (if isOwner then 2 else if isInGroup then 5 else 8))
            in charAt (permissions item) permIndex \<noteq> Some CHR ''-''))"

text \<open>The call \<^verbatim>\<open>checkPermission(getDirectoryFromPath(currentDirectory) as DirectoryItem, kind)\<close>:
  the cast checks nothing, so \<^verbatim>\<open>null\<close> and the object \<^verbatim>\<open>fileSystem\<close> reach the property reads
  of \<^verbatim>\<open>checkPermission\<close>, which throw for both.\<close>

definition checkPermission_cast :: "Terminal \<Rightarrow> FsRef option \<Rightarrow> Access \<Rightarrow> exn + bool" where
  "checkPermission_cast t r ty =
     (if isRoot t then Inr True
      else (case r of
              Some (Item item) \<Rightarrow> Inr (checkPermission t item ty)
            | _ \<Rightarrow> Inl TypeError))"

section \<open>Texts\<close>

text \<open>The table \<^verbatim>\<open>textResources\<close>: for each key the Chinese and the English text.\<close>

definition textResources :: "(string \<times> string \<times> string) list" where
  \<open>textResources =
  [(''help_title'', (''=== {U+53EF}{U+7528}{U+547D}{U+4EE4}{U+5217}{U+8868} ==='',
      ''=== Available Commands ==='')),
   (''help_ls'', (''ls          - {U+5217}{U+51FA}{U+7576}{U+524D}{U+76EE}{U+9304}{U+5167}{U+5BB9}'',
      ''ls          - List directory contents'')),
   (''help_cd'', (''cd [{U+76EE}{U+9304}]    - {U+5207}{U+63DB}{U+76EE}{U+9304}'',
      ''cd [dir]    - Change directory'')),
   (''help_cat'', (''cat [{U+6A94}{U+6848}]   - {U+986F}{U+793A}{U+6A94}{U+6848}{U+5167}{U+5BB9}'',
      ''cat [file]  - Display file contents'')),
   (''help_pwd'', (''pwd         - {U+986F}{U+793A}{U+7576}{U+524D}{U+8DEF}{U+5F91}'',
      ''pwd         - Print working directory'')),
   (''help_whoami'', (''whoami      - {U+986F}{U+793A}{U+7576}{U+524D}{U+4F7F}{U+7528}{U+8005}'',
      ''whoami      - Display current user'')),
   (''help_date'', (''date        - {U+986F}{U+793A}{U+7576}{U+524D}{U+65E5}{U+671F}'',
      ''date        - Display current date'')),
   (''help_man'', (''man [{U+547D}{U+4EE4}]   - {U+986F}{U+793A}{U+547D}{U+4EE4}{U+8AAA}{U+660E}'',
      ''man [cmd]   - Display command manual'')),
   (''help_echo'', (''echo [{U+6587}{U+5B57}]  - {U+986F}{U+793A}{U+6587}{U+5B57}'',
      ''echo [text] - Display text'')),
   (''help_uname'', (''uname       - {U+986F}{U+793A}{U+7CFB}{U+7D71}{U+8CC7}{U+8A0A}'',
      ''uname       - Display system info'')),
   (''help_find'', (''find        - {U+641C}{U+5C0B}{U+6A94}{U+6848}{U+6216}{U+76EE}{U+9304}'',
      ''find        - Search files or directories'')),
   (''help_mkdir'', (''mkdir       - {U+5EFA}{U+7ACB}{U+76EE}{U+9304}'',
      ''mkdir       - Create directory'')),
   (''help_github'', (''github      - {U+986F}{U+793A}GitHub{U+8CC7}{U+8A0A}'',
      ''github      - Display GitHub info'')),
   (''help_theme'', (''theme       - {U+5207}{U+63DB}{U+4EAE}{U+8272}/{U+6697}{U+8272}{U+4E3B}{U+984C}'',
      ''theme       - Toggle light/dark theme'')),
   (''help_lang'', (''lang        - {U+5207}{U+63DB}{U+8A9E}{U+8A00} ({U+4E2D}{U+6587}/{U+82F1}{U+6587})'',
      ''lang        - Change language (Chinese/English)'')),
   (''help_clear'', (''clear       - {U+6E05}{U+9664}{U+756B}{U+9762}'',
      ''clear       - Clear screen'')),
   (''help_exit'', (''exit        - {U+96E2}{U+958B}{U+7D42}{U+7AEF}{U+6A5F}'',
      ''exit        - Exit terminal'')),
   (''help_shortcuts'', (''{U+9375}{U+76E4}{U+5FEB}{U+6377}{U+9375}:'',
      ''Keyboard shortcuts:'')),
   (''help_ctrl_c'', (''Ctrl+C        - {U+4E2D}{U+65B7}{U+7576}{U+524D}{U+547D}{U+4EE4}'',
      ''Ctrl+C        - Interrupt current command'')),
   (''help_ctrl_l'', (''Ctrl+L        - {U+6E05}{U+9664}{U+756B}{U+9762}'',
      ''Ctrl+L        - Clear screen'')),
   (''help_ctrl_d'', (''Ctrl+D        - {U+767B}{U+51FA} ({U+7576}{U+8F38}{U+5165}{U+70BA}{U+7A7A}{U+6642})'',
      ''Ctrl+D        - Logout (when input is empty)'')),
   (''help_ctrl_u'', (''Ctrl+U        - {U+6E05}{U+9664}{U+7576}{U+524D}{U+8F38}{U+5165}{U+884C}'',
      ''Ctrl+U        - Clear current input line'')),
   (''help_tab'', (''Tab           - {U+81EA}{U+52D5}{U+5B8C}{U+6210}{U+547D}{U+4EE4}'',
      ''Tab           - Auto-complete command'')),
   (''help_arrows'', (''{U+2191}/{U+2193}           - {U+700F}{U+89BD}{U+547D}{U+4EE4}{U+6B77}{U+53F2}{U+8A18}{U+9304}'',
      ''{U+2191}/{U+2193}           - Browse command history'')),
   (''err_cmd_not_found'', (''{U+547D}{U+4EE4}{U+672A}{U+627E}{U+5230}{U+FF0C}{U+8F38}{U+5165} "help" {U+67E5}{U+770B}{U+53EF}{U+7528}{U+547D}{U+4EE4}'',
      ''Command not found, type "help" to see available commands'')),
   (''err_invalid_option'', (''{U+7121}{U+6548}{U+7684}{U+9078}{U+9805}'',
      ''Invalid option'')),
   (''err_dir_not_exist'', (''{U+6C92}{U+6709}{U+6B64}{U+76EE}{U+9304}'',
      ''No such directory'')),
   (''err_file_not_exist'', (''{U+6A94}{U+6848}{U+4E0D}{U+5B58}{U+5728}{U+6216}{U+4E0D}{U+662F}{U+6A94}{U+6848}'',
      ''File does not exist or is not a file'')),
   (''err_missing_file'', (''{U+7F3A}{U+5C11}{U+6A94}{U+6848}{U+540D}{U+7A31}'',
      ''Missing filename'')),
   (''err_perm_denied'', (''{U+6B0A}{U+9650}{U+4E0D}{U+8DB3}'',
      ''Permission denied'')),
   (''sys_welcome'', (''{U+6B61}{U+8FCE}{U+4F86}{U+5230} DeviOS {U+7D42}{U+7AEF}{U+6A5F}{U+7CFB}{U+7D71}!'',
      ''Welcome to DeviOS Terminal System!'')),
   (''sys_last_login'', (''{U+4E0A}{U+6B21}{U+767B}{U+5165}{U+FF1A}'',
      ''Last login: '')),
   (''sys_os_version'', (''{U+7CFB}{U+7D71}{U+FF1A}DeviOS 1.0.0 LTS'',
      ''System: DeviOS 1.0.0 LTS'')),
   (''sys_enter_help'', (''{U+8F38}{U+5165} "help" {U+67E5}{U+770B}{U+53EF}{U+7528}{U+547D}{U+4EE4}{U+3002}'',
      ''Type "help" to see available commands.'')),
   (''sys_theme_changed'', (''{U+4E3B}{U+984C}{U+5DF2}{U+5207}{U+63DB}'',
      ''Theme changed'')),
   (''sys_lang_changed'', (''{U+8A9E}{U+8A00}{U+5DF2}{U+5207}{U+63DB}{U+70BA}{U+4E2D}{U+6587}'',
      ''Language changed to English'')),
   (''sys_lang_usage'', ((''{U+4F7F}{U+7528}{U+65B9}{U+5F0F}: lang [zh|en]'' @ [CHR 0x0A] @ ''{U+4F8B}{U+5982}: lang en - {U+5207}{U+63DB}{U+81F3}{U+82F1}{U+6587}'' @ [CHR 0x0A] @ ''      lang zh - {U+5207}{U+63DB}{U+81F3}{U+4E2D}{U+6587}''),
      (''Usage: lang [zh|en]'' @ [CHR 0x0A] @ ''Example: lang en - Switch to English'' @ [CHR 0x0A] @ ''         lang zh - Switch to Chinese''))),
   (''sys_goodbye'', (''{U+611F}{U+8B1D}{U+4F7F}{U+7528}{U+7D42}{U+7AEF}{U+6A5F}{U+98A8}{U+683C}{U+500B}{U+4EBA}{U+7DB2}{U+7AD9}{U+FF0C}{U+518D}{U+898B}{U+FF01}'',
      ''Thank you for using terminal-style portfolio website. Goodbye!'')),
   (''sys_logout'', (''logout'',
      ''logout'')),
   (''nav_switch_to_dir'', (''{U+5207}{U+63DB}{U+5230} $1 {U+76EE}{U+9304}{U+67E5}{U+770B}{U+66F4}{U+591A}{U+8CC7}{U+8A0A}'',
      ''Switch to $1 directory to see more information'')),
   (''nav_use_cd'', (''{U+4F7F}{U+7528} "cd $1" {U+547D}{U+4EE4}'',
      ''Use "cd $1" command'')),
   (''nav_use_ls'', (''{U+8ACB}{U+4F7F}{U+7528} "ls" {U+67E5}{U+770B}{U+53EF}{U+7528}{U+6A94}{U+6848}{U+FF0C}{U+4E26}{U+4F7F}{U+7528} "cat [{U+6A94}{U+6848}{U+540D}]" {U+95B1}{U+8B80}{U+5167}{U+5BB9}'',
      ''Please use "ls" to see available files, and "cat [filename]" to read content'')),
   (''nav_example'', (''{U+4F8B}{U+5982}: $1'',
      ''Example: $1'')),
   (''err_missing_operand'', (''{U+7F3A}{U+5C11}{U+64CD}{U+4F5C}{U+6578}'',
      ''missing operand''))]\<close>

text \<open>\<^verbatim>\<open>text.replace(pattern, param)\<close> with a string pattern: the first occurrence is replaced.
  (The parameters the program passes hold no dollar sign, so the replacement is literal.)\<close>

fun replaceFirst :: "string \<Rightarrow> string \<Rightarrow> string \<Rightarrow> string" where
  "replaceFirst pat rep [] = (if pat = [] then rep else [])"
| "replaceFirst pat rep (c # cs) =
     (if startsWith (c # cs) pat then rep @ drop (length pat) (c # cs)
      else c # replaceFirst pat rep cs)"

text \<open>\<^verbatim>\<open>getText(key, ...params)\<close>: the text of the key in the language of the render, the key
  itself when the table has none, with \<^verbatim>\<open>$1\<close>, \<^verbatim>\<open>$2\<close>, ... replaced by the parameters.\<close>

definition getText :: "Terminal \<Rightarrow> string \<Rightarrow> string list \<Rightarrow> string" where
  "getText t key params =
     (let found = (case map_of textResources key of
                     Some (zh, en) \<Rightarrow> (if language t = zh_TW then zh else en)
                   | None \<Rightarrow> []);
          start = (if found = [] then key else found)
      in foldl (\<lambda>result (index, param). replaceFirst (''$'' @ toDecimal (index + 1)) param result)
           start (zip [0..<length params] params))"

text \<open>The conditional \<^verbatim>\<open>language === 'zh_TW' ? zh : en\<close>.\<close>

definition byLang :: "Terminal \<Rightarrow> string \<Rightarrow> string \<Rightarrow> string" where
  "byLang t zh en = (if language t = zh_TW then zh else en)"

text \<open>\<^verbatim>\<open>bootMessages\<close>: the messages of the start-up sequence (their \<^verbatim>\<open>delay\<close> fields are read
  only by the disabled boot animation).\<close>

definition bootMessages :: "(string \<times> string) list" where
  \<open>bootMessages =
   [(''{U+6B63}{U+5728}{U+521D}{U+59CB}{U+5316}{U+7CFB}{U+7D71}{U+6838}{U+5FC3} [v1.0.0]...'', ''Initializing system kernel [v1.0.0]...''),
    (''{U+8F09}{U+5165}{U+6838}{U+5FC3}{U+6A21}{U+7D44}... [OK]'', ''Loading kernel modules... [OK]''),
    (''{U+6AA2}{U+67E5}{U+7CFB}{U+7D71}{U+4F9D}{U+8CF4}{U+95DC}{U+4FC2}... [OK]'', ''Checking system dependencies... [OK]''),
    (''{U+8F09}{U+5165}{U+4F7F}{U+7528}{U+8005}{U+8A2D}{U+5B9A}{U+6A94} [deviser]... [OK]'', ''Loading user profile [deviser]... [OK]''),
    (''{U+7CFB}{U+7D71}{U+5DF2}{U+5C31}{U+7DD2}! {U+555F}{U+52D5}{U+5B8C}{U+6210}{U+3002}'', ''System ready! Boot complete.'')]\<close>

section \<open>The decoy deletion\<close>

text \<open>
  \<^verbatim>\<open>rickRoll\<close> returns two records at once and schedules the rest: after one second an interval
  of 400 ms reports seven paths, its eighth tick stops it and starts the chain of nested
  timeouts. The delays below are the sums along that chain. The percentage is
  \<^verbatim>\<open>Math.floor((i / paths.length) * 100)\<close>.
\<close>

definition rickRoll_paths :: "string list" where
  "rickRoll_paths =
     [''/home/deviser/Documents'', ''/home/deviser/Pictures'', ''/home/deviser/Downloads'',
      ''/home/deviser/.config'', ''/home/deviser/.local/share'', ''/var/log'', ''/etc/apt'']"

definition addProgressMessage :: "nat \<Rightarrow> string \<Rightarrow> Task" where
  \<open>addProgressMessage percent currentPath =
     AppendToLast (\<lambda>clk. [CommandResult System
        (Text (''{U+5DF2}{U+8655}{U+7406} '' @ toDecimal percent @ ''%: '' @ currentPath))])\<close>

text \<open>\<^verbatim>\<open>now.toISOString().replace('T', ' ').substr(0, 19)\<close>\<close>

definition timeStr :: "Clock \<Rightarrow> string" where
  "timeStr clk = take 19 (replaceFirst ''T'' '' '' (toISOString clk))"

definition rickRoll_timers :: "Terminal \<Rightarrow> (nat \<times> Task list) list" where
  \<open>rickRoll_timers snap =
     map (\<lambda>i. (1000 + 400 * (i + 1),
               [addProgressMessage ((i * 100) div length rickRoll_paths) (rickRoll_paths ! i)]))
       [0..<length rickRoll_paths]
     @ [(5200, [AppendToLast (\<lambda>clk.
           [CommandResult Error (Text (''rm: {U+7121}{U+6CD5}{U+522A}{U+9664} '' @ [CHR 0x27] @ ''/var/lib/dpkg'' @ [CHR 0x27] @ '': {U+6B0A}{U+9650}{U+4E0D}{U+8DB3}'')),
            CommandResult Error (Text (''rm: {U+7121}{U+6CD5}{U+79FB}{U+9664} '' @ [CHR 0x27] @ ''/etc/passwd'' @ [CHR 0x27] @ '': {U+64CD}{U+4F5C}{U+4E0D}{U+5141}{U+8A31}'')),
            CommandResult Error (Text (''rm: {U+7121}{U+6CD5}{U+522A}{U+9664} '' @ [CHR 0x27] @ ''/boot'' @ [CHR 0x27] @ '': {U+8A2D}{U+5099}{U+6216}{U+8CC7}{U+6E90}{U+5FD9}{U+788C}{U+4E2D}''))])]),
        (6700, [AppendToLast (\<lambda>clk.
           [CommandResult System (Text ''{U+5DF2}{U+522A}{U+9664} 784 {U+500B}{U+6A94}{U+6848} ({U+4F54}{U+7528} 1.2GB)'')])]),
        (8200, [AppendToLast (\<lambda>clk.
           [CommandResult System (Text ''{U+5DF2}{U+522A}{U+9664} 46 {U+500B}{U+76EE}{U+9304}'')])]),
        (9700, [AppendToLast (\<lambda>clk.
           [CommandResult Success (Text ''{U+64CD}{U+4F5C}{U+5DF2}{U+5B8C}{U+6210}{U+FF0C}{U+7528}{U+6642} 5.72 {U+79D2}''),
            CommandResult System (Text ''{U+5DF2}{U+8DF3}{U+904E} 3 {U+500B}{U+7121}{U+6CD5}{U+8A2A}{U+554F}{U+7684}{U+6A94}{U+6848}'')])]),
        (13700, [AppendToLast (\<lambda>clk.
           [CommandResult System (Text ''-------------------------------''),
            CommandResult System (Text (''['' @ timeStr clk @ ''] kernel: [{U+8B66}{U+544A}] {U+6AA2}{U+6E2C}{U+5230}{U+6F5B}{U+5728}{U+7684}{U+7CFB}{U+7D71}{U+7834}{U+58DE}{U+5617}{U+8A66}'')),
            CommandResult Error (Text ''{U+8B66}{U+544A}: {U+7CFB}{U+7D71}{U+6AA2}{U+6E2C}{U+5230}{U+5371}{U+96AA}{U+64CD}{U+4F5C}{U+FF01}''),
            CommandResult Warning (Text ''systemd-guard[1234]: {U+9632}{U+8B77}{U+6A5F}{U+5236}{U+5DF2}{U+555F}{U+52D5}{U+FF0C}{U+9032}{U+7A0B}ID 5678''),
            CommandResult System (Text (''['' @ timeStr clk @ ''] kernel: {U+6B63}{U+5728}{U+9084}{U+539F}{U+7CFB}{U+7D71}{U+6A94}{U+6848}...'')),
            CommandResult Error (Text ''systemd[1]: {U+932F}{U+8AA4}{U+FF1A}{U+5DF2}{U+963B}{U+6B62}{U+522A}{U+9664}{U+7CFB}{U+7D71}{U+95DC}{U+9375}{U+6A94}{U+6848}''),
            CommandResult System (Text ''bash: {U+6B63}{U+5728}{U+8F09}{U+5165}{U+9632}{U+8B77}{U+63AA}{U+65BD}...''),
            CommandResult Warning (Text ''{U+5B89}{U+5168}{U+6A21}{U+7D44}{U+555F}{U+52D5}{U+FF1A}{U+4F60}{U+5DF2}{U+88AB} Rick Roll {U+4E86}{U+FF01}'')])]),
        (15700, [SetIsRickRolling True]),
        (27700, [SetIsRickRolling False,
                 PushOutput (\<lambda>clk. ('''',
           [CommandResult System (Text (''[{U+9632}{U+8B77}{U+7CFB}{U+7D71}] '' @ userName snap @ ''@'' @ hostName snap @ '': {U+5FEB}{U+7167}{U+9084}{U+539F}{U+5B8C}{U+6210}{U+3002}'')),
            CommandResult Info (Text (''{U+6240}{U+6709}{U+6A94}{U+6848}{U+5DF2}{U+5F9E}{U+6642}{U+9593}{U+9EDE} '' @ toLocaleString clk @ '' {U+9084}{U+539F}{U+3002}'')),
            CommandResult Warning (Text ''{U+4E0B}{U+6B21}{U+8ACB}{U+5C0F}{U+5FC3}{U+4F7F}{U+7528}{U+5371}{U+96AA}{U+547D}{U+4EE4}{U+FF01}{U+7CFB}{U+7D71}{U+7BA1}{U+7406}{U+54E1}{U+5DF2}{U+88AB}{U+901A}{U+77E5}{U+3002}''),
            CommandResult Success (Text ''{U+9632}{U+8B77}{U+6A21}{U+7D44}{U+FF1A}{U+54C8}{U+54C8}{U+FF0C}{U+4F60}{U+7684}{U+6A94}{U+6848}{U+6C92}{U+6709}{U+771F}{U+7684}{U+88AB}{U+522A}{U+9664}{U+3002}{U+611F}{U+8B1D}{U+4F7F}{U+7528} DeviOS {U+5B89}{U+5168}{U+9632}{U+8B77}{U+FF01}'')]))])]\<close>

definition scheduleAll :: "(nat \<times> Task list) list \<Rightarrow> Terminal \<Rightarrow> Terminal" where
  "scheduleAll ts pend = foldl (\<lambda>p (delay, tasks). schedule delay tasks p) pend ts"

definition rickRoll :: "Terminal \<Rightarrow> Terminal \<Rightarrow> CommandResult list \<times> Terminal" where
  \<open>rickRoll snap pend =
     ([CommandResult System (Text (''['' @ userName snap @ ''@'' @ hostName snap @ '' ''
                                    @ currentDirectory snap @ '']# rm -rf /*'')),
       CommandResult Success (Text ''{U+6B63}{U+5728}{U+522A}{U+9664}{U+6A94}{U+6848}...{U+8ACB}{U+7A0D}{U+5019}'')],
      scheduleAll (rickRoll_timers snap) pend)\<close>

section \<open>The branches of \<^verbatim>\<open>processCommand\<close>\<close>

text \<open>
  Each branch reads the snapshot \<open>snap\<close> of the render and writes the pending state
  \<open>pend\<close>. The branches that cannot throw return their records and the pending state; the
  others return a sum.
\<close>

subsection \<open>Service start and the restricted mode\<close>

definition basicCommands :: "string list" where
  "basicCommands = [''help'', ''clear'', ''echo'', ''exit'', ''deviser'', ''ls'', ''cd'', ''cat'',
     ''pwd'', ''whoami'', ''date'', ''uname'', ''lang'']"

text \<open>\<^verbatim>\<open>hiddenFolders\<close> of \<^verbatim>\<open>ls\<close> and \<^verbatim>\<open>restrictedFolders\<close> of \<^verbatim>\<open>cd\<close> and \<^verbatim>\<open>cat\<close>: the same
  five names in the source.\<close>

definition hiddenFolders :: "string list" where
  "hiddenFolders = [''about'', ''skills'', ''projects'', ''contact'', ''.github'']"

definition restrictedFolders :: "string list" where
  "restrictedFolders = [''about'', ''skills'', ''projects'', ''contact'', ''.github'']"

text \<open>
  \<^verbatim>\<open>deviser start\<close> in the restricted mode. The asynchronous \<^verbatim>\<open>runBootSequence\<close> runs up to
  its first \<^verbatim>\<open>await\<close> inside the call (it pushes the entry of the start message); the rest
  are timers: five messages 600 ms apart, the success message 800 ms later, after another
  second the history is cleared and the boot flag reset, and 100 ms later the welcome line
  is installed.
\<close>

definition runBootSequence_timers :: "Terminal \<Rightarrow> (nat \<times> Task list) list" where
  \<open>runBootSequence_timers snap =
     map (\<lambda>i. (600 * (i + 1),
               [AppendToLast (\<lambda>clk. [CommandResult System
                  (Text (case bootMessages ! i of (zh, en) \<Rightarrow> byLang snap zh en))])]))
       [0..<length bootMessages]
     @ [(3800, [AppendToLast (\<lambda>clk. [CommandResult Success (Text ''deviser {U+670D}{U+52D9}{U+5DF2}{U+555F}{U+52D5}{U+FF01}'')])]),
        (4800, [SetOutputHistory [], SetIsBooting False]),
        (4900, [SetOutputHistory [('''',
           [CommandResult Success (Text (byLang snap
              ''{U+2713} deviser {U+670D}{U+52D9}{U+5DF2}{U+6210}{U+529F}{U+555F}{U+52D5}{U+FF01}{U+8F38}{U+5165} "help" {U+67E5}{U+770B}{U+53EF}{U+7528}{U+547D}{U+4EE4}{U+3002}''
              ''{U+2713} deviser service started successfully! Type "help" to see available commands.''))])]])]\<close>

definition processCommand_deviserStart :: "Terminal \<Rightarrow> Terminal \<Rightarrow> CommandResult list \<times> Terminal" where
  \<open>processCommand_deviserStart snap pend =
     (if isFullFeatured snap
      then ([CommandResult Info (Text ''deviser {U+670D}{U+52D9}{U+5DF2}{U+7D93}{U+555F}{U+52D5}{U+FF01}'')], pend)
      else (let p1 = pend\<lparr>isFullFeatured := True\<rparr>;
                p2 = p1\<lparr>userName := ''deviser''\<rparr>;
                p3 = p2\<lparr>isBooting := True\<rparr>;
                p4 = p3\<lparr>bootStage := 0\<rparr>;
                p5 = p4\<lparr>outputHistory := outputHistory p4 @
                        [(''deviser start'', [CommandResult System (Text ''{U+6B63}{U+5728}{U+555F}{U+52D5} deviser {U+670D}{U+52D9}...'')])]\<rparr>
            in ([], scheduleAll (runBootSequence_timers snap) p5)))\<close>

definition processCommand_unknown :: "Terminal \<Rightarrow> string \<Rightarrow> CommandResult list" where
  \<open>processCommand_unknown snap command =
     [CommandResult Error (Text (byLang snap (''{U+672A}{U+77E5}{U+7684}{U+547D}{U+4EE4}: '' @ command) (''Unknown command: '' @ command))),
      CommandResult Info (Text (byLang snap ''{U+63D0}{U+793A}: {U+8F38}{U+5165} "deviser start" {U+4EE5}{U+555F}{U+52D5} deviser {U+670D}{U+52D9}''
                                            ''Tip: Type "deviser start" to start deviser service'')),
      CommandResult Info (Text (byLang snap ''{U+8F38}{U+5165} "help" {U+67E5}{U+770B}{U+57FA}{U+672C}{U+547D}{U+4EE4}{U+5217}{U+8868}''
                                            ''Type "help" to see basic command list''))]\<close>

definition processCommand_basicHelp :: "Terminal \<Rightarrow> CommandResult list" where
  \<open>processCommand_basicHelp snap =
     (if language snap = zh_TW
      then [CommandResult System (Text ''=== {U+57FA}{U+672C}{U+547D}{U+4EE4}{U+5217}{U+8868} ===''),
            CommandResult Success (Text ''help        - {U+986F}{U+793A}{U+6B64}{U+5E6B}{U+52A9}{U+4FE1}{U+606F}''),
            CommandResult Success (Text ''ls          - {U+5217}{U+51FA}{U+7576}{U+524D}{U+76EE}{U+9304}{U+5167}{U+5BB9}''),
            CommandResult Success (Text ''cd [{U+76EE}{U+9304}]    - {U+5207}{U+63DB}{U+76EE}{U+9304}''),
            CommandResult Success (Text ''cat [{U+6A94}{U+6848}]   - {U+986F}{U+793A}{U+6A94}{U+6848}{U+5167}{U+5BB9}''),
            CommandResult Success (Text ''pwd         - {U+986F}{U+793A}{U+7576}{U+524D}{U+8DEF}{U+5F91}''),
            CommandResult Success (Text ''whoami      - {U+986F}{U+793A}{U+7576}{U+524D}{U+4F7F}{U+7528}{U+8005}''),
            CommandResult Success (Text ''date        - {U+986F}{U+793A}{U+7576}{U+524D}{U+65E5}{U+671F}''),
            CommandResult Success (Text ''clear       - {U+6E05}{U+9664}{U+756B}{U+9762}''),
            CommandResult Success (Text ''echo [{U+6587}{U+5B57}]  - {U+986F}{U+793A}{U+6587}{U+5B57}''),
            CommandResult Success (Text ''uname       - {U+986F}{U+793A}{U+7CFB}{U+7D71}{U+8CC7}{U+8A0A}''),
            CommandResult Success (Text ''lang        - {U+5207}{U+63DB}{U+8A9E}{U+8A00} ({U+4E2D}{U+6587}/{U+82F1}{U+6587})''),
            CommandResult Success (Text ''deviser start - {U+555F}{U+52D5} deviser {U+670D}{U+52D9}''),
            CommandResult Success (Text ''exit        - {U+96E2}{U+958B}{U+7D42}{U+7AEF}{U+6A5F}''),
            CommandResult Info (Text ''{U+63D0}{U+793A}: {U+8F38}{U+5165} "deviser start" {U+4EE5}{U+555F}{U+52D5} deviser {U+670D}{U+52D9}{U+4EE5}{U+986F}{U+793A}{U+66F4}{U+591A}{U+5167}{U+5BB9}'')]
      else [CommandResult System (Text ''=== Basic Command List ===''),
            CommandResult Success (Text ''help        - Show this help message''),
            CommandResult Success (Text ''ls          - List directory contents''),
            CommandResult Success (Text ''cd [dir]    - Change directory''),
            CommandResult Success (Text ''cat [file]  - Show file contents''),
            CommandResult Success (Text ''pwd         - Print working directory''),
            CommandResult Success (Text ''whoami      - Show current user''),
            CommandResult Success (Text ''date        - Show current date''),
            CommandResult Success (Text ''clear       - Clear screen''),
            CommandResult Success (Text ''echo [text] - Display text''),
            CommandResult Success (Text ''uname       - Display system information''),
            CommandResult Success (Text ''lang        - Change language (Chinese/English)''),
            CommandResult Success (Text ''deviser start - Start deviser service''),
            CommandResult Success (Text ''exit        - Exit terminal''),
            CommandResult Info (Text ''Tip: Type "deviser start" to start deviser service and see more content'')])\<close>

subsection \<open>The informational commands\<close>

definition processCommand_help :: "Terminal \<Rightarrow> CommandResult list" where
  \<open>processCommand_help snap =
     [CommandResult System (Text (getText snap ''help_title'' [])),
      CommandResult Success (Text (getText snap ''help_ls'' [])),
      CommandResult Success (Text (getText snap ''help_cd'' [])),
      CommandResult Success (Text (getText snap ''help_cat'' [])),
      CommandResult Success (Text (getText snap ''help_pwd'' [])),
      CommandResult Success (Text (getText snap ''help_whoami'' [])),
      CommandResult Success (Text (getText snap ''help_date'' [])),
      CommandResult Success (Text (getText snap ''help_man'' [])),
      CommandResult Success (Text (getText snap ''help_echo'' [])),
      CommandResult Success (Text (getText snap ''help_uname'' [])),
      CommandResult Success (Text (getText snap ''help_find'' [])),
      CommandResult Success (Text (getText snap ''help_mkdir'' [])),
      CommandResult Success (Text (getText snap ''help_github'' [])),
      CommandResult Success (Text (getText snap ''help_theme'' [])),
      CommandResult Success (Text (getText snap ''help_lang'' [])),
      CommandResult Success (Text (getText snap ''help_clear'' [])),
      CommandResult Success (Text (getText snap ''help_exit'' [])),
      CommandResult Info (Text (getText snap ''help_shortcuts'' [])),
      CommandResult Info (Text (getText snap ''help_ctrl_c'' [])),
      CommandResult Info (Text (getText snap ''help_ctrl_l'' [])),
      CommandResult Info (Text (getText snap ''help_ctrl_d'' [])),
      CommandResult Info (Text (getText snap ''help_ctrl_u'' [])),
      CommandResult Info (Text (getText snap ''help_tab'' [])),
      CommandResult Info (Text (getText snap ''help_arrows'' []))]\<close>

text \<open>\<^verbatim>\<open>about\<close>, \<^verbatim>\<open>skills\<close>, \<^verbatim>\<open>projects\<close> and \<^verbatim>\<open>contact\<close> are four copies of one branch; they
  differ in the directory, the two titles and the example.\<close>

definition processCommand_section ::
  "Terminal \<Rightarrow> string \<Rightarrow> string \<Rightarrow> string \<Rightarrow> string \<Rightarrow> CommandResult list" where
  \<open>processCommand_section snap dir zhTitle enTitle example =
     (if currentDirectory snap \<noteq> ''~/'' @ dir
      then [CommandResult Info (Text (getText snap ''nav_switch_to_dir'' [dir])),
            CommandResult Info (Text (getText snap ''nav_use_cd'' [dir]))]
      else [CommandResult Info (Text (''====== '' @ byLang snap zhTitle enTitle @ '' ======'')),
            CommandResult Success (Text (getText snap ''nav_use_ls'' [])),
            CommandResult Success (Text (getText snap ''nav_example'' [example]))])\<close>

definition processCommand_github :: "CommandResult list" where
  \<open>processCommand_github =
     [CommandResult Info (Text ''====== GitHub {U+8CC7}{U+8A0A} ======''),
      CommandResult Success (Text ''{U+7528}{U+6236}{U+540D}: Thetoicxdude''),
      CommandResult Success (Text ''{U+500B}{U+4EBA}{U+6A94}{U+6848}: https://github.com/Thetoicxdude''),
      CommandResult Success (Text ''{U+5132}{U+5B58}{U+5EAB}{U+6578}{U+91CF}: 11''),
      CommandResult Success (Text ''{U+6210}{U+5C31}: Pull Shark''),
      CommandResult Success (Text ''{U+4E3B}{U+8981}{U+5C08}{U+6848}:''),
      CommandResult Success (Text ''- Ai-transformer: AI {U+6A21}{U+578B}{U+7814}{U+7A76}''),
      CommandResult Success (Text ''- crowdfunding-platform: {U+773E}{U+7C4C}{U+5E73}{U+53F0}''),
      CommandResult Success (Text ''- Implicit-sentiment-analysis-model: {U+60C5}{U+611F}{U+5206}{U+6790}''),
      CommandResult Success (Text ''- Zu-discord-bot: Discord {U+6A5F}{U+5668}{U+4EBA}''),
      CommandResult System (Text ''{U+53EF}{U+4EE5}{U+4F7F}{U+7528} "cd .github" {U+548C} "cat profile.txt" {U+67E5}{U+770B}{U+66F4}{U+591A}{U+8CC7}{U+8A0A}'')]\<close>

definition processCommand_pwd :: "Terminal \<Rightarrow> CommandResult list" where
  \<open>processCommand_pwd snap =
     [CommandResult Success (Text
        (if currentDirectory snap = ''~'' then ''/home/'' @ userName snap
         else ''/home/'' @ userName snap @ drop 1 (currentDirectory snap)))]\<close>

definition processCommand_whoami :: "Terminal \<Rightarrow> CommandResult list" where
  \<open>processCommand_whoami snap =
     [CommandResult Success (Text (if isRoot snap then ''root'' else userName snap))]\<close>

definition processCommand_find :: "string list \<Rightarrow> CommandResult list" where
  \<open>processCommand_find args =
     (if args = [] then [CommandResult Error (Text ''find: {U+7F3A}{U+5C11}{U+8DEF}{U+5F91}{U+548C}{U+8868}{U+9054}{U+5F0F}'')]
      else [CommandResult Error (Text ''{U+76EE}{U+524D}{U+5C1A}{U+672A}{U+652F}{U+63F4} find {U+547D}{U+4EE4}{U+7684}{U+5B8C}{U+6574}{U+529F}{U+80FD}'')])\<close>

definition processCommand_man :: "Terminal \<Rightarrow> string list \<Rightarrow> CommandResult list" where
  \<open>processCommand_man snap args =
     (case args of
        [] \<Rightarrow> [CommandResult Error (Text ''{U+4F60}{U+5FC5}{U+9808}{U+6307}{U+5B9A}{U+4E00}{U+500B}{U+624B}{U+518A}{U+9801}{U+3002}'')]
      | page # rest \<Rightarrow>
          if page = ''ls'' then
            [CommandResult Info (Text ''LS(1)                   {U+7528}{U+6236}{U+547D}{U+4EE4}                   LS(1)''),
             CommandResult System (Text ''{U+540D}{U+7A31}''),
             CommandResult Success (Text ''       ls - {U+5217}{U+51FA}{U+76EE}{U+9304}{U+5167}{U+5BB9}''),
             CommandResult System (Text ''{U+7C21}{U+4ECB}''),
             CommandResult Success (Text ''       ls [{U+9078}{U+9805}]... [{U+6A94}{U+6848}]...''),
             CommandResult System (Text ''{U+63CF}{U+8FF0}''),
             CommandResult Success (Text ''       {U+5217}{U+51FA}{U+6307}{U+5B9A}{U+6A94}{U+6848}{U+7684}{U+8CC7}{U+8A0A}{U+FF08}{U+9810}{U+8A2D}{U+70BA}{U+76EE}{U+524D}{U+7684}{U+76EE}{U+9304}{U+FF09}{U+3002}''),
             CommandResult Success (Text ''       {U+5982}{U+679C}{U+6C92}{U+6709}{U+9078}{U+9805}{U+FF0C}{U+5247}{U+6703}{U+4EE5}{U+5B57}{U+6BCD}{U+9806}{U+5E8F}{U+6392}{U+5217}{U+9805}{U+76EE}{U+3002}''),
             CommandResult System (Text ''{U+9078}{U+9805}''),
             CommandResult Success (Text ''       -a, --all''),
             CommandResult Success (Text ''              {U+4E0D}{U+96B1}{U+85CF}{U+4EE5} . {U+958B}{U+982D}{U+7684}{U+9805}{U+76EE}''),
             CommandResult Success (Text ''       -l     {U+4F7F}{U+7528}{U+8F03}{U+9577}{U+683C}{U+5F0F}{U+5217}{U+51FA}''),
             CommandResult Info (Text ''{U+6309} q {U+96E2}{U+958B}'')]
          else if page = ''cd'' then
            [CommandResult Info (Text (byLang snap ''CD(1)                    {U+7528}{U+6236}{U+547D}{U+4EE4}                   CD(1)'' ''CD(1)                 User Commands                 CD(1)'')),
             CommandResult System (Text (byLang snap ''{U+540D}{U+7A31}'' ''NAME'')),
             CommandResult Success (Text (byLang snap ''       cd - {U+8B8A}{U+66F4}{U+76EE}{U+9304}'' ''       cd - change directory'')),
             CommandResult System (Text (byLang snap ''{U+7C21}{U+4ECB}'' ''SYNOPSIS'')),
             CommandResult Success (Text (byLang snap ''       cd [{U+76EE}{U+9304}]'' ''       cd [directory]'')),
             CommandResult System (Text (byLang snap ''{U+63CF}{U+8FF0}'' ''DESCRIPTION'')),
             CommandResult Success (Text (byLang snap ''       {U+8B8A}{U+66F4}{U+7576}{U+524D}{U+5DE5}{U+4F5C}{U+76EE}{U+9304}{U+70BA}{U+6307}{U+5B9A}{U+7684}{U+76EE}{U+9304}{U+3002}'' ''       Change the current working directory to the specified directory.'')),
             CommandResult Success (Text (byLang snap ''       {U+9810}{U+8A2D}{U+7684}{U+76EE}{U+9304}{U+662F} HOME shell {U+8B8A}{U+6578}{U+7684}{U+503C}{U+3002}'' ''       The default directory is the value of the HOME shell variable.'')),
             CommandResult Info (Text (byLang snap ''{U+6309} q {U+96E2}{U+958B}'' ''Press q to exit''))]
          else [CommandResult Error (Text (''{U+6C92}{U+6709} '' @ page @ '' {U+7684}{U+624B}{U+518A}{U+9801}{U+3002}''))])\<close>

definition processCommand_echo :: "string list \<Rightarrow> CommandResult list" where
  \<open>processCommand_echo args =
     (if args = [] then [CommandResult Success (Text '''')]
      else [CommandResult Success (Text (join '' '' args))])\<close>

definition processCommand_uname :: "Clock \<Rightarrow> string list \<Rightarrow> CommandResult list" where
  \<open>processCommand_uname clk args =
     (if ''-a'' \<in> set args
      then [CommandResult Success (Text (''DeviOS 1.0.0 #1 SMP '' @ toLocaleString clk
                                          @ '' x86_64 Personal Website Terminal''))]
      else [CommandResult Success (Text ''DeviOS'')])\<close>

definition processCommand_exit :: "Terminal \<Rightarrow> CommandResult list" where
  \<open>processCommand_exit snap =
     [CommandResult System (Text (getText snap ''sys_logout'' [])),
      CommandResult System (Text (getText snap ''sys_goodbye'' []))]\<close>

text \<open>\<^verbatim>\<open>groups[0]\<close> of an empty array is \<^verbatim>\<open>undefined\<close>, printed as that word.\<close>

definition processCommand_id :: "Terminal \<Rightarrow> CommandResult list" where
  \<open>processCommand_id snap =
     [CommandResult Success (Text
        (''uid='' @ (if isRoot snap then ''0'' else ''1000'')
         @ ''('' @ (if isRoot snap then ''root'' else userName snap)
         @ '') gid=1000('' @ (case groups snap of [] \<Rightarrow> ''undefined'' | g # gs \<Rightarrow> g)
         @ '') {U+7FA4}{U+7D44}='' @ join '','' (groups snap)))]\<close>

subsection \<open>\<^verbatim>\<open>ls\<close>\<close>

definition isDirectoryKey :: "(string \<times> FileSystemItem) list \<Rightarrow> string \<Rightarrow> bool" where
  "isDirectoryKey dirContent a =
     (case map_of dirContent a of Some (DirectoryItem c p ow g m) \<Rightarrow> True | _ \<Rightarrow> False)"

text \<open>The comparison function passed to \<^verbatim>\<open>items.sort\<close>.\<close>

definition ls_compare :: "(string \<times> FileSystemItem) list \<Rightarrow> string \<Rightarrow> string \<Rightarrow> int" where
  "ls_compare dirContent a b =
     (let aIsDir = isDirectoryKey dirContent a;
          bIsDir = isDirectoryKey dirContent b
      in if aIsDir \<and> \<not> bIsDir then - 1
         else if \<not> aIsDir \<and> bIsDir then 1
         else localeCompare a b)"

text \<open>One element of the fragment \<^verbatim>\<open>lsResult\<close>.\<close>

definition ls_entry :: "(string \<times> FileSystemItem) list \<Rightarrow> bool \<Rightarrow> string \<Rightarrow> LsEntry" where
  "ls_entry dirContent showDetails item =
     LsEntry item (isDirectoryKey dirContent item)
       (if showDetails
        then (case map_of dirContent item of
                Some fsItem \<Rightarrow> Some (permissions fsItem, owner fsItem, groupName fsItem)
              | None \<Rightarrow> None)
        else None)"

definition ls_showHidden :: "string list \<Rightarrow> bool" where
  "ls_showHidden args = (''-a'' \<in> set args \<or> ''-la'' \<in> set args \<or> ''-al'' \<in> set args)"

definition ls_showDetails :: "string list \<Rightarrow> bool" where
  "ls_showDetails args = (''-l'' \<in> set args \<or> ''-la'' \<in> set args \<or> ''-al'' \<in> set args)"

text \<open>The names listed, after the two filters and the sort. \<^verbatim>\<open>Object.keys\<close> gives the keys of
  the directory (a JavaScript object has each key once).\<close>

definition ls_items :: "Terminal \<Rightarrow> (string \<times> FileSystemItem) list \<Rightarrow> string list \<Rightarrow> string list" where
  "ls_items snap dirContent args =
     (let items0 = map fst dirContent;
          items1 = (if \<not> ls_showHidden args then filter (\<lambda>item. \<not> startsWith item ''.'') items0
                    else items0);
          items2 = (if \<not> isFullFeatured snap then filter (\<lambda>item. item \<notin> set hiddenFolders) items1
                    else items1)
      in sortBy (ls_compare dirContent) items2)"

definition processCommand_ls :: "Terminal \<Rightarrow> string list \<Rightarrow> CommandResult list" where
  \<open>processCommand_ls snap args =
     (case getCurrentDirectoryContent snap of
        None \<Rightarrow> [CommandResult Error (Text (''{U+7121}{U+6CD5}{U+7372}{U+53D6}{U+76EE}{U+9304}{U+5167}{U+5BB9}: '' @ currentDirectory snap))]
      | Some currentDirContent \<Rightarrow>
          if ''--help'' \<in> set args then
            [CommandResult System (Text (byLang snap ''LS(1)                   {U+7528}{U+6236}{U+547D}{U+4EE4}                   LS(1)'' ''LS(1)                 User Commands                 LS(1)'')),
             CommandResult System (Text (byLang snap ''{U+540D}{U+7A31}'' ''NAME'')),
             CommandResult Success (Text (byLang snap ''       ls - {U+5217}{U+51FA}{U+76EE}{U+9304}{U+5167}{U+5BB9}'' ''       ls - list directory contents'')),
             CommandResult System (Text (byLang snap ''{U+7C21}{U+4ECB}'' ''SYNOPSIS'')),
             CommandResult Success (Text (byLang snap ''       ls [{U+9078}{U+9805}]... [{U+6A94}{U+6848}]...'' ''       ls [OPTION]... [FILE]...'')),
             CommandResult System (Text (byLang snap ''{U+63CF}{U+8FF0}'' ''DESCRIPTION'')),
             CommandResult Success (Text (byLang snap ''       {U+5217}{U+51FA}{U+6307}{U+5B9A}{U+6A94}{U+6848}{U+7684}{U+8CC7}{U+8A0A}{U+FF08}{U+9810}{U+8A2D}{U+70BA}{U+76EE}{U+524D}{U+7684}{U+76EE}{U+9304}{U+FF09}{U+3002}'' ''       List information about the FILEs (the current directory by default).'')),
             CommandResult Success (Text (byLang snap ''       {U+5982}{U+679C}{U+6C92}{U+6709}{U+9078}{U+9805}{U+FF0C}{U+5247}{U+6703}{U+4EE5}{U+5B57}{U+6BCD}{U+9806}{U+5E8F}{U+6392}{U+5217}{U+9805}{U+76EE}{U+3002}'' ''       Sort entries alphabetically if none of -cftuvSUX nor --sort is specified.'')),
             CommandResult System (Text (byLang snap ''{U+9078}{U+9805}'' ''OPTIONS'')),
             CommandResult Success (Text (byLang snap ''       -a, --all'' ''       -a, --all'')),
             CommandResult Success (Text (byLang snap ''              {U+4E0D}{U+96B1}{U+85CF}{U+4EE5} . {U+958B}{U+982D}{U+7684}{U+9805}{U+76EE}'' ''              do not ignore entries starting with .'')),
             CommandResult Success (Text (byLang snap ''       -l     {U+4F7F}{U+7528}{U+8F03}{U+9577}{U+683C}{U+5F0F}{U+5217}{U+51FA}'' ''       -l     use a long listing format'')),
             CommandResult Info (Text (byLang snap ''{U+6309} q {U+96E2}{U+958B}'' ''Press q to exit''))]
          else (let items = ls_items snap currentDirContent args
                in if items = [] then [CommandResult Success (Text '''')]
                   else [CommandResult Success
                           (Listing (map (ls_entry currentDirContent (ls_showDetails args)) items))]))\<close>

subsection \<open>\<^verbatim>\<open>cd\<close>\<close>

definition cd_noSuchDirectory :: "Terminal \<Rightarrow> string \<Rightarrow> CommandResult" where
  \<open>cd_noSuchDirectory snap target =
     CommandResult Error (Text (byLang snap (''cd: '' @ target @ '': {U+6C92}{U+6709}{U+6B64}{U+76EE}{U+9304}'')
                                            (''cd: '' @ target @ '': No such directory'')))\<close>

text \<open>The last two branches: the new path is looked up, and only when a directory is found
  are the previous and the current directory set.\<close>

definition cd_enter :: "Terminal \<Rightarrow> Terminal \<Rightarrow> string \<Rightarrow> string \<Rightarrow> exn + CommandResult list \<times> Terminal" where
  "cd_enter snap pend target newPath =
     (case getDirectoryFromPath (fileSystem snap) newPath of
        Inl e \<Rightarrow> Inl e
      | Inr None \<Rightarrow> Inr ([cd_noSuchDirectory snap target], pend)
      | Inr (Some dir) \<Rightarrow>
          Inr ([], pend\<lparr>previousDirectory := Some (currentDirectory snap),
                        currentDirectory := newPath\<rparr>))"

text \<open>\<^verbatim>\<open>!previousDirectory\<close> holds for \<^verbatim>\<open>null\<close> and for the empty string.\<close>

definition processCommand_cd :: "Terminal \<Rightarrow> Terminal \<Rightarrow> string list \<Rightarrow> exn + CommandResult list \<times> Terminal" where
  \<open>processCommand_cd snap pend args =
     (case args of
        [] \<Rightarrow> Inr ([], pend\<lparr>currentDirectory := ''~''\<rparr>)
      | target # rest \<Rightarrow>
          if \<not> isFullFeatured snap \<and> target \<in> set restrictedFolders
          then Inr ([cd_noSuchDirectory snap target], pend)
          else if target = ''..'' then
            (if currentDirectory snap = ''~'' then Inr ([], pend)
             else (let parts = butlast (js_split CHR ''/'' (currentDirectory snap))
                   in if parts = [''~''] then Inr ([], pend\<lparr>currentDirectory := ''~''\<rparr>)
                      else Inr ([], pend\<lparr>currentDirectory := join ''/'' parts\<rparr>)))
          else if target = ''-'' then
            (case previousDirectory snap of
               None \<Rightarrow> Inr ([CommandResult Error (Text (byLang snap ''cd: {U+6C92}{U+6709}{U+5148}{U+524D}{U+7684}{U+76EE}{U+9304}''
                                                                    ''cd: no previous directory''))], pend)
             | Some previous \<Rightarrow>
                 if previous = []
                 then Inr ([CommandResult Error (Text (byLang snap ''cd: {U+6C92}{U+6709}{U+5148}{U+524D}{U+7684}{U+76EE}{U+9304}''
                                                                   ''cd: no previous directory''))], pend)
                 else Inr ([CommandResult System (Text previous)],
                           pend\<lparr>currentDirectory := previous,
                                 previousDirectory := Some (currentDirectory snap)\<rparr>))
          else if startsWith target ''/''
          then cd_enter snap pend target (if target = ''/'' then ''~'' else ''~'' @ target)
          else cd_enter snap pend target
                 (if currentDirectory snap = ''~'' then ''~/'' @ target
                  else currentDirectory snap @ ''/'' @ target))\<close>

subsection \<open>\<^verbatim>\<open>cat\<close>\<close>

definition cat_noSuchFile :: "Terminal \<Rightarrow> string \<Rightarrow> CommandResult" where
  \<open>cat_noSuchFile snap arg =
     CommandResult Error (Text (byLang snap (''cat: '' @ arg @ '': {U+6A94}{U+6848}{U+4E0D}{U+5B58}{U+5728}'')
                                            (''cat: '' @ arg @ '': No such file'')))\<close>

text \<open>The download of \<^verbatim>\<open>resume.pdf\<close>: after 500 ms an interval of 200 ms replaces the result
  of the last entry ten times with the progress bar; its eleventh tick stops it and 500 ms
  later two records are appended.\<close>

definition resume_timers :: "Terminal \<Rightarrow> (nat \<times> Task list) list" where
  \<open>resume_timers snap =
     map (\<lambda>k. (500 + 200 * k,
               [ReplaceLast
                  [CommandResult System (Text (byLang snap ''{U+6B63}{U+5728}{U+4E0B}{U+8F09} resume.pdf...'' ''Downloading resume.pdf...'')),
                   CommandResult System (Text (''['' @ replicate k CHR ''='' @ replicate (10 - k) CHR '' ''
                                                @ ''] '' @ toDecimal (10 * k) @ ''%''))]]))
       [1..<11]
     @ [(3200, [AppendToLast (\<lambda>clk.
           [CommandResult Success (Text (byLang snap ''{U+4E0B}{U+8F09}{U+5B8C}{U+6210}{U+FF01}{U+6A94}{U+6848}{U+5DF2}{U+5132}{U+5B58}{U+81F3}{U+60A8}{U+7684}{U+7CFB}{U+7D71}{U+3002}''
                                                     ''Download complete! File saved to your system.'')),
            CommandResult System (Text (byLang snap ''[PDF {U+6587}{U+4EF6}{U+5167}{U+5BB9} - {U+986F}{U+793A}{U+70BA}{U+4E8C}{U+9032}{U+5236}]''
                                                    ''[PDF content - displayed as binary]''))])])]\<close>

definition processCommand_cat :: "Terminal \<Rightarrow> Terminal \<Rightarrow> string list \<Rightarrow> CommandResult list \<times> Terminal" where
  \<open>processCommand_cat snap pend args =
     (case args of
        [] \<Rightarrow> ([CommandResult Error (Text (byLang snap ''cat: {U+7F3A}{U+5C11}{U+6A94}{U+6848}{U+540D}{U+7A31}'' ''cat: missing file name''))], pend)
      | arg # rest \<Rightarrow>
          if \<not> isFullFeatured snap \<and> CHR ''/'' \<in> set arg
             \<and> (case js_split CHR ''/'' arg of [] \<Rightarrow> False | firstDir # ds \<Rightarrow> firstDir \<in> set restrictedFolders)
          then ([cat_noSuchFile snap arg], pend)
          else if arg = ''resume.pdf''
          then ([CommandResult System (Text (byLang snap ''{U+6E96}{U+5099}{U+4E0B}{U+8F09} resume.pdf...'' ''Preparing to download resume.pdf...'')),
                 CommandResult System (Text ''[          ] 0%'')],
                scheduleAll (resume_timers snap) pend)
          else (case getFileContent snap arg of
                  Some fileContent \<Rightarrow> (map (\<lambda>line. CommandResult Success (Text line)) fileContent, pend)
                | None \<Rightarrow> ([cat_noSuchFile snap arg], pend)))\<close>

subsection \<open>\<^verbatim>\<open>rm\<close>, \<^verbatim>\<open>sudo\<close> and the simulated mutations\<close>

definition processCommand_rm :: "Terminal \<Rightarrow> Terminal \<Rightarrow> string list \<Rightarrow> CommandResult list \<times> Terminal" where
  \<open>processCommand_rm snap pend args =
     (if ''-rf'' \<in> set args \<or> ''-fr'' \<in> set args
         \<or> (''-r'' \<in> set args \<and> ''-f'' \<in> set args)
         \<or> (''-f'' \<in> set args \<and> ''-r'' \<in> set args)
      then rickRoll snap pend
      else ([CommandResult Error (Text ''rm: {U+5371}{U+96AA}{U+64CD}{U+4F5C}{U+5DF2}{U+88AB}{U+7CFB}{U+7D71}{U+6514}{U+622A}{U+FF0C}{U+8ACB}{U+5C0F}{U+5FC3}{U+4F7F}{U+7528}{U+522A}{U+9664}{U+547D}{U+4EE4}{U+FF01}'')], pend))\<close>

definition processCommand_sudo :: "Terminal \<Rightarrow> Terminal \<Rightarrow> string list \<Rightarrow> CommandResult list \<times> Terminal" where
  \<open>processCommand_sudo snap pend args =
     (if args = [] then ([CommandResult Error (Text ''sudo: {U+7F3A}{U+5C11}{U+8981}{U+57F7}{U+884C}{U+7684}{U+547D}{U+4EE4}'')], pend)
      else (let p1 = pend\<lparr>sudoCommand := join '' '' args\<rparr>;
                p2 = p1\<lparr>isSudoPrompt := True\<rparr>
            in ([CommandResult System (Text (''[sudo] '' @ userName snap @ '' {U+7684}{U+5BC6}{U+78BC}:''))], p2)))\<close>

text \<open>The owner of what \<^verbatim>\<open>getFileSystemItem\<close> returned; the object \<^verbatim>\<open>fileSystem\<close> has none
  (\<^verbatim>\<open>undefined\<close>).\<close>

definition ownerOf :: "FsRef \<Rightarrow> string option" where
  "ownerOf r = (case r of TheFileSystem \<Rightarrow> None | Item item \<Rightarrow> Some (owner item))"

definition processCommand_chmod :: "Terminal \<Rightarrow> string list \<Rightarrow> exn + CommandResult list" where
  \<open>processCommand_chmod snap args =
     (case args of
        mode # targetPath # rest \<Rightarrow>
          (case getFileSystemItem snap targetPath of
             Inl e \<Rightarrow> Inl e
           | Inr None \<Rightarrow> Inr [CommandResult Error (Text (''chmod: '' @ targetPath @ '': {U+6A94}{U+6848}{U+4E0D}{U+5B58}{U+5728}''))]
           | Inr (Some chmodTarget) \<Rightarrow>
               if \<not> isRoot snap \<and> ownerOf chmodTarget \<noteq> Some (userName snap)
               then Inr [CommandResult Error (Text (''chmod: '' @ targetPath @ '': {U+6B0A}{U+9650}{U+4E0D}{U+8DB3}''))]
               else Inr [CommandResult Success (Text ((''{U+5DF2}{U+66F4}{U+6539} '' @ [CHR 0x27]) @ targetPath @ ([CHR 0x27] @ '' {U+7684}{U+6B0A}{U+9650}'')))])
      | _ \<Rightarrow> Inr [CommandResult Error (Text ''chmod: {U+7F3A}{U+5C11}{U+64CD}{U+4F5C}{U+6578}'')])\<close>

definition processCommand_chown :: "Terminal \<Rightarrow> string list \<Rightarrow> exn + CommandResult list" where
  \<open>processCommand_chown snap args =
     (case args of
        newOwner # chownPath # rest \<Rightarrow>
          if \<not> isRoot snap
          then Inr [CommandResult Error (Text ''chown: {U+9700}{U+8981}{U+7CFB}{U+7D71}{U+7BA1}{U+7406}{U+54E1}{U+6B0A}{U+9650}'')]
          else (case getFileSystemItem snap chownPath of
                  Inl e \<Rightarrow> Inl e
                | Inr None \<Rightarrow> Inr [CommandResult Error (Text (''chown: '' @ chownPath @ '': {U+6A94}{U+6848}{U+4E0D}{U+5B58}{U+5728}''))]
                | Inr (Some chownTarget) \<Rightarrow>
                    Inr [CommandResult Success
                           (Text ((''{U+5DF2}{U+66F4}{U+6539} '' @ [CHR 0x27]) @ chownPath @ ([CHR 0x27] @ '' {U+7684}{U+6240}{U+6709}{U+8005}{U+70BA} '' @ [CHR 0x27]) @ newOwner @ [CHR 0x27]))])
      | _ \<Rightarrow> Inr [CommandResult Error (Text ''chown: {U+7F3A}{U+5C11}{U+64CD}{U+4F5C}{U+6578}'')])\<close>

text \<open>\<^verbatim>\<open>touch\<close>: when the actor is not root the current directory is looked up a second time,
  with \<^verbatim>\<open>getDirectoryFromPath\<close>, for the permission check.\<close>

definition processCommand_touch :: "Terminal \<Rightarrow> string list \<Rightarrow> exn + CommandResult list" where
  \<open>processCommand_touch snap args =
     (case args of
        [] \<Rightarrow> Inr [CommandResult Error (Text ''touch: {U+7F3A}{U+5C11}{U+6A94}{U+6848}{U+64CD}{U+4F5C}{U+6578}'')]
      | touchPath # rest \<Rightarrow>
          (case getCurrentDirectoryContent snap of
             None \<Rightarrow> Inr [CommandResult Error (Text ((''touch: {U+7121}{U+6CD5}{U+5B58}{U+53D6} '' @ [CHR 0x27]) @ currentDirectory snap @ [CHR 0x27]))]
           | Some touchDir \<Rightarrow>
               if isRoot snap
               then Inr [CommandResult Success (Text ((''{U+5DF2}{U+5275}{U+5EFA} '' @ [CHR 0x27]) @ touchPath @ [CHR 0x27]))]
               else (case getDirectoryFromPath (fileSystem snap) (currentDirectory snap) of
                       Inl e \<Rightarrow> Inl e
                     | Inr dir \<Rightarrow>
                         (case checkPermission_cast snap dir Write of
                            Inl e \<Rightarrow> Inl e
                          | Inr allowed \<Rightarrow>
                              if \<not> allowed
                              then Inr [CommandResult Error (Text (''touch: '' @ touchPath @ '': {U+6B0A}{U+9650}{U+4E0D}{U+8DB3}''))]
                              else Inr [CommandResult Success (Text ((''{U+5DF2}{U+5275}{U+5EFA} '' @ [CHR 0x27]) @ touchPath @ [CHR 0x27]))]))))\<close>

text \<open>The \<^verbatim>\<open>switch\<close> has two cases labelled \<^verbatim>\<open>'mkdir'\<close>. The first one answers every call; the
  second (which would check the write permission and report success) is never reached.\<close>

definition processCommand_mkdir :: "CommandResult list" where
  \<open>processCommand_mkdir = [CommandResult Error (Text ''mkdir: {U+6B0A}{U+9650}{U+4E0D}{U+8DB3}{U+FF0C}{U+7121}{U+6CD5}{U+5EFA}{U+7ACB}{U+76EE}{U+9304}'')]\<close>

subsection \<open>\<^verbatim>\<open>lang\<close>\<close>

definition processCommand_lang :: "Terminal \<Rightarrow> Terminal \<Rightarrow> string list \<Rightarrow> CommandResult list \<times> Terminal" where
  \<open>processCommand_lang snap pend args =
     (case args of
        [] \<Rightarrow> ([CommandResult Info (Text (byLang snap ''{U+76EE}{U+524D}{U+8A9E}{U+8A00}{U+FF1A}{U+7E41}{U+9AD4}{U+4E2D}{U+6587}'' ''Current language: English'')),
                CommandResult Info (Text (byLang snap ''{U+7528}{U+6CD5}: lang [zh|en]'' ''Usage: lang [zh|en]''))], pend)
      | arg # rest \<Rightarrow>
          if toLowerCase arg = ''en'' then
            ([CommandResult System (Text ''Language changed to English'')],
             schedule 0 [SetOutputHistory [('''',
                 [CommandResult System (Text ''Language changed to English''),
                  CommandResult Info (Text ''Type "help" to see available commands.'')])]]
               (pend\<lparr>language := en_US\<rparr>))
          else if toLowerCase arg = ''zh'' then
            ([CommandResult System (Text ''{U+8A9E}{U+8A00}{U+5DF2}{U+5207}{U+63DB}{U+70BA}{U+4E2D}{U+6587}'')],
             schedule 0 [SetOutputHistory [('''',
                 [CommandResult System (Text ''{U+8A9E}{U+8A00}{U+5DF2}{U+5207}{U+63DB}{U+70BA}{U+4E2D}{U+6587}''),
                  CommandResult Info (Text ''{U+8F38}{U+5165} "help" {U+67E5}{U+770B}{U+53EF}{U+7528}{U+547D}{U+4EE4}'')])]]
               (pend\<lparr>language := zh_TW\<rparr>))
          else ([CommandResult Error (Text (byLang snap ((''{U+7121}{U+6548}{U+7684}{U+9078}{U+9805} -- '' @ [CHR 0x27]) @ arg @ [CHR 0x27])
                                                        ((''Invalid option -- '' @ [CHR 0x27]) @ arg @ [CHR 0x27]))),
                 CommandResult Info (Text (byLang snap ''{U+7528}{U+6CD5}: lang [zh|en]'' ''Usage: lang [zh|en]''))], pend))\<close>

subsection \<open>The default case\<close>

definition processCommand_default :: "Terminal \<Rightarrow> string \<Rightarrow> string \<Rightarrow> string list \<Rightarrow> CommandResult list" where
  \<open>processCommand_default snap cmd command args =
     (if js_includes cmd ''-''
      then [CommandResult Error (Text (command @ '': '' @ getText snap ''err_invalid_option'' []
                                        @ ('' -- '' @ [CHR 0x27]) @ join '' '' args @ [CHR 0x27]))]
      else [CommandResult Error (Text (command @ '': '' @ getText snap ''err_cmd_not_found'' []))])\<close>

section \<open>\<^verbatim>\<open>processCommand\<close>\<close>

text \<open>The \<^verbatim>\<open>switch\<close> on the lower-cased command name, in the order of its cases. The labels
  \<^verbatim>\<open>'exit'\<close> and \<^verbatim>\<open>'logout'\<close> share one case.\<close>

definition processCommand_switch ::
  "Clock \<Rightarrow> Terminal \<Rightarrow> Terminal \<Rightarrow> string \<Rightarrow> string \<Rightarrow> string list \<Rightarrow> exn + CommandResult list \<times> Terminal" where
  \<open>processCommand_switch clk snap pend cmd command args =
     (let name = toLowerCase command in
      if name = ''help'' then Inr (processCommand_help snap, pend)
      else if name = ''about'' then
        Inr (processCommand_section snap ''about'' ''{U+95DC}{U+65BC}{U+6211}'' ''About Me'' ''cat bio.txt'', pend)
      else if name = ''skills'' then
        Inr (processCommand_section snap ''skills'' ''{U+6280}{U+80FD}'' ''Skills'' ''cat frontend.txt'', pend)
      else if name = ''projects'' then
        Inr (processCommand_section snap ''projects'' ''{U+5C08}{U+6848}{U+5217}{U+8868}'' ''Project List'' ''cd terminal-portfolio'', pend)
      else if name = ''contact'' then
        Inr (processCommand_section snap ''contact'' ''{U+806F}{U+7D61}{U+65B9}{U+5F0F}'' ''Contact Information'' ''cat info.txt'', pend)
      else if name = ''github'' then Inr (processCommand_github, pend)
      else if name = ''theme'' then
        Inr ([CommandResult System (Text (getText snap ''sys_theme_changed'' []))],
             pend\<lparr>themeToggles := themeToggles pend + 1\<rparr>)
      else if name = ''clear'' then Inr ([], schedule 0 [SetOutputHistory []] pend)
      else if name = ''ls'' then Inr (processCommand_ls snap args, pend)
      else if name = ''pwd'' then Inr (processCommand_pwd snap, pend)
      else if name = ''whoami'' then Inr (processCommand_whoami snap, pend)
      else if name = ''date'' then Inr ([CommandResult Success (Text (toLocaleString clk))], pend)
      else if name = ''cd'' then processCommand_cd snap pend args
      else if name = ''cat'' then Inr (processCommand_cat snap pend args)
      else if name = ''mkdir'' then Inr (processCommand_mkdir, pend)
      else if name = ''find'' then Inr (processCommand_find args, pend)
      else if name = ''man'' then Inr (processCommand_man snap args, pend)
      else if name = ''echo'' then Inr (processCommand_echo args, pend)
      else if name = ''uname'' then Inr (processCommand_uname clk args, pend)
      else if name = ''exit'' \<or> name = ''logout'' then Inr (processCommand_exit snap, pend)
      else if name = ''rm'' then Inr (processCommand_rm snap pend args)
      else if name = ''sudo'' then Inr (processCommand_sudo snap pend args)
      else if name = ''id'' then Inr (processCommand_id snap, pend)
      else if name = ''chmod'' then
        (case processCommand_chmod snap args of Inl e \<Rightarrow> Inl e | Inr rs \<Rightarrow> Inr (rs, pend))
      else if name = ''chown'' then
        (case processCommand_chown snap args of Inl e \<Rightarrow> Inl e | Inr rs \<Rightarrow> Inr (rs, pend))
      else if name = ''touch'' then
        (case processCommand_touch snap args of Inl e \<Rightarrow> Inl e | Inr rs \<Rightarrow> Inr (rs, pend))
      else if name = ''lang'' then Inr (processCommand_lang snap pend args)
      else Inr (processCommand_default snap cmd command args, pend))\<close>

text \<open>The case labels of the \<^verbatim>\<open>switch\<close>.\<close>

definition switchLabels :: "string list" where
  "switchLabels = [''help'', ''about'', ''skills'', ''projects'', ''contact'', ''github'', ''theme'',
     ''clear'', ''ls'', ''pwd'', ''whoami'', ''date'', ''cd'', ''cat'', ''mkdir'', ''find'', ''man'', ''echo'',
     ''uname'', ''exit'', ''logout'', ''rm'', ''sudo'', ''id'', ''chmod'', ''chown'', ''touch'', ''lang'']"

text \<open>
  \<^verbatim>\<open>processCommand\<close> when no password is awaited: the checks for a pipe, a redirection and
  the prefix of a forced recursive delete, the split of the line at blanks into the command
  and its arguments (\<^verbatim>\<open>split\<close> never returns the empty array), the service start, the gate
  of the restricted mode, and the \<^verbatim>\<open>switch\<close>.
\<close>

definition processCommand_line ::
  "Clock \<Rightarrow> Terminal \<Rightarrow> Terminal \<Rightarrow> string \<Rightarrow> exn + CommandResult list \<times> Terminal" where
  \<open>processCommand_line clk snap pend cmd =
     (if js_includes cmd ''|''
      then Inr ([CommandResult Error (Text ''{U+76EE}{U+524D}{U+5C1A}{U+672A}{U+652F}{U+63F4}{U+7BA1}{U+9053}{U+529F}{U+80FD} (|)'')], pend)
      else if js_includes cmd ''>'' \<or> js_includes cmd ''>>''
      then Inr ([CommandResult Error (Text ''{U+76EE}{U+524D}{U+5C1A}{U+672A}{U+652F}{U+63F4}{U+91CD}{U+5B9A}{U+5411}{U+529F}{U+80FD} (> {U+6216} >>)'')], pend)
      else if startsWith cmd ''rm -rf'' \<or> startsWith cmd ''rm -fr''
      then Inr (rickRoll snap pend)
      else (case js_split CHR '' '' cmd of
              [] \<Rightarrow> Inr ([], pend)
            | command # args \<Rightarrow>
                if toLowerCase command = ''deviser''
                   \<and> (case args of [] \<Rightarrow> False | arg # rest \<Rightarrow> toLowerCase arg = ''start'')
                then Inr (processCommand_deviserStart snap pend)
                else if \<not> isFullFeatured snap
                        \<and> toLowerCase command \<notin> set basicCommands \<and> toLowerCase command \<noteq> ''''
                then Inr (processCommand_unknown snap command, pend)
                else if \<not> isFullFeatured snap \<and> toLowerCase command = ''help''
                then Inr (processCommand_basicHelp snap, pend)
                else processCommand_switch clk snap pend cmd command args))\<close>

text \<open>
  \<^verbatim>\<open>processCommand\<close>. While a password is awaited the line is compared with the fixed
  password. On a match the stored command is passed to \<^verbatim>\<open>processCommand\<close> again, inside the
  same call: the callee is the same closure, so it reads the same snapshot, in which
  \<^verbatim>\<open>isSudoPrompt\<close> is still true and \<^verbatim>\<open>isRoot\<close> still false. The counter read by the
  test \<^verbatim>\<open>passwordAttempts >= 2\<close> is the one of the snapshot; the functional update
  \<^verbatim>\<open>prev => prev + 1\<close> increments the pending one.
\<close>

partial_function (option) processCommand ::
  "Clock \<Rightarrow> Terminal \<Rightarrow> Terminal \<Rightarrow> string \<Rightarrow> (exn + CommandResult list \<times> Terminal) option" where
  [code]: \<open>processCommand clk snap pend cmd =
     (if isSudoPrompt snap then
        (let p1 = pend\<lparr>isSudoPrompt := False\<rparr> in
         if cmd = ''password'' then
           (let p2 = p1\<lparr>isRoot := True\<rparr>;
                originalCmd = sudoCommand snap;
                p3 = p2\<lparr>sudoCommand := ''''\<rparr>
            in Option.bind (processCommand clk snap p3 originalCmd)
                 (\<lambda>r. Some (case r of
                               Inl e \<Rightarrow> Inl e
                             | Inr (rs, p) \<Rightarrow> Inr (CommandResult System (Text '''') # rs, p))))
         else
           (let p2 = p1\<lparr>passwordAttempts := passwordAttempts p1 + 1\<rparr> in
            if passwordAttempts snap \<ge> 2 then
              (let p3 = p2\<lparr>passwordAttempts := 0\<rparr>;
                   p4 = p3\<lparr>sudoCommand := ''''\<rparr>
               in Some (Inr ([CommandResult Error (Text ''sudo: 3 {U+6B21}{U+932F}{U+8AA4}{U+7684}{U+5BC6}{U+78BC}{U+5617}{U+8A66}'')], p4)))
            else Some (Inr ([CommandResult Error (Text ''sudo: {U+8A8D}{U+8B49}{U+5931}{U+6557}'')], p2))))
      else Some (processCommand_line clk snap pend cmd))\<close>

text \<open>
  One call of the dispatcher in a render whose state is \<open>t\<close>: the snapshot and the pending
  state start equal, and the pending state returned holds the cells of the next render,
  which \<open>rerender\<close> stamps with its own time. (The submit handler of the form, which trims the
  line, skips an empty one and pushes the line with its records onto the output history, is
  not part of the dispatcher. When a call throws, the value keeps no state.)
\<close>

definition execute :: "Clock \<Rightarrow> Terminal \<Rightarrow> string \<Rightarrow> (exn + CommandResult list \<times> Terminal) option" where
  "execute clk t cmd = processCommand clk t t cmd"

section \<open>The permission rule in the words of the specification\<close>

text \<open>
  The specification states the check on the permission string split into three triplets
  (owner, group, other): one triplet is selected by the identity of the actor, first match
  first, and inside it the bit of the requested kind is read at offset 0, 1 or 2. This
  function is written from those words, to be compared with \<open>checkPermission\<close>.
\<close>

definition selectedTriplet :: "string \<Rightarrow> string \<Rightarrow> string \<Rightarrow> string \<Rightarrow> string list \<Rightarrow> string" where
  "selectedTriplet perms nodeOwner nodeGroup actor actorGroups =
     (if actor = nodeOwner then take 3 perms
      else if nodeGroup \<in> set actorGroups then take 3 (drop 3 perms)
      else take 3 (drop 6 perms))"

definition kindOffset :: "Access \<Rightarrow> nat" where
  "kindOffset kind = (case kind of Read \<Rightarrow> 0 | Write \<Rightarrow> 1 | Execute \<Rightarrow> 2)"

definition permissionRule ::
  "string \<Rightarrow> string \<Rightarrow> string \<Rightarrow> string \<Rightarrow> string list \<Rightarrow> bool \<Rightarrow> Access \<Rightarrow> bool" where
  "permissionRule perms nodeOwner nodeGroup actor actorGroups privileged kind =
     (privileged \<or>
      charAt (selectedTriplet perms nodeOwner nodeGroup actor actorGroups) (kindOffset kind)
        \<noteq> Some CHR ''-'')"

section \<open>Notions used in the statements\<close>

text \<open>The order the specification gives for a listing: directories before files, and names
  of one kind in the order of strings.\<close>

definition listingOrder :: "LsEntry \<Rightarrow> LsEntry \<Rightarrow> bool" where
  "listingOrder a b =
     ((entryIsDir a \<and> \<not> entryIsDir b)
      \<or> (entryIsDir a = entryIsDir b \<and> entryName a \<le> entryName b))"

text \<open>The names shown by the listings among some records.\<close>

definition listedNames :: "CommandResult list \<Rightarrow> string list" where
  "listedNames rs =
     concat (map (\<lambda>r. case rcontent r of Listing es \<Rightarrow> map entryName es | Text s \<Rightarrow> []) rs)"

text \<open>A record whose content is a string.\<close>

definition isText :: "CommandResult \<Rightarrow> bool" where
  "isText r = (case rcontent r of Text s \<Rightarrow> True | Listing es \<Rightarrow> False)"





text \<open>A current directory that is the home directory or a path below it.\<close>

definition belowHome :: "string \<Rightarrow> bool" where
  "belowHome dir = (dir = ''~'' \<or> startsWith dir ''~/'')"

text \<open>The current directory and the previous one, if any, are below the home directory.\<close>

definition directoriesBelowHome :: "Terminal \<Rightarrow> bool" where
  "directoriesBelowHome t =
     (belowHome (currentDirectory t)
      \<and> (case previousDirectory t of None \<Rightarrow> True | Some d \<Rightarrow> belowHome d))"

text \<open>
  A session: lines entered one after the other. After each line some timer callbacks fire
  and the component runs again, at a time of its own, before the next line is entered. The
  session ends without a state when a call throws or does not return.
\<close>

fun runSession :: "Clock \<Rightarrow> Terminal \<Rightarrow> (string \<times> Task list \<times> nat) list \<Rightarrow> Terminal option" where
  "runSession clk t [] = Some t"
| "runSession clk t ((line, fired, now) # rest) =
     (case execute clk t line of
        Some (Inr (rs, t')) \<Rightarrow> runSession clk (rerender now (fireAll clk fired t')) rest
      | _ \<Rightarrow> None)"

section \<open>Concrete sessions\<close>

text \<open>A reading of the clock, the session after \<^verbatim>\<open>deviser start\<close> was entered in the first
  render, and that session once every timer of the start-up sequence has fired. In these
  sessions the clock stands still: every reading in a handler is \<open>clock0\<close> and every render
  carries the stamp of the first.\<close>

definition clock0 :: Clock where
  "clock0 = \<lparr>toLocaleString = ''1/2/2025, 3:04:05 AM'', toISOString = ''2025-01-02T03:04:05.678Z''\<rparr>"

definition startedSession :: Terminal where
  "startedSession = snd (processCommand_deviserStart (initialTerminal 0) (initialTerminal 0))"

definition fullSession :: Terminal where
  "fullSession = fireAll clock0 (concat (map snd (timers startedSession))) startedSession"

text \<open>The full session after \<^verbatim>\<open>sudo chown root ~/resume.pdf\<close> was entered: a password is
  awaited.\<close>

definition awaitingSecret :: Terminal where
  "awaitingSecret = fullSession\<lparr>sudoCommand := ''chown root ~/resume.pdf'', isSudoPrompt := True\<rparr>"

text \<open>The full session after \<^verbatim>\<open>cd about\<close>.\<close>

definition inAbout :: Terminal where
  "inAbout = fullSession\<lparr>previousDirectory := Some ''~'', currentDirectory := ''~/about''\<rparr>"


text \<open>The first render and the full session after \<^verbatim>\<open>lang en\<close> was entered.\<close>

definition restrictedEnglish :: Terminal where
  "restrictedEnglish = snd (processCommand_lang (initialTerminal 0) (initialTerminal 0) [''en''])"

definition fullEnglish :: Terminal where
  "fullEnglish = snd (processCommand_lang fullSession fullSession [''en''])"

chapter \<open>Properties\<close>

section \<open>The permission check\<close>

lemma charAt_triplet:
  "i < 3 \<Longrightarrow> charAt (take 3 (drop k perms)) i = charAt perms (k + i)"
  by (auto simp: charAt_def)

text \<open>
  Claim C6. The permission check is a function of the permission string, the owner and the
  group of the node, the name and the groups of the actor, and the privileged flag, and of
  nothing else in the state: it is the rule of the specification. A privileged actor is
  allowed; otherwise the owner triplet is read when the actor is the owner, else the group
  triplet when the actor's groups contain the node's group, else the triplet of the others,
  and the answer is the one bit of the requested kind in that triplet.
\<close>

theorem checkPermission_is_permissionRule:
  "checkPermission t item kind =
     permissionRule (permissions item) (owner item) (groupName item)
       (userName t) (groups t) (isRoot t) kind"
proof (cases "isRoot t")
  case True
  then show ?thesis by (simp add: checkPermission_def permissionRule_def)
next
  case False
  have bit: "(charAt (take 3 (drop k perms)) i \<noteq> Some CHR ''-'') = (charAt perms (k + i) \<noteq> Some CHR ''-'')"
    if "i < 3" for perms :: string and i k
    using charAt_triplet [OF that] by simp
  have own: "(charAt (take 3 perms) i \<noteq> Some CHR ''-'') = (charAt perms i \<noteq> Some CHR ''-'')"
    if "i < 3" for perms :: string and i
    using bit [OF that, of 0 perms] by simp
  show ?thesis
  proof (cases kind)
    case Read
    show ?thesis
      using False bit [of 0 3 "permissions item"] bit [of 0 6 "permissions item"] own [of 0 "permissions item"]
      unfolding checkPermission_def permissionRule_def selectedTriplet_def kindOffset_def Let_def Read
      by simp
  next
    case Write
    show ?thesis
      using False bit [of 1 3 "permissions item"] bit [of 1 6 "permissions item"] own [of 1 "permissions item"]
      unfolding checkPermission_def permissionRule_def selectedTriplet_def kindOffset_def Let_def Write
      by simp
  next
    case Execute
    show ?thesis
      using False bit [of 2 3 "permissions item"] bit [of 2 6 "permissions item"] own [of 2 "permissions item"]
      unfolding checkPermission_def permissionRule_def selectedTriplet_def kindOffset_def Let_def Execute
      by simp
  qed
qed

text \<open>The triplets are not added up: the owner of a node whose owner triplet denies reading
  is denied, whatever the group and the other triplets allow.\<close>

lemma checkPermission_not_additive:
  "\<not> checkPermission ((initialTerminal 0)\<lparr>userName := ''deviser''\<rparr>)
       (FileItem [] None ''---rwxrwx'' ''deviser'' ''users'' 0) Read"
  by (simp add: checkPermission_def initialTerminal_def charAt_def)

section \<open>Setters, timers and the concrete sessions\<close>

lemma js_split_not_empty: "js_split sep s \<noteq> []"
  by (induction s) (auto split: list.splits)

lemma js_includes_single: "js_includes s [c] = (c \<in> set s)"
  by (induction s) (auto simp: startsWith_def)

lemma scheduleAll_eq: "scheduleAll ts p = p\<lparr>timers := timers p @ ts\<rparr>"
  unfolding scheduleAll_def
  by (induction ts arbitrary: p) (simp_all add: schedule_def split: prod.splits)

text \<open>No setter writes the tree.\<close>

lemma fileSystem_update [simp]:
  "fileSystem (t\<lparr>language := a1\<rparr>) = fileSystem t"
  "fileSystem (t\<lparr>outputHistory := a2\<rparr>) = fileSystem t"
  "fileSystem (t\<lparr>userName := a3\<rparr>) = fileSystem t"
  "fileSystem (t\<lparr>hostName := a4\<rparr>) = fileSystem t"
  "fileSystem (t\<lparr>currentDirectory := a5\<rparr>) = fileSystem t"
  "fileSystem (t\<lparr>isBooting := a6\<rparr>) = fileSystem t"
  "fileSystem (t\<lparr>bootStage := a7\<rparr>) = fileSystem t"
  "fileSystem (t\<lparr>isRickRolling := a8\<rparr>) = fileSystem t"
  "fileSystem (t\<lparr>isRoot := a9\<rparr>) = fileSystem t"
  "fileSystem (t\<lparr>groups := a10\<rparr>) = fileSystem t"
  "fileSystem (t\<lparr>passwordAttempts := a11\<rparr>) = fileSystem t"
  "fileSystem (t\<lparr>isSudoPrompt := a12\<rparr>) = fileSystem t"
  "fileSystem (t\<lparr>sudoCommand := a13\<rparr>) = fileSystem t"
  "fileSystem (t\<lparr>isFullFeatured := a14\<rparr>) = fileSystem t"
  "fileSystem (t\<lparr>previousDirectory := a15\<rparr>) = fileSystem t"
  "fileSystem (t\<lparr>themeToggles := a16\<rparr>) = fileSystem t"
  "fileSystem (t\<lparr>timers := a17\<rparr>) = fileSystem t"
  by (simp_all add: fileSystem_def)

lemma fileSystem_rerender [simp]: "fileSystem (rerender now t) = fileSystemLiteral now"
  by (simp add: fileSystem_def rerender_def)

lemma rerender_fields [simp]:
  "language (rerender now t) = language t"
  "outputHistory (rerender now t) = outputHistory t"
  "userName (rerender now t) = userName t"
  "hostName (rerender now t) = hostName t"
  "currentDirectory (rerender now t) = currentDirectory t"
  "isBooting (rerender now t) = isBooting t"
  "bootStage (rerender now t) = bootStage t"
  "isRickRolling (rerender now t) = isRickRolling t"
  "isRoot (rerender now t) = isRoot t"
  "groups (rerender now t) = groups t"
  "passwordAttempts (rerender now t) = passwordAttempts t"
  "isSudoPrompt (rerender now t) = isSudoPrompt t"
  "sudoCommand (rerender now t) = sudoCommand t"
  "isFullFeatured (rerender now t) = isFullFeatured t"
  "previousDirectory (rerender now t) = previousDirectory t"
  "themeToggles (rerender now t) = themeToggles t"
  "timers (rerender now t) = timers t"
  "renderedAt (rerender now t) = now"
  by (simp_all add: rerender_def)

lemma fire_fields:
  "language (fire clk task t) = language t"
  "userName (fire clk task t) = userName t"
  "hostName (fire clk task t) = hostName t"
  "currentDirectory (fire clk task t) = currentDirectory t"
  "bootStage (fire clk task t) = bootStage t"
  "isRoot (fire clk task t) = isRoot t"
  "groups (fire clk task t) = groups t"
  "passwordAttempts (fire clk task t) = passwordAttempts t"
  "isSudoPrompt (fire clk task t) = isSudoPrompt t"
  "sudoCommand (fire clk task t) = sudoCommand t"
  "isFullFeatured (fire clk task t) = isFullFeatured t"
  "previousDirectory (fire clk task t) = previousDirectory t"
  "fileSystem (fire clk task t) = fileSystem t"
  "renderedAt (fire clk task t) = renderedAt t"
  "themeToggles (fire clk task t) = themeToggles t"
  "timers (fire clk task t) = timers t"
  by (cases task; simp split: list.splits prod.splits)+

lemma fireAll_fields:
  "language (fireAll clk tasks t) = language t"
  "userName (fireAll clk tasks t) = userName t"
  "hostName (fireAll clk tasks t) = hostName t"
  "currentDirectory (fireAll clk tasks t) = currentDirectory t"
  "bootStage (fireAll clk tasks t) = bootStage t"
  "isRoot (fireAll clk tasks t) = isRoot t"
  "groups (fireAll clk tasks t) = groups t"
  "passwordAttempts (fireAll clk tasks t) = passwordAttempts t"
  "isSudoPrompt (fireAll clk tasks t) = isSudoPrompt t"
  "sudoCommand (fireAll clk tasks t) = sudoCommand t"
  "isFullFeatured (fireAll clk tasks t) = isFullFeatured t"
  "previousDirectory (fireAll clk tasks t) = previousDirectory t"
  "fileSystem (fireAll clk tasks t) = fileSystem t"
  "renderedAt (fireAll clk tasks t) = renderedAt t"
  "themeToggles (fireAll clk tasks t) = themeToggles t"
  "timers (fireAll clk tasks t) = timers t"
  unfolding fireAll_def
  by (induction tasks arbitrary: t; simp add: fire_fields)+

lemma startedSession_fields:
  "language startedSession = zh_TW"
  "userName startedSession = ''deviser''"
  "hostName startedSession = ''terminal''"
  "currentDirectory startedSession = ''~''"
  "isRoot startedSession = False"
  "groups startedSession = [''users'']"
  "passwordAttempts startedSession = 0"
  "isSudoPrompt startedSession = False"
  "sudoCommand startedSession = ''''"
  "isFullFeatured startedSession = True"
  "previousDirectory startedSession = None"
  "fileSystem startedSession = fileSystemLiteral 0"
  "renderedAt startedSession = 0"
  "themeToggles startedSession = 0"
  by (simp_all add: startedSession_def processCommand_deviserStart_def initialTerminal_def
        scheduleAll_eq Let_def fileSystem_def)

lemma fullSession_fields:
  "language fullSession = zh_TW"
  "userName fullSession = ''deviser''"
  "hostName fullSession = ''terminal''"
  "currentDirectory fullSession = ''~''"
  "isRoot fullSession = False"
  "groups fullSession = [''users'']"
  "passwordAttempts fullSession = 0"
  "isSudoPrompt fullSession = False"
  "sudoCommand fullSession = ''''"
  "isFullFeatured fullSession = True"
  "previousDirectory fullSession = None"
  "fileSystem fullSession = fileSystemLiteral 0"
  "renderedAt fullSession = 0"
  "themeToggles fullSession = 0"
  by (simp_all add: fullSession_def fireAll_fields startedSession_fields)

lemma initialTerminal_fields:
  "language (initialTerminal now) = zh_TW"
  "userName (initialTerminal now) = ''user''"
  "hostName (initialTerminal now) = ''terminal''"
  "currentDirectory (initialTerminal now) = ''~''"
  "isRoot (initialTerminal now) = False"
  "groups (initialTerminal now) = [''users'']"
  "passwordAttempts (initialTerminal now) = 0"
  "isSudoPrompt (initialTerminal now) = False"
  "sudoCommand (initialTerminal now) = ''''"
  "isFullFeatured (initialTerminal now) = False"
  "previousDirectory (initialTerminal now) = None"
  "fileSystem (initialTerminal now) = fileSystemLiteral now"
  "renderedAt (initialTerminal now) = now"
  "themeToggles (initialTerminal now) = 0"
  "timers (initialTerminal now) = []"
  by (simp_all add: initialTerminal_def fileSystem_def)

section \<open>Unfolding \<^verbatim>\<open>processCommand\<close>\<close>

lemma processCommand_no_prompt:
  "\<not> isSudoPrompt snap \<Longrightarrow>
   processCommand clk snap pend cmd = Some (processCommand_line clk snap pend cmd)"
  by (subst processCommand.simps) simp

lemma processCommand_mismatch:
  \<open>isSudoPrompt snap \<Longrightarrow> cmd \<noteq> ''password'' \<Longrightarrow>
   processCommand clk snap pend cmd =
     Some (Inr (if 2 \<le> passwordAttempts snap
                then ([CommandResult Error (Text ''sudo: 3 {U+6B21}{U+932F}{U+8AA4}{U+7684}{U+5BC6}{U+78BC}{U+5617}{U+8A66}'')],
                      pend\<lparr>isSudoPrompt := False, passwordAttempts := 0, sudoCommand := ''''\<rparr>)
                else ([CommandResult Error (Text ''sudo: {U+8A8D}{U+8B49}{U+5931}{U+6557}'')],
                      pend\<lparr>isSudoPrompt := False, passwordAttempts := passwordAttempts pend + 1\<rparr>)))\<close>
  by (subst processCommand.simps) (simp add: Let_def)

text \<open>The password matches: the stored command is handed to the same closure, which still
  awaits a password and so compares the stored command with the password.\<close>

lemma processCommand_match:
  \<open>isSudoPrompt snap \<Longrightarrow> sudoCommand snap \<noteq> ''password'' \<Longrightarrow>
   processCommand clk snap pend ''password'' =
     Some (Inr (if 2 \<le> passwordAttempts snap
                then ([CommandResult System (Text ''''),
                       CommandResult Error (Text ''sudo: 3 {U+6B21}{U+932F}{U+8AA4}{U+7684}{U+5BC6}{U+78BC}{U+5617}{U+8A66}'')],
                      pend\<lparr>isSudoPrompt := False, isRoot := True, passwordAttempts := 0,
                            sudoCommand := ''''\<rparr>)
                else ([CommandResult System (Text ''''),
                       CommandResult Error (Text ''sudo: {U+8A8D}{U+8B49}{U+5931}{U+6557}'')],
                      pend\<lparr>isSudoPrompt := False, isRoot := True, sudoCommand := '''',
                            passwordAttempts := passwordAttempts pend + 1\<rparr>)))\<close>
  by (subst processCommand.simps) (simp add: Let_def processCommand_mismatch)

text \<open>When the stored command is the password itself (after \<^verbatim>\<open>sudo password\<close>), the call
  with the password calls itself with the same line and the same snapshot, without end: in
  JavaScript the stack overflows and a RangeError leaves the handler.\<close>

lemma processCommand_password_loop:
  assumes "isSudoPrompt snap" and "sudoCommand snap = ''password''"
  shows "processCommand clk snap pend ''password'' = None"
proof (rule ccontr)
  assume "processCommand clk snap pend ''password'' \<noteq> None"
  then obtain y where y: "processCommand clk snap pend ''password'' = Some y"
    by auto
  have "\<not> (isSudoPrompt snap \<and> sudoCommand snap = ''password'' \<and> ''password'' = ''password'')"
    by (rule processCommand.raw_induct
          [where P = "\<lambda>clk snap pend cmd y.
                        \<not> (isSudoPrompt snap \<and> sudoCommand snap = ''password'' \<and> cmd = ''password'')",
           OF _ y])
       (fastforce simp: Let_def split: bind_splits)
  with assms show False by simp
qed

section \<open>The concrete sessions are reached by commands\<close>

lemma startedSession_reached:
  "execute clock0 (initialTerminal 0) ''deviser start'' = Some (Inr ([], startedSession))"
  unfolding execute_def
  apply (subst processCommand_no_prompt)
   apply (simp add: initialTerminal_fields)
  apply (simp add: processCommand_line_def js_includes_single startsWith_def startsWith_def
      toLowerChar_def startedSession_def processCommand_deviserStart_def initialTerminal_fields)
  done

lemma awaitingSecret_reached:
  \<open>execute clock0 fullSession ''sudo chown root ~/resume.pdf'' =
     Some (Inr ([CommandResult System (Text ''[sudo] deviser {U+7684}{U+5BC6}{U+78BC}:'')], awaitingSecret))\<close>
  unfolding execute_def
  apply (subst processCommand_no_prompt)
   apply (simp add: fullSession_fields)
  apply (simp add: fullSession_fields processCommand_line_def js_includes_single startsWith_def
      processCommand_switch_def startsWith_def toLowerChar_def processCommand_sudo_def Let_def
      awaitingSecret_def)
  done

lemma inAbout_reached:
  "execute clock0 fullSession ''cd about'' = Some (Inr ([], inAbout))"
  unfolding execute_def
  apply (subst processCommand_no_prompt)
   apply (simp add: fullSession_fields)
  apply (simp add: fullSession_fields processCommand_line_def js_includes_single startsWith_def
      processCommand_switch_def startsWith_def toLowerChar_def processCommand_cd_def
      restrictedFolders_def cd_enter_def getDirectoryFromPath_def filterTruthy_def
      fileSystemLiteral_def fs_about_def refOf_def inAbout_def)
  done


lemma restrictedEnglish_reached:
  "execute clock0 (initialTerminal 0) ''lang en'' =
     Some (Inr ([CommandResult System (Text ''Language changed to English'')], restrictedEnglish))"
  unfolding execute_def
  apply (subst processCommand_no_prompt)
   apply (simp add: initialTerminal_fields)
  apply (simp add: initialTerminal_fields processCommand_line_def js_includes_single startsWith_def
      processCommand_switch_def toLowerChar_def basicCommands_def processCommand_lang_def
      restrictedEnglish_def)
  done

lemma fullEnglish_reached:
  "execute clock0 fullSession ''lang en'' =
     Some (Inr ([CommandResult System (Text ''Language changed to English'')], fullEnglish))"
  unfolding execute_def
  apply (subst processCommand_no_prompt)
   apply (simp add: fullSession_fields)
  apply (simp add: fullSession_fields processCommand_line_def js_includes_single startsWith_def
      processCommand_switch_def toLowerChar_def processCommand_lang_def fullEnglish_def)
  done

lemma restrictedEnglish_fields:
  "language restrictedEnglish = en_US"
  "userName restrictedEnglish = ''user''"
  "hostName restrictedEnglish = ''terminal''"
  "currentDirectory restrictedEnglish = ''~''"
  "isRoot restrictedEnglish = False"
  "groups restrictedEnglish = [''users'']"
  "isSudoPrompt restrictedEnglish = False"
  "isFullFeatured restrictedEnglish = False"
  "previousDirectory restrictedEnglish = None"
  "fileSystem restrictedEnglish = fileSystemLiteral 0"
  "renderedAt restrictedEnglish = 0"
  by (simp_all add: restrictedEnglish_def processCommand_lang_def startsWith_def toLowerChar_def
        schedule_def initialTerminal_fields)

lemma fullEnglish_fields:
  "language fullEnglish = en_US"
  "userName fullEnglish = ''deviser''"
  "hostName fullEnglish = ''terminal''"
  "currentDirectory fullEnglish = ''~''"
  "isRoot fullEnglish = False"
  "groups fullEnglish = [''users'']"
  "isSudoPrompt fullEnglish = False"
  "isFullFeatured fullEnglish = True"
  "previousDirectory fullEnglish = None"
  "fileSystem fullEnglish = fileSystemLiteral 0"
  "renderedAt fullEnglish = 0"
  by (simp_all add: fullEnglish_def processCommand_lang_def startsWith_def toLowerChar_def
        schedule_def fullSession_fields)
section \<open>The password prompt\<close>

text \<open>
  Claim C1, as the code has it. While a password is awaited, a line that is not the password
  clears the prompt flag in every case and increments the attempt counter. When the counter
  of the render was already 2 or more (this is the third failure), the counter is reset, the
  stored command is cleared and the lockout error is returned; otherwise the authentication
  failure is returned and the stored command stays. In both cases the session has left the
  prompt: the next line, whatever it is, is dispatched as a command.
\<close>

theorem wrong_password_leaves_prompt:
  assumes "isSudoPrompt t" and "cmd \<noteq> ''password''"
  shows \<open>execute clk t cmd =
           Some (Inr (if 2 \<le> passwordAttempts t
                      then ([CommandResult Error (Text ''sudo: 3 {U+6B21}{U+932F}{U+8AA4}{U+7684}{U+5BC6}{U+78BC}{U+5617}{U+8A66}'')],
                            t\<lparr>isSudoPrompt := False, passwordAttempts := 0, sudoCommand := ''''\<rparr>)
                      else ([CommandResult Error (Text ''sudo: {U+8A8D}{U+8B49}{U+5931}{U+6557}'')],
                            t\<lparr>isSudoPrompt := False, passwordAttempts := passwordAttempts t + 1\<rparr>)))
         \<and> (\<exists>rs t'. execute clk t cmd = Some (Inr (rs, t')) \<and> \<not> isSudoPrompt t'
               \<and> (\<forall>clk' next. execute clk' t' next = Some (processCommand_line clk' t' t' next)))\<close>
proof -
  have e: \<open>execute clk t cmd =
           Some (Inr (if 2 \<le> passwordAttempts t
                      then ([CommandResult Error (Text ''sudo: 3 {U+6B21}{U+932F}{U+8AA4}{U+7684}{U+5BC6}{U+78BC}{U+5617}{U+8A66}'')],
                            t\<lparr>isSudoPrompt := False, passwordAttempts := 0, sudoCommand := ''''\<rparr>)
                      else ([CommandResult Error (Text ''sudo: {U+8A8D}{U+8B49}{U+5931}{U+6557}'')],
                            t\<lparr>isSudoPrompt := False, passwordAttempts := passwordAttempts t + 1\<rparr>)))\<close>
    unfolding execute_def using assms by (simp add: processCommand_mismatch)
  show ?thesis
  proof (cases "2 \<le> passwordAttempts t")
    case True
    with e show ?thesis by (simp add: execute_def processCommand_no_prompt)
  next
    case False
    with e show ?thesis by (simp add: execute_def processCommand_no_prompt)
  qed
qed

theorem wrong_password_leaves_prompt_witness:
  \<open>isSudoPrompt awaitingSecret \<and> ''secret'' \<noteq> ''password''
   \<and> execute clock0 awaitingSecret ''secret'' =
       Some (Inr ([CommandResult Error (Text ''sudo: {U+8A8D}{U+8B49}{U+5931}{U+6557}'')],
                  awaitingSecret\<lparr>isSudoPrompt := False, passwordAttempts := 1\<rparr>))\<close>
  using wrong_password_leaves_prompt [of awaitingSecret "''secret''" clock0]
  by (simp add: awaitingSecret_def fullSession_fields)

text \<open>
  As stated, the claim fails: after one wrong password the session does not remain in the
  prompt. The prompt flag is off, and the password entered next is looked up as a command
  name, which the switch does not know; the actor stays unprivileged.
\<close>

theorem remains_awaiting_counterexample:
  \<open>execute clock0 awaitingSecret ''secret'' =
     Some (Inr ([CommandResult Error (Text ''sudo: {U+8A8D}{U+8B49}{U+5931}{U+6557}'')],
                awaitingSecret\<lparr>isSudoPrompt := False, passwordAttempts := 1\<rparr>))
   \<and> isSudoPrompt (awaitingSecret\<lparr>isSudoPrompt := False, passwordAttempts := 1\<rparr>) = False
   \<and> execute clock0 (awaitingSecret\<lparr>isSudoPrompt := False, passwordAttempts := 1\<rparr>) ''password'' =
       Some (Inr ([CommandResult Error (Text ''password: {U+547D}{U+4EE4}{U+672A}{U+627E}{U+5230}{U+FF0C}{U+8F38}{U+5165} "help" {U+67E5}{U+770B}{U+53EF}{U+7528}{U+547D}{U+4EE4}'')],
                  awaitingSecret\<lparr>isSudoPrompt := False, passwordAttempts := 1\<rparr>))
   \<and> isRoot (awaitingSecret\<lparr>isSudoPrompt := False, passwordAttempts := 1\<rparr>) = False\<close>
proof -
  have 1: \<open>execute clock0 awaitingSecret ''secret'' =
     Some (Inr ([CommandResult Error (Text ''sudo: {U+8A8D}{U+8B49}{U+5931}{U+6557}'')],
                awaitingSecret\<lparr>isSudoPrompt := False, passwordAttempts := 1\<rparr>))\<close>
    unfolding execute_def
    by (subst processCommand_mismatch) (simp_all add: awaitingSecret_def fullSession_fields)
  have 2: \<open>execute clock0 (awaitingSecret\<lparr>isSudoPrompt := False, passwordAttempts := 1\<rparr>) ''password'' =
       Some (Inr ([CommandResult Error (Text ''password: {U+547D}{U+4EE4}{U+672A}{U+627E}{U+5230}{U+FF0C}{U+8F38}{U+5165} "help" {U+67E5}{U+770B}{U+53EF}{U+7528}{U+547D}{U+4EE4}'')],
                  awaitingSecret\<lparr>isSudoPrompt := False, passwordAttempts := 1\<rparr>))\<close>
    unfolding execute_def
    apply (subst processCommand_no_prompt)
     apply simp
    apply (simp add: awaitingSecret_def fullSession_fields processCommand_line_def js_includes_single
        startsWith_def processCommand_switch_def startsWith_def toLowerChar_def
        processCommand_default_def getText_def textResources_def)
    done
  show ?thesis
    using 1 2 by (simp add: awaitingSecret_def fullSession_fields)
qed

text \<open>
  Claim C2, at the input where the code departs from it. A password is awaited for the
  stored command \<^verbatim>\<open>chown root ~/resume.pdf\<close> and the password is entered. The privileged
  flag is set and the prompt and the stored command are cleared, but the stored command is
  not run: the re-entrant call reads the snapshot, in which the prompt is still on, takes
  the stored command for a wrong password and returns the authentication failure. Run in the
  next render, with the privilege in effect, the same command succeeds.
\<close>

theorem sudo_password_does_not_run_command:
  \<open>execute clock0 awaitingSecret ''password'' =
     Some (Inr ([CommandResult System (Text ''''),
                 CommandResult Error (Text ''sudo: {U+8A8D}{U+8B49}{U+5931}{U+6557}'')],
                awaitingSecret\<lparr>isSudoPrompt := False, isRoot := True, sudoCommand := '''',
                                passwordAttempts := 1\<rparr>))
   \<and> execute clock0 (awaitingSecret\<lparr>isSudoPrompt := False, isRoot := True, sudoCommand := '''',
                                     passwordAttempts := 1\<rparr>) ''chown root ~/resume.pdf'' =
     Some (Inr ([CommandResult Success (Text (''{U+5DF2}{U+66F4}{U+6539} '' @ [CHR 0x27] @ ''~/resume.pdf'' @ [CHR 0x27] @ '' {U+7684}{U+6240}{U+6709}{U+8005}{U+70BA} '' @ [CHR 0x27] @ ''root'' @ [CHR 0x27]))],
                awaitingSecret\<lparr>isSudoPrompt := False, isRoot := True, sudoCommand := '''',
                                passwordAttempts := 1\<rparr>))\<close>
proof -
  have 1: \<open>execute clock0 awaitingSecret ''password'' =
     Some (Inr ([CommandResult System (Text ''''),
                 CommandResult Error (Text ''sudo: {U+8A8D}{U+8B49}{U+5931}{U+6557}'')],
                awaitingSecret\<lparr>isSudoPrompt := False, isRoot := True, sudoCommand := '''',
                                passwordAttempts := 1\<rparr>))\<close>
    unfolding execute_def
    by (subst processCommand_match) (simp_all add: awaitingSecret_def fullSession_fields)
  have 2: \<open>execute clock0 (awaitingSecret\<lparr>isSudoPrompt := False, isRoot := True, sudoCommand := '''',
                                     passwordAttempts := 1\<rparr>) ''chown root ~/resume.pdf'' =
     Some (Inr ([CommandResult Success (Text (''{U+5DF2}{U+66F4}{U+6539} '' @ [CHR 0x27] @ ''~/resume.pdf'' @ [CHR 0x27] @ '' {U+7684}{U+6240}{U+6709}{U+8005}{U+70BA} '' @ [CHR 0x27] @ ''root'' @ [CHR 0x27]))],
                awaitingSecret\<lparr>isSudoPrompt := False, isRoot := True, sudoCommand := '''',
                                passwordAttempts := 1\<rparr>))\<close>
    unfolding execute_def
    apply (subst processCommand_no_prompt)
     apply simp
    apply (simp add: awaitingSecret_def fullSession_fields processCommand_line_def js_includes_single
        startsWith_def processCommand_switch_def startsWith_def toLowerChar_def
        processCommand_chown_def getFileSystemItem_def normalizedPath_def filterTruthy_def
        fileSystemLiteral_def fs_resume_pdf_def)
    done
  show ?thesis using 1 2 by simp
qed

section \<open>Exceptions that leave \<^verbatim>\<open>processCommand\<close>\<close>

text \<open>
  Claim C3, at inputs where the code departs from it. In the full session, in the home
  directory, \<^verbatim>\<open>chmod\<close> on a relative path throws a TypeError, whether the path names an
  existing file or not, and so does \<^verbatim>\<open>chown\<close> for a privileged actor: \<^verbatim>\<open>getFileSystemItem\<close>
  starts its walk at the object \<^verbatim>\<open>fileSystem\<close>, which has no content, unless the path
  starts with a tilde. And after \<^verbatim>\<open>sudo password\<close> the password makes \<^verbatim>\<open>processCommand\<close>
  call itself without end, so that no list of records is returned.
\<close>

theorem chmod_relative_path_throws:
  \<open>execute clock0 fullSession ''chmod 644 resume.pdf'' = Some (Inl TypeError)
   \<and> execute clock0 fullSession ''chmod 644 nosuchfile'' = Some (Inl TypeError)
   \<and> execute clock0 (fullSession\<lparr>isRoot := True\<rparr>) ''chown root resume.pdf'' = Some (Inl TypeError)
   \<and> execute clock0 fullSession ''sudo password'' =
       Some (Inr ([CommandResult System (Text ''[sudo] deviser {U+7684}{U+5BC6}{U+78BC}:'')],
                  fullSession\<lparr>sudoCommand := ''password'', isSudoPrompt := True\<rparr>))
   \<and> execute clock0 (fullSession\<lparr>sudoCommand := ''password'', isSudoPrompt := True\<rparr>) ''password''
       = None\<close>
proof -
  have 1: "execute clock0 fullSession ''chmod 644 resume.pdf'' = Some (Inl TypeError)"
    unfolding execute_def
    apply (subst processCommand_no_prompt)
     apply (simp add: fullSession_fields)
    apply (simp add: fullSession_fields processCommand_line_def js_includes_single startsWith_def
        processCommand_switch_def startsWith_def toLowerChar_def processCommand_chmod_def
        getFileSystemItem_def normalizedPath_def filterTruthy_def)
    done
  have 2: "execute clock0 fullSession ''chmod 644 nosuchfile'' = Some (Inl TypeError)"
    unfolding execute_def
    apply (subst processCommand_no_prompt)
     apply (simp add: fullSession_fields)
    apply (simp add: fullSession_fields processCommand_line_def js_includes_single startsWith_def
        processCommand_switch_def startsWith_def toLowerChar_def processCommand_chmod_def
        getFileSystemItem_def normalizedPath_def filterTruthy_def)
    done
  have 3: "execute clock0 (fullSession\<lparr>isRoot := True\<rparr>) ''chown root resume.pdf'' = Some (Inl TypeError)"
    unfolding execute_def
    apply (subst processCommand_no_prompt)
     apply (simp add: fullSession_fields)
    apply (simp add: fullSession_fields processCommand_line_def js_includes_single startsWith_def
        processCommand_switch_def startsWith_def toLowerChar_def processCommand_chown_def
        getFileSystemItem_def normalizedPath_def filterTruthy_def)
    done
  have 4: \<open>execute clock0 fullSession ''sudo password'' =
       Some (Inr ([CommandResult System (Text ''[sudo] deviser {U+7684}{U+5BC6}{U+78BC}:'')],
                  fullSession\<lparr>sudoCommand := ''password'', isSudoPrompt := True\<rparr>))\<close>
    unfolding execute_def
    apply (subst processCommand_no_prompt)
     apply (simp add: fullSession_fields)
    apply (simp add: fullSession_fields processCommand_line_def js_includes_single startsWith_def
        processCommand_switch_def startsWith_def toLowerChar_def processCommand_sudo_def Let_def)
    done
  have 5: "execute clock0 (fullSession\<lparr>sudoCommand := ''password'', isSudoPrompt := True\<rparr>) ''password''
       = None"
    unfolding execute_def by (rule processCommand_password_loop) simp_all
  show ?thesis using 1 2 3 4 5 by simp
qed

section \<open>\<^verbatim>\<open>cd -\<close>\<close>

text \<open>
  Claim C4, at an input where the code departs from it. The session is in \<^verbatim>\<open>~/about\<close>,
  entered from the home directory. \<^verbatim>\<open>cd ..\<close> succeeds and moves to the home directory
  without recording the directory it left; the following \<^verbatim>\<open>cd -\<close> succeeds and moves to the
  directory recorded before, the home directory, not to \<^verbatim>\<open>~/about\<close>. The same holds for
  \<^verbatim>\<open>cd\<close> without an argument.
\<close>

theorem cd_dotdot_then_back_does_not_restore:
  \<open>execute clock0 inAbout ''cd ..'' = Some (Inr ([], inAbout\<lparr>currentDirectory := ''~''\<rparr>))
   \<and> execute clock0 (inAbout\<lparr>currentDirectory := ''~''\<rparr>) ''cd -'' =
       Some (Inr ([CommandResult System (Text ''~'')],
                  inAbout\<lparr>currentDirectory := ''~'', previousDirectory := Some ''~''\<rparr>))
   \<and> currentDirectory inAbout = ''~/about''
   \<and> currentDirectory (inAbout\<lparr>currentDirectory := ''~'', previousDirectory := Some ''~''\<rparr>) = ''~''
   \<and> execute clock0 inAbout ''cd'' = Some (Inr ([], inAbout\<lparr>currentDirectory := ''~''\<rparr>))\<close>
proof -
  have 1: "execute clock0 inAbout ''cd ..'' = Some (Inr ([], inAbout\<lparr>currentDirectory := ''~''\<rparr>))"
    unfolding execute_def
    apply (subst processCommand_no_prompt)
     apply (simp add: inAbout_def fullSession_fields)
    apply (simp add: inAbout_def fullSession_fields processCommand_line_def js_includes_single
        startsWith_def processCommand_switch_def startsWith_def toLowerChar_def
        processCommand_cd_def restrictedFolders_def Let_def)
    done
  have 2: "execute clock0 (inAbout\<lparr>currentDirectory := ''~''\<rparr>) ''cd -'' =
       Some (Inr ([CommandResult System (Text ''~'')],
                  inAbout\<lparr>currentDirectory := ''~'', previousDirectory := Some ''~''\<rparr>))"
    unfolding execute_def
    apply (subst processCommand_no_prompt)
     apply (simp add: inAbout_def fullSession_fields)
    apply (simp add: inAbout_def fullSession_fields processCommand_line_def js_includes_single
        startsWith_def processCommand_switch_def startsWith_def toLowerChar_def
        processCommand_cd_def restrictedFolders_def Let_def)
    done
  have 3: "execute clock0 inAbout ''cd'' = Some (Inr ([], inAbout\<lparr>currentDirectory := ''~''\<rparr>))"
    unfolding execute_def
    apply (subst processCommand_no_prompt)
     apply (simp add: inAbout_def fullSession_fields)
    apply (simp add: inAbout_def fullSession_fields processCommand_line_def js_includes_single
        startsWith_def processCommand_switch_def startsWith_def toLowerChar_def
        processCommand_cd_def restrictedFolders_def Let_def)
    done
  show ?thesis using 1 2 3 by (simp add: inAbout_def)
qed

text \<open>The branches of \<^verbatim>\<open>cd\<close> that look a path up do record the directory they leave, and
  \<^verbatim>\<open>cd -\<close> then returns to it and swaps the two directories.\<close>

lemma cd_path_then_back_restores:
  assumes "cd_enter t t target newPath = Inr ([], t1)"
    and "currentDirectory t \<noteq> ''''"
  shows "processCommand_cd t1 t1 [''-''] =
           Inr ([CommandResult System (Text (currentDirectory t))],
                t1\<lparr>currentDirectory := currentDirectory t, previousDirectory := Some newPath\<rparr>)"
    and "isFullFeatured t1 = isFullFeatured t"
proof -
  from assms(1) have t1: "t1 = t\<lparr>previousDirectory := Some (currentDirectory t), currentDirectory := newPath\<rparr>"
    by (auto simp: cd_enter_def split: sum.splits option.splits)
  show "processCommand_cd t1 t1 [''-''] =
           Inr ([CommandResult System (Text (currentDirectory t))],
                t1\<lparr>currentDirectory := currentDirectory t, previousDirectory := Some newPath\<rparr>)"
    using assms(2) by (simp add: t1 processCommand_cd_def restrictedFolders_def)
  show "isFullFeatured t1 = isFullFeatured t"
    by (simp add: t1)
qed

section \<open>What a command can change\<close>


lemma deviserStart_frame:
  "fileSystem (snd (processCommand_deviserStart snap pend)) = fileSystem pend"
  "isFullFeatured pend \<Longrightarrow> isFullFeatured (snd (processCommand_deviserStart snap pend))"
  "isFullFeatured snap \<or> isFullFeatured (snd (processCommand_deviserStart snap pend))"
  by (simp_all add: processCommand_deviserStart_def scheduleAll_eq Let_def)

lemma cd_frame:
  assumes "processCommand_cd snap pend args = Inr (rs, p')"
  shows "fileSystem p' = fileSystem pend \<and> isFullFeatured p' = isFullFeatured pend"
  using assms
  by (auto simp: processCommand_cd_def cd_enter_def Let_def
           split: list.splits if_splits option.splits sum.splits)

lemma cat_frame:
  assumes "processCommand_cat snap pend args = (rs, p')"
  shows "fileSystem p' = fileSystem pend \<and> isFullFeatured p' = isFullFeatured pend"
  using assms
  by (auto simp: processCommand_cat_def scheduleAll_eq split: list.splits option.splits if_splits)

lemma rm_frame:
  assumes "processCommand_rm snap pend args = (rs, p')"
  shows "fileSystem p' = fileSystem pend \<and> isFullFeatured p' = isFullFeatured pend"
  using assms
  by (auto simp: processCommand_rm_def rickRoll_def scheduleAll_eq split: if_splits)

lemma sudo_frame:
  assumes "processCommand_sudo snap pend args = (rs, p')"
  shows "fileSystem p' = fileSystem pend \<and> isFullFeatured p' = isFullFeatured pend"
  using assms
  by (auto simp: processCommand_sudo_def Let_def split: if_splits)

lemma lang_frame:
  assumes "processCommand_lang snap pend args = (rs, p')"
  shows "fileSystem p' = fileSystem pend \<and> isFullFeatured p' = isFullFeatured pend"
  using assms
  by (auto simp: processCommand_lang_def schedule_def split: list.splits if_splits)

lemma switch_frame:
  assumes "processCommand_switch clk snap pend cmd command args = Inr (rs, p')"
  shows "fileSystem p' = fileSystem pend \<and> isFullFeatured p' = isFullFeatured pend"
  using assms
  unfolding processCommand_switch_def Let_def
  by (auto simp: schedule_def
           dest!: cd_frame cat_frame rm_frame sudo_frame lang_frame
           split: if_splits sum.splits)

lemma line_frame:
  assumes "processCommand_line clk snap pend cmd = Inr (rs, p')"
  shows "fileSystem p' = fileSystem pend"
    and "isFullFeatured pend \<Longrightarrow> isFullFeatured p'"
    and "isFullFeatured snap \<Longrightarrow> isFullFeatured p' = isFullFeatured pend"
  using assms
  unfolding processCommand_line_def
  by (auto simp: rickRoll_def scheduleAll_eq processCommand_deviserStart_def Let_def
           dest!: switch_frame
           split: if_splits list.splits)

text \<open>Whenever \<^verbatim>\<open>processCommand\<close> returns records, the pending state it returns has the
  file system of the pending state it was given.\<close>

lemma processCommand_frame:
  assumes "processCommand clk snap pend cmd = Some (Inr (rs, p'))"
  shows "fileSystem p' = fileSystem pend"
    and "isFullFeatured pend \<Longrightarrow> isFullFeatured p'"
proof -
  have "fileSystem p' = fileSystem pend \<and> (isFullFeatured pend \<longrightarrow> isFullFeatured p')"
  proof (cases "isSudoPrompt snap")
    case False
    with assms have "processCommand_line clk snap pend cmd = Inr (rs, p')"
      by (simp add: processCommand_no_prompt)
    then show ?thesis
      using line_frame(1,2) by blast
  next
    case True
    show ?thesis
    proof (cases "cmd = ''password''")
      case False
      with True assms show ?thesis
        by (auto simp: processCommand_mismatch split: if_splits)
    next
      case pw: True
      show ?thesis
      proof (cases "sudoCommand snap = ''password''")
        case True
        with \<open>isSudoPrompt snap\<close> pw assms show ?thesis
          by (simp add: processCommand_password_loop)
      next
        case False
        with \<open>isSudoPrompt snap\<close> pw assms show ?thesis
          by (auto simp: processCommand_match split: if_splits)
      qed
    qed
  qed
  then show "fileSystem p' = fileSystem pend" and "isFullFeatured pend \<Longrightarrow> isFullFeatured p'"
    by simp_all
qed

section \<open>From the line to the \<^verbatim>\<open>switch\<close>\<close>

lemma js_includes_redirect: "js_includes cmd ''>>'' \<Longrightarrow> js_includes cmd ''>''"
  by (induction cmd) (auto simp: startsWith_def split: if_splits)

lemma js_split_rm_prefix:
  assumes "startsWith cmd ''rm -rf'' \<or> startsWith cmd ''rm -fr''"
  shows "\<exists>args. js_split CHR '' '' cmd = ''rm'' # args"
proof -
  from assms obtain rest where "cmd = ''rm '' @ rest"
    by (auto simp: startsWith_def) (metis append_take_drop_id append_Cons append_Nil take_Suc_Cons)+
  then show ?thesis
    by (cases "js_split CHR '' '' rest") auto
qed




lemma rm_prefix_command:
  assumes "startsWith cmd ''rm -rf'' \<or> startsWith cmd ''rm -fr''"
    and "js_split CHR '' '' cmd = command # args"
  shows "command = ''rm''"
  using js_split_rm_prefix [OF assms(1)] assms(2) by auto

text \<open>The lines that reach the \<^verbatim>\<open>switch\<close>, in either mode.\<close>

lemma line_to_switch:
  assumes "\<not> js_includes cmd ''|''" and "\<not> js_includes cmd ''>''"
    and "js_split CHR '' '' cmd = command # args"
    and "\<not> (startsWith cmd ''rm -rf'' \<or> startsWith cmd ''rm -fr'')"
    and "\<not> (toLowerCase command = ''deviser''
             \<and> (case args of [] \<Rightarrow> False | arg # rest \<Rightarrow> toLowerCase arg = ''start''))"
    and "isFullFeatured snap
         \<or> ((toLowerCase command \<in> set basicCommands \<or> toLowerCase command = [])
             \<and> toLowerCase command \<noteq> ''help'')"
  shows "processCommand_line clk snap pend cmd = processCommand_switch clk snap pend cmd command args"
  using assms js_includes_redirect [of cmd]
  by (auto simp: processCommand_line_def)

text \<open>The lines the gate of the restricted mode turns away.\<close>

lemma line_unknown:
  assumes "\<not> js_includes cmd ''|''" and "\<not> js_includes cmd ''>''"
    and "js_split CHR '' '' cmd = command # args"
    and "\<not> (startsWith cmd ''rm -rf'' \<or> startsWith cmd ''rm -fr'')"
    and "\<not> isFullFeatured snap"
    and "toLowerCase command \<notin> set basicCommands" and "toLowerCase command \<noteq> []"
  shows "processCommand_line clk snap pend cmd = Inr (processCommand_unknown snap command, pend)"
proof -
  have "toLowerCase command \<noteq> ''deviser''"
    using assms(6) by (auto simp: basicCommands_def)
  then show ?thesis
    using assms js_includes_redirect [of cmd]
    by (auto simp: processCommand_line_def)
qed

text \<open>A part of a split string has only characters of the string.\<close>

lemma js_split_chars: "a \<in> set (js_split sep s) \<Longrightarrow> set a \<subseteq> set s"
proof (induction s arbitrary: a)
  case Nil
  then show ?case by simp
next
  case (Cons c cs)
  show ?case
  proof (cases "c = sep")
    case True
    with Cons show ?thesis by auto
  next
    case False
    obtain p ps where ps: "js_split sep cs = p # ps"
      using js_split_not_empty [of sep cs] by (cases "js_split sep cs") auto
    with False Cons.prems have "a = c # p \<or> a \<in> set ps"
      by simp
    then show ?thesis
    proof
      assume "a = c # p"
      moreover have "set p \<subseteq> set cs"
        using Cons.IH [of p] ps by simp
      ultimately show ?thesis by auto
    next
      assume "a \<in> set ps"
      then have "set a \<subseteq> set cs"
        using Cons.IH [of a] ps by simp
      then show ?thesis by auto
    qed
  qed
qed

lemma dash_token_in_line:
  assumes "js_split CHR '' '' cmd = command # args"
    and "tok \<in> set (command # args)" and "startsWith tok ''-''"
  shows "js_includes cmd ''-''"
proof -
  from assms(3) have "CHR ''-'' \<in> set tok"
    by (cases tok) (auto simp: startsWith_def)
  moreover have "set tok \<subseteq> set cmd"
    using js_split_chars [of tok "CHR '' ''" cmd] assms(1,2) by simp
  ultimately show ?thesis
    by (auto simp: js_includes_single)
qed

lemma getText_errors:
  \<open>getText t ''err_invalid_option'' [] = byLang t ''{U+7121}{U+6548}{U+7684}{U+9078}{U+9805}'' ''Invalid option''\<close>
  \<open>getText t ''err_cmd_not_found'' [] =
     byLang t ''{U+547D}{U+4EE4}{U+672A}{U+627E}{U+5230}{U+FF0C}{U+8F38}{U+5165} "help" {U+67E5}{U+770B}{U+53EF}{U+7528}{U+547D}{U+4EE4}''
              ''Command not found, type "help" to see available commands''\<close>
  by (simp_all add: getText_def textResources_def byLang_def)

lemma switch_default:
  assumes "toLowerCase command \<notin> set switchLabels"
  shows "processCommand_switch clk snap pend cmd command args =
           Inr (processCommand_default snap cmd command args, pend)"
  using assms by (simp add: processCommand_switch_def switchLabels_def Let_def)

section \<open>The tree of a render\<close>






text \<open>The names in the root are the same in every render.\<close>

lemma fileSystem_names: "map fst (fst (fileSystem s)) = map fst (fst (fileSystem t))"
  by (simp add: fileSystem_def fileSystemLiteral_def)












lemma js_split_home_prefix:
  "js_split CHR ''/'' (''~/'' @ rest) = ''~'' # js_split CHR ''/'' rest"
  using js_split_not_empty [of "CHR ''/''" rest]
  by (cases "js_split CHR ''/'' rest") simp_all

lemma belowHome_cases:
  assumes "belowHome dir"
  obtains "dir = ''~''" | rest where "dir = ''~/'' @ rest"
proof -
  from assms consider "dir = ''~''" | "startsWith dir ''~/''"
    by (auto simp: belowHome_def)
  then show ?thesis
  proof cases
    case 1
    then show ?thesis by (rule that(1))
  next
    case 2
    then have "dir = ''~/'' @ drop 2 dir"
      by (metis append_take_drop_id length_Cons list.size(3) numeral_2_eq_2 startsWith_def)
    then show ?thesis by (rule that(2))
  qed
qed


section \<open>The current directory stays below the home directory\<close>

lemma belowHome_home [simp]: "belowHome ''~''"
  by (simp add: belowHome_def)

lemma belowHome_append: "belowHome dir \<Longrightarrow> dir \<noteq> ''~'' \<Longrightarrow> belowHome (dir @ rest)"
  by (erule belowHome_cases) (simp_all add: belowHome_def startsWith_def)

lemma belowHome_parent:
  assumes "belowHome dir" and "dir \<noteq> ''~''"
    and "butlast (js_split CHR ''/'' dir) \<noteq> [''~'']"
  shows "belowHome (join ''/'' (butlast (js_split CHR ''/'' dir)))"
  using assms(1)
proof (cases rule: belowHome_cases)
  case 1
  with assms(2) show ?thesis by simp
next
  case (2 rest)
  obtain p ps where ps: "js_split CHR ''/'' rest = p # ps"
    using js_split_not_empty [of "CHR ''/''" rest] by (cases "js_split CHR ''/'' rest") auto
  with 2 assms(3) obtain q qs where "butlast (p # ps) = q # qs"
    by (cases "butlast (p # ps)") (auto simp: js_split_home_prefix)
  with 2 ps show ?thesis
    by (simp add: js_split_home_prefix belowHome_def startsWith_def)
qed

text \<open>The directories a session can be in or come from: those below the home directory.\<close>

lemma cd_below_home:
  assumes "processCommand_cd snap pend args = Inr (rs, p')"
    and "directoriesBelowHome snap" and "directoriesBelowHome pend"
  shows "directoriesBelowHome p'"
  using assms belowHome_parent [of "currentDirectory snap"]
    belowHome_append [of "currentDirectory snap"]
  by (auto simp: processCommand_cd_def cd_enter_def Let_def directoriesBelowHome_def
           split: list.splits if_splits option.splits sum.splits)
     (auto simp: belowHome_def startsWith_def)

lemma other_commands_directories:
  "currentDirectory (snd (processCommand_deviserStart snap pend)) = currentDirectory pend"
  "previousDirectory (snd (processCommand_deviserStart snap pend)) = previousDirectory pend"
  "currentDirectory (snd (processCommand_cat snap pend args)) = currentDirectory pend"
  "previousDirectory (snd (processCommand_cat snap pend args)) = previousDirectory pend"
  "currentDirectory (snd (processCommand_rm snap pend args)) = currentDirectory pend"
  "previousDirectory (snd (processCommand_rm snap pend args)) = previousDirectory pend"
  "currentDirectory (snd (processCommand_sudo snap pend args)) = currentDirectory pend"
  "previousDirectory (snd (processCommand_sudo snap pend args)) = previousDirectory pend"
  "currentDirectory (snd (processCommand_lang snap pend args)) = currentDirectory pend"
  "previousDirectory (snd (processCommand_lang snap pend args)) = previousDirectory pend"
  "currentDirectory (snd (rickRoll snap pend)) = currentDirectory pend"
  "previousDirectory (snd (rickRoll snap pend)) = previousDirectory pend"
  by (simp_all add: processCommand_deviserStart_def processCommand_cat_def
        processCommand_rm_def processCommand_sudo_def processCommand_lang_def rickRoll_def
        scheduleAll_eq schedule_def Let_def
      split: list.splits option.splits)

lemma same_directories_below_home:
  assumes "currentDirectory p' = currentDirectory pend"
    and "previousDirectory p' = previousDirectory pend"
    and "directoriesBelowHome pend"
  shows "directoriesBelowHome p'"
  using assms by (simp add: directoriesBelowHome_def)

lemma other_commands_keep_directories:
  "processCommand_cat snap pend args = (rs, p') \<Longrightarrow>
     currentDirectory p' = currentDirectory pend \<and> previousDirectory p' = previousDirectory pend"
  "processCommand_rm snap pend args = (rs, p') \<Longrightarrow>
     currentDirectory p' = currentDirectory pend \<and> previousDirectory p' = previousDirectory pend"
  "processCommand_sudo snap pend args = (rs, p') \<Longrightarrow>
     currentDirectory p' = currentDirectory pend \<and> previousDirectory p' = previousDirectory pend"
  "processCommand_lang snap pend args = (rs, p') \<Longrightarrow>
     currentDirectory p' = currentDirectory pend \<and> previousDirectory p' = previousDirectory pend"
  using other_commands_directories(3-10) [of snap pend args]
  by simp_all

lemma switch_directories:
  assumes "processCommand_switch clk snap pend cmd command args = Inr (rs, p')"
    and "toLowerCase command \<noteq> ''cd''"
  shows "currentDirectory p' = currentDirectory pend \<and> previousDirectory p' = previousDirectory pend"
  using assms
  unfolding processCommand_switch_def Let_def
  by (auto simp: schedule_def dest!: other_commands_keep_directories
           split: if_splits sum.splits)

lemma switch_below_home:
  assumes "processCommand_switch clk snap pend cmd command args = Inr (rs, p')"
    and "directoriesBelowHome snap" and "directoriesBelowHome pend"
  shows "directoriesBelowHome p'"
proof (cases "toLowerCase command = ''cd''")
  case True
  with assms(1) have "processCommand_cd snap pend args = Inr (rs, p')"
    by (simp add: processCommand_switch_def)
  from cd_below_home [OF this assms(2,3)] show ?thesis .
next
  case False
  from switch_directories [OF assms(1) False] assms(3) show ?thesis
    by (simp add: same_directories_below_home)
qed

lemma line_below_home:
  assumes "processCommand_line clk snap pend cmd = Inr (rs, p')"
    and "directoriesBelowHome snap" and "directoriesBelowHome pend"
  shows "directoriesBelowHome p'"
proof -
  consider "p' = pend" | "p' = snd (rickRoll snap pend)"
    | "p' = snd (processCommand_deviserStart snap pend)"
    | command args where "processCommand_switch clk snap pend cmd command args = Inr (rs, p')"
    using assms(1)
    unfolding processCommand_line_def
    by (auto split: if_splits list.splits)
  then show ?thesis
  proof cases
    case 1
    with assms(3) show ?thesis by simp
  next
    case 2
    with assms(3) show ?thesis
      by (simp add: same_directories_below_home other_commands_directories)
  next
    case 3
    with assms(3) show ?thesis
      by (simp add: same_directories_below_home other_commands_directories)
  next
    case 4
    from switch_below_home [OF this assms(2,3)] show ?thesis .
  qed
qed

lemma processCommand_below_home:
  assumes "processCommand clk snap pend cmd = Some (Inr (rs, p'))"
    and "directoriesBelowHome snap" and "directoriesBelowHome pend"
  shows "directoriesBelowHome p'"
proof (cases "isSudoPrompt snap")
  case False
  with assms(1) have "processCommand_line clk snap pend cmd = Inr (rs, p')"
    by (simp add: processCommand_no_prompt)
  from line_below_home [OF this assms(2,3)] show ?thesis .
next
  case True
  show ?thesis
  proof (cases "cmd = ''password''")
    case False
    with True assms(1,3) show ?thesis
      by (auto simp: processCommand_mismatch directoriesBelowHome_def split: if_splits)
  next
    case pw: True
    show ?thesis
    proof (cases "sudoCommand snap = ''password''")
      case True
      with \<open>isSudoPrompt snap\<close> pw assms(1) show ?thesis
        by (simp add: processCommand_password_loop)
    next
      case False
      with \<open>isSudoPrompt snap\<close> pw assms(1,3) show ?thesis
        by (auto simp: processCommand_match directoriesBelowHome_def split: if_splits)
    qed
  qed
qed

text \<open>
  Every session that starts in the first render stays below the home directory, whatever
  is entered and whichever timer callbacks fire.
\<close>

lemma fireAll_below_home: "directoriesBelowHome (fireAll clk tasks t) = directoriesBelowHome t"
  by (simp add: directoriesBelowHome_def fireAll_fields)

lemma runSession_below_home:
  assumes "runSession clk t steps = Some s" and "directoriesBelowHome t"
  shows "directoriesBelowHome s"
  using assms
proof (induction steps arbitrary: t)
  case Nil
  then show ?case by simp
next
  case (Cons step steps)
  obtain line fired now where step: "step = (line, fired, now)"
    by (cases step) auto
  with Cons.prems(1) obtain rs t' where
    run: "execute clk t line = Some (Inr (rs, t'))"
    and rest: "runSession clk (rerender now (fireAll clk fired t')) steps = Some s"
    by (auto split: option.splits sum.splits prod.splits)
  from run have "directoriesBelowHome t'"
    unfolding execute_def by (rule processCommand_below_home [OF _ Cons.prems(2) Cons.prems(2)])
  then have "directoriesBelowHome (rerender now (fireAll clk fired t'))"
    by (simp add: directoriesBelowHome_def fireAll_fields)
  from Cons.IH [OF rest this] show ?case .
qed

lemma initialTerminal_below_home: "directoriesBelowHome (initialTerminal now)"
  by (simp add: directoriesBelowHome_def initialTerminal_fields)

section \<open>The file system is never written\<close>











section \<open>Sorting\<close>

lemma set_insertBy: "set (insertBy compare x xs) = insert x (set xs)"
  by (induction xs) auto

lemma set_sortBy: "set (sortBy compare xs) = set xs"
  unfolding sortBy_def by (induction xs) (simp_all add: set_insertBy)

lemma sorted_insertBy:
  assumes total: "\<And>a b. compare a b \<le> 0 \<or> compare b a \<le> 0"
    and trans: "\<And>a b c. compare a b \<le> 0 \<Longrightarrow> compare b c \<le> 0 \<Longrightarrow> compare a c \<le> 0"
    and "sorted_wrt (\<lambda>a b. compare a b \<le> 0) xs"
  shows "sorted_wrt (\<lambda>a b. compare a b \<le> 0) (insertBy compare x xs)"
  using assms(3)
proof (induction xs)
  case Nil
  then show ?case by simp
next
  case (Cons y ys)
  show ?case
  proof (cases "compare x y \<le> 0")
    case True
    with Cons.prems show ?thesis
      by (auto intro: trans)
  next
    case False
    with total [of x y] have "compare y x \<le> 0"
      by simp
    with False Cons show ?thesis
      by (auto simp: set_insertBy)
  qed
qed

lemma sorted_sortBy:
  assumes "\<And>a b. compare a b \<le> 0 \<or> compare b a \<le> 0"
    and "\<And>a b c. compare a b \<le> 0 \<Longrightarrow> compare b c \<le> 0 \<Longrightarrow> compare a c \<le> 0"
  shows "sorted_wrt (\<lambda>a b. compare a b \<le> 0) (sortBy compare xs)"
  unfolding sortBy_def
  by (induction xs) (simp_all add: sorted_insertBy [OF assms])

text \<open>The comparison of \<^verbatim>\<open>ls\<close> puts a directory before a file and orders two names of the
  same kind by the order of strings.\<close>

lemma ls_compare_le:
  "(ls_compare dc a b \<le> 0) =
     ((isDirectoryKey dc a \<and> \<not> isDirectoryKey dc b)
      \<or> (isDirectoryKey dc a = isDirectoryKey dc b \<and> a \<le> b))"
  by (auto simp: ls_compare_def localeCompare_def Let_def)

lemma sorted_ls_items:
  "sorted_wrt (\<lambda>a b. (isDirectoryKey dc a \<and> \<not> isDirectoryKey dc b)
                       \<or> (isDirectoryKey dc a = isDirectoryKey dc b \<and> a \<le> b))
     (ls_items snap dc args)"
proof -
  have "sorted_wrt (\<lambda>a b. ls_compare dc a b \<le> 0) (sortBy (ls_compare dc) xs)" for xs
    by (rule sorted_sortBy) (auto simp: ls_compare_le)
  then show ?thesis
    by (simp add: ls_items_def Let_def ls_compare_le)
qed

lemma ls_items_no_dot:
  "\<not> ls_showHidden args \<Longrightarrow> n \<in> set (ls_items snap dc args) \<Longrightarrow> \<not> startsWith n ''.''"
  by (auto simp: ls_items_def Let_def set_sortBy split: if_splits)

section \<open>Which branches return a listing\<close>

lemma isText_simps [simp]:
  "isText (CommandResult ty (Text s))"
  "\<not> isText (CommandResult ty (Listing es))"
  by (simp_all add: isText_def)

lemma textOnly_handlers:
  "list_all isText (processCommand_help snap)"
  "list_all isText (processCommand_basicHelp snap)"
  "list_all isText (processCommand_unknown snap command)"
  "list_all isText (processCommand_section snap dir zh en example)"
  "list_all isText processCommand_github"
  "list_all isText (processCommand_pwd snap)"
  "list_all isText (processCommand_whoami snap)"
  "list_all isText processCommand_mkdir"
  "list_all isText (processCommand_find args)"
  "list_all isText (processCommand_man snap args)"
  "list_all isText (processCommand_echo args)"
  "list_all isText (processCommand_uname clk args)"
  "list_all isText (processCommand_exit snap)"
  "list_all isText (processCommand_id snap)"
  "list_all isText (processCommand_default snap cmd command args)"
  "list_all isText (fst (rickRoll snap pend))"
  "list_all isText (fst (processCommand_deviserStart snap pend))"
  "list_all isText (fst (processCommand_cat snap pend args))"
  "list_all isText (fst (processCommand_rm snap pend args))"
  "list_all isText (fst (processCommand_sudo snap pend args))"
  "list_all isText (fst (processCommand_lang snap pend args))"
  by (simp_all add: processCommand_help_def processCommand_basicHelp_def processCommand_unknown_def
        processCommand_section_def processCommand_github_def processCommand_pwd_def
        processCommand_whoami_def processCommand_mkdir_def processCommand_find_def
        processCommand_man_def processCommand_echo_def processCommand_uname_def
        processCommand_exit_def processCommand_id_def processCommand_default_def rickRoll_def
        processCommand_deviserStart_def processCommand_cat_def processCommand_rm_def
        processCommand_sudo_def processCommand_lang_def cat_noSuchFile_def Let_def list_all_iff
        split: list.splits option.splits)

lemma textOnly_sum_handlers:
  "processCommand_cd snap pend args = Inr (rs, p') \<Longrightarrow> list_all isText rs"
  "processCommand_chmod snap args = Inr rs \<Longrightarrow> list_all isText rs"
  "processCommand_chown snap args = Inr rs \<Longrightarrow> list_all isText rs"
  "processCommand_touch snap args = Inr rs \<Longrightarrow> list_all isText rs"
  by (auto simp: processCommand_cd_def cd_enter_def cd_noSuchDirectory_def processCommand_chmod_def
        processCommand_chown_def processCommand_touch_def Let_def
        split: list.splits option.splits sum.splits if_splits)

lemma textOnly_pair_handlers:
  "processCommand_cat snap pend args = (rs, p') \<Longrightarrow> list_all isText rs"
  "processCommand_rm snap pend args = (rs, p') \<Longrightarrow> list_all isText rs"
  "processCommand_sudo snap pend args = (rs, p') \<Longrightarrow> list_all isText rs"
  "processCommand_lang snap pend args = (rs, p') \<Longrightarrow> list_all isText rs"
  "rickRoll snap pend = (rs, p') \<Longrightarrow> list_all isText rs"
  "processCommand_deviserStart snap pend = (rs, p') \<Longrightarrow> list_all isText rs"
  using textOnly_handlers(16-17) [where snap = snap and pend = pend]
    textOnly_handlers(18-21) [where snap = snap and pend = pend and args = args]
  by auto

lemma not_listing: "list_all isText rs \<Longrightarrow> CommandResult ty (Listing es) \<notin> set rs"
  by (auto simp: list_all_iff)

lemma switch_listing:
  assumes "processCommand_switch clk snap pend cmd command args = Inr (rs, p')"
    and "CommandResult ty (Listing es) \<in> set rs"
  shows "rs = processCommand_ls snap args"
proof (rule ccontr)
  assume "rs \<noteq> processCommand_ls snap args"
  with assms(1) have "list_all isText rs"
    unfolding processCommand_switch_def Let_def
    by (auto split: if_splits sum.splits simp: textOnly_handlers
             dest: textOnly_sum_handlers textOnly_pair_handlers)
  with assms(2) show False
    using not_listing by blast
qed

lemma line_listing:
  assumes "processCommand_line clk snap pend cmd = Inr (rs, p')"
    and "CommandResult ty (Listing es) \<in> set rs"
  shows "rs = processCommand_ls snap (tl (js_split CHR '' '' cmd))"
proof (rule ccontr)
  assume n: "rs \<noteq> processCommand_ls snap (tl (js_split CHR '' '' cmd))"
  have "list_all isText rs"
  proof (cases "js_split CHR '' '' cmd")
    case Nil
    with assms(1) show ?thesis
      unfolding processCommand_line_def
      by (auto split: if_splits simp: textOnly_handlers dest: textOnly_pair_handlers)
  next
    case (Cons command args)
    with assms(1) n show ?thesis
      unfolding processCommand_line_def
      using switch_listing [of clk snap pend cmd command args rs p' ty es] assms(2)
      by (auto split: if_splits simp: textOnly_handlers dest: textOnly_pair_handlers)
  qed
  with assms(2) show False
    using not_listing by blast
qed

lemma processCommand_listing:
  assumes "processCommand clk snap pend cmd = Some (Inr (rs, p'))"
    and "CommandResult ty (Listing es) \<in> set rs"
  shows "rs = processCommand_ls snap (tl (js_split CHR '' '' cmd))"
proof (cases "isSudoPrompt snap")
  case False
  with assms show ?thesis
    by (simp add: processCommand_no_prompt line_listing)
next
  case True
  have "list_all isText rs"
  proof (cases "cmd = ''password''")
    case False
    with True assms(1) show ?thesis
      by (auto simp: processCommand_mismatch split: if_splits)
  next
    case pw: True
    show ?thesis
    proof (cases "sudoCommand snap = ''password''")
      case True
      with \<open>isSudoPrompt snap\<close> pw assms(1) show ?thesis
        by (simp add: processCommand_password_loop)
    next
      case False
      with \<open>isSudoPrompt snap\<close> pw assms(1) show ?thesis
        by (auto simp: processCommand_match split: if_splits)
    qed
  qed
  with assms(2) show ?thesis
    using not_listing by blast
qed

lemma ls_listing:
  assumes "CommandResult ty (Listing es) \<in> set (processCommand_ls snap args)"
  shows "\<exists>dc. es = map (ls_entry dc (ls_showDetails args)) (ls_items snap dc args)"
proof (cases "getCurrentDirectoryContent snap")
  case None
  with assms show ?thesis
    by (simp add: processCommand_ls_def)
next
  case (Some dc)
  have "list_all isText rs" if "''--help'' \<in> set args" and "rs = processCommand_ls snap args" for rs
    using that Some by (simp add: processCommand_ls_def)
  with assms have "''--help'' \<notin> set args"
    using not_listing by blast
  with assms Some show ?thesis
    by (auto simp: processCommand_ls_def Let_def split: if_splits)
qed

section \<open>The order of a listing\<close>

text \<open>
  Claim C9. Whatever the line and the state, every listing among the records that
  \<^verbatim>\<open>processCommand\<close> returns has all its directories before all its files, and the names of
  each of the two groups in the order of strings; and when none of the arguments of the line
  is \<^verbatim>\<open>-a\<close>, \<^verbatim>\<open>-la\<close> or \<^verbatim>\<open>-al\<close>, no name in it starts with a dot.
\<close>

theorem listing_is_ordered:
  assumes "execute clk t cmd = Some (Inr (rs, t'))"
    and "CommandResult ty (Listing es) \<in> set rs"
  shows "sorted_wrt listingOrder es
         \<and> (ls_showHidden (tl (js_split CHR '' '' cmd))
            \<or> (\<forall>e \<in> set es. \<not> startsWith (entryName e) ''.''))"
proof -
  from assms have "rs = processCommand_ls t (tl (js_split CHR '' '' cmd))"
    unfolding execute_def by (rule processCommand_listing)
  with assms(2) obtain dc where
    es: "es = map (ls_entry dc (ls_showDetails (tl (js_split CHR '' '' cmd))))
                (ls_items t dc (tl (js_split CHR '' '' cmd)))"
    using ls_listing by blast
  have "sorted_wrt listingOrder es"
    unfolding es using sorted_ls_items [of dc t "tl (js_split CHR '' '' cmd)"]
    by (simp add: sorted_wrt_map listingOrder_def ls_entry_def)
  moreover have "\<forall>e \<in> set es. \<not> startsWith (entryName e) ''.''"
    if "\<not> ls_showHidden (tl (js_split CHR '' '' cmd))"
    unfolding es using ls_items_no_dot [OF that] by (auto simp: ls_entry_def)
  ultimately show ?thesis by blast
qed

theorem listing_is_ordered_witness:
  "execute clock0 fullSession ''ls -la'' =
     Some (Inr ([CommandResult Success (Listing
        [LsEntry ''.github'' True (Some (''rwxr-xr-x'', ''deviser'', ''users'')),
         LsEntry ''about'' True (Some (''rwxr-xr-x'', ''deviser'', ''users'')),
         LsEntry ''contact'' True (Some (''rwxr-xr-x'', ''deviser'', ''users'')),
         LsEntry ''projects'' True (Some (''rwxr-xr-x'', ''deviser'', ''users'')),
         LsEntry ''skills'' True (Some (''rwxr-xr-x'', ''deviser'', ''users'')),
         LsEntry ''.bashrc'' False (Some (''rw-r--r--'', ''deviser'', ''users'')),
         LsEntry ''resume.pdf'' False (Some (''rw-r--r--'', ''deviser'', ''users''))])], fullSession))
   \<and> sorted_wrt listingOrder
        [LsEntry ''.github'' True (Some (''rwxr-xr-x'', ''deviser'', ''users'')),
         LsEntry ''about'' True (Some (''rwxr-xr-x'', ''deviser'', ''users'')),
         LsEntry ''contact'' True (Some (''rwxr-xr-x'', ''deviser'', ''users'')),
         LsEntry ''projects'' True (Some (''rwxr-xr-x'', ''deviser'', ''users'')),
         LsEntry ''skills'' True (Some (''rwxr-xr-x'', ''deviser'', ''users'')),
         LsEntry ''.bashrc'' False (Some (''rw-r--r--'', ''deviser'', ''users'')),
         LsEntry ''resume.pdf'' False (Some (''rw-r--r--'', ''deviser'', ''users''))]
   \<and> execute clock0 fullSession ''ls'' =
     Some (Inr ([CommandResult Success (Listing
        [LsEntry ''about'' True None, LsEntry ''contact'' True None,
         LsEntry ''projects'' True None, LsEntry ''skills'' True None,
         LsEntry ''resume.pdf'' False None])], fullSession))
   \<and> list_all (\<lambda>e. \<not> startsWith (entryName e) ''.'')
        [LsEntry ''about'' True None, LsEntry ''contact'' True None,
         LsEntry ''projects'' True None, LsEntry ''skills'' True None,
         LsEntry ''resume.pdf'' False None]"
proof -
  have e: "execute clock0 fullSession ''ls -la'' =
     Some (Inr ([CommandResult Success (Listing
        [LsEntry ''.github'' True (Some (''rwxr-xr-x'', ''deviser'', ''users'')),
         LsEntry ''about'' True (Some (''rwxr-xr-x'', ''deviser'', ''users'')),
         LsEntry ''contact'' True (Some (''rwxr-xr-x'', ''deviser'', ''users'')),
         LsEntry ''projects'' True (Some (''rwxr-xr-x'', ''deviser'', ''users'')),
         LsEntry ''skills'' True (Some (''rwxr-xr-x'', ''deviser'', ''users'')),
         LsEntry ''.bashrc'' False (Some (''rw-r--r--'', ''deviser'', ''users'')),
         LsEntry ''resume.pdf'' False (Some (''rw-r--r--'', ''deviser'', ''users''))])], fullSession))"
    unfolding execute_def
    apply (subst processCommand_no_prompt)
     apply (simp add: fullSession_fields)
    apply (simp add: fullSession_fields processCommand_line_def js_includes_single startsWith_def
        processCommand_switch_def startsWith_def toLowerChar_def processCommand_ls_def
        getCurrentDirectoryContent_def topLevel_def asItem_def fileSystemLiteral_def
        ls_items_def ls_showHidden_def ls_showDetails_def sortBy_def ls_compare_def
        isDirectoryKey_def localeCompare_def ls_entry_def Let_def
        fs_about_def fs_skills_def fs_projects_def fs_contact_def fs_github_def
        fs_resume_pdf_def fs_bashrc_def)
    done
  have e': "execute clock0 fullSession ''ls'' =
     Some (Inr ([CommandResult Success (Listing
        [LsEntry ''about'' True None, LsEntry ''contact'' True None,
         LsEntry ''projects'' True None, LsEntry ''skills'' True None,
         LsEntry ''resume.pdf'' False None])], fullSession))"
    unfolding execute_def
    apply (subst processCommand_no_prompt)
     apply (simp add: fullSession_fields)
    apply (simp add: fullSession_fields processCommand_line_def js_includes_single startsWith_def
        processCommand_switch_def startsWith_def toLowerChar_def processCommand_ls_def
        getCurrentDirectoryContent_def topLevel_def asItem_def fileSystemLiteral_def
        ls_items_def ls_showHidden_def ls_showDetails_def sortBy_def ls_compare_def
        isDirectoryKey_def localeCompare_def ls_entry_def Let_def
        fs_about_def fs_skills_def fs_projects_def fs_contact_def fs_github_def
        fs_resume_pdf_def fs_bashrc_def)
    done
  have flags: "\<not> ls_showHidden (tl (js_split CHR '' '' ''ls''))"
    by (simp add: ls_showHidden_def)
  from listing_is_ordered [OF e] have 1: "sorted_wrt listingOrder
        [LsEntry ''.github'' True (Some (''rwxr-xr-x'', ''deviser'', ''users'')),
         LsEntry ''about'' True (Some (''rwxr-xr-x'', ''deviser'', ''users'')),
         LsEntry ''contact'' True (Some (''rwxr-xr-x'', ''deviser'', ''users'')),
         LsEntry ''projects'' True (Some (''rwxr-xr-x'', ''deviser'', ''users'')),
         LsEntry ''skills'' True (Some (''rwxr-xr-x'', ''deviser'', ''users'')),
         LsEntry ''.bashrc'' False (Some (''rw-r--r--'', ''deviser'', ''users'')),
         LsEntry ''resume.pdf'' False (Some (''rw-r--r--'', ''deviser'', ''users''))]"
    by simp
  from listing_is_ordered [OF e'] flags have 2: "list_all (\<lambda>e. \<not> startsWith (entryName e) ''.'')
        [LsEntry ''about'' True None, LsEntry ''contact'' True None,
         LsEntry ''projects'' True None, LsEntry ''skills'' True None,
         LsEntry ''resume.pdf'' False None]"
    by (simp add: list_all_iff)
  from e 1 e' 2 show ?thesis
    by (intro conjI)
qed

section \<open>The restricted mode and its end\<close>

lemma getCurrentDirectoryContent_home:
  "currentDirectory t = ''~'' \<Longrightarrow> getCurrentDirectoryContent t = Some (fst (fileSystem t))"
  by (cases "fileSystem t") (simp add: getCurrentDirectoryContent_def topLevel_def asItem_def)

lemma listedNames_ls:
  assumes "getCurrentDirectoryContent t = Some dc" and "''--help'' \<notin> set args"
  shows "listedNames (processCommand_ls t args) = ls_items t dc args"
  using assms
  by (simp add: processCommand_ls_def listedNames_def Let_def ls_entry_def comp_def)

lemma set_ls_items:
  "set (ls_items t dc args) =
     {n \<in> fst ` set dc. (ls_showHidden args \<or> \<not> startsWith n ''.'')
                         \<and> (isFullFeatured t \<or> n \<notin> set hiddenFolders)}"
  by (auto simp: ls_items_def Let_def set_sortBy)

lemma showHidden_simps: "ls_showHidden [] = False" "ls_showHidden [''-a''] = True"
  by (simp_all add: ls_showHidden_def)

lemma line_ls:
  "processCommand_line clk snap pend ''ls'' = Inr (processCommand_ls snap [], pend)"
  "processCommand_line clk snap pend ''ls -a'' = Inr (processCommand_ls snap [''-a''], pend)"
  by (simp_all add: processCommand_line_def js_includes_single startsWith_def startsWith_def
        toLowerChar_def basicCommands_def processCommand_switch_def)

lemma line_deviserStart:
  "processCommand_line clk snap pend ''deviser start'' = Inr (processCommand_deviserStart snap pend)"
  by (simp add: processCommand_line_def js_includes_single startsWith_def startsWith_def
        toLowerChar_def)

lemma deviserStart_restricted:
  assumes "\<not> isFullFeatured snap"
  shows "fst (processCommand_deviserStart snap pend) = []"
    and "isFullFeatured (snd (processCommand_deviserStart snap pend))"
    and "fileSystem (snd (processCommand_deviserStart snap pend)) = fileSystem pend"
  using assms by (simp_all add: processCommand_deviserStart_def scheduleAll_eq Let_def)

text \<open>Once the feature flag is set, no session resets it; and the names in the root are
  those of the literal in every render of a session.\<close>

lemma runSession_invariant:
  assumes "runSession clk t steps = Some t'"
  shows "fst ` set (fst (fileSystem t')) = fst ` set (fst (fileSystem t))"
    and "isFullFeatured t \<Longrightarrow> isFullFeatured t'"
proof -
  show "fst ` set (fst (fileSystem t')) = fst ` set (fst (fileSystem t))"
    using fileSystem_names [of t' t] by (metis set_map)
  have "isFullFeatured t \<longrightarrow> isFullFeatured t'"
    using assms
  proof (induction steps arbitrary: t)
    case Nil
    then show ?case by simp
  next
    case (Cons step steps)
    obtain line fired now where step: "step = (line, fired, now)"
      by (cases step)
    from Cons.prems obtain rs t1 where
      e: "execute clk t line = Some (Inr (rs, t1))" and
      r: "runSession clk (rerender now (fireAll clk fired t1)) steps = Some t'"
      by (auto simp: step split: option.splits sum.splits)
    from e have "isFullFeatured t \<Longrightarrow> isFullFeatured t1"
      unfolding execute_def by (rule processCommand_frame)
    with Cons.IH [OF r] show ?case
      by (simp add: fireAll_fields)
  qed
  then show "isFullFeatured t \<Longrightarrow> isFullFeatured t'"
    by simp
qed

text \<open>
  Claim C7. In the restricted mode, in the home directory, \<^verbatim>\<open>ls\<close> lists the names of the root
  that are outside the gated set and do not start with a dot, and \<^verbatim>\<open>ls -a\<close> all names outside
  the gated set. \<^verbatim>\<open>deviser start\<close> returns at once and leaves a state from which, after any
  timer callbacks and any further session that is back in the home directory with no
  password awaited, the mode is full and \<^verbatim>\<open>ls\<close> lists every name of the same root that does
  not start with a dot, and \<^verbatim>\<open>ls -a\<close> every name: the gate does not come back.
\<close>

theorem restricted_listing_and_unlock:
  assumes "\<not> isSudoPrompt t" and "currentDirectory t = ''~''" and "\<not> isFullFeatured t"
  shows "execute clk t ''ls'' = Some (Inr (processCommand_ls t [], t))
     \<and> set (listedNames (processCommand_ls t [])) =
          {n \<in> fst ` set (fst (fileSystem t)). \<not> startsWith n ''.'' \<and> n \<notin> set hiddenFolders}
     \<and> execute clk t ''ls -a'' = Some (Inr (processCommand_ls t [''-a''], t))
     \<and> set (listedNames (processCommand_ls t [''-a''])) =
          {n \<in> fst ` set (fst (fileSystem t)). n \<notin> set hiddenFolders}
     \<and> (\<exists>t1. execute clk t ''deviser start'' = Some (Inr ([], t1))
          \<and> (\<forall>fired rest t2.
                runSession clk (fireAll clk fired t1) rest = Some t2
                \<and> currentDirectory t2 = ''~'' \<and> \<not> isSudoPrompt t2
                \<longrightarrow> isFullFeatured t2
                    \<and> execute clk t2 ''ls'' = Some (Inr (processCommand_ls t2 [], t2))
                    \<and> set (listedNames (processCommand_ls t2 [])) =
                         {n \<in> fst ` set (fst (fileSystem t)). \<not> startsWith n ''.''}
                    \<and> execute clk t2 ''ls -a'' = Some (Inr (processCommand_ls t2 [''-a''], t2))
                    \<and> set (listedNames (processCommand_ls t2 [''-a''])) =
                         fst ` set (fst (fileSystem t))))"
proof -
  have ls: "execute clk s ''ls'' = Some (Inr (processCommand_ls s [], s))"
       "execute clk s ''ls -a'' = Some (Inr (processCommand_ls s [''-a''], s))"
    if "\<not> isSudoPrompt s" for s
    using that by (simp_all add: execute_def processCommand_no_prompt line_ls)
  have names: "set (listedNames (processCommand_ls s args)) =
                 {n \<in> fst ` set (fst (fileSystem s)). (ls_showHidden args \<or> \<not> startsWith n ''.'')
                    \<and> (isFullFeatured s \<or> n \<notin> set hiddenFolders)}"
    if "currentDirectory s = ''~''" and "''--help'' \<notin> set args" for s args
    using that
    by (simp add: listedNames_ls [OF getCurrentDirectoryContent_home] set_ls_items)
  define t1 where "t1 = snd (processCommand_deviserStart t t)"
  have start: "execute clk t ''deviser start'' = Some (Inr ([], t1))"
    using assms(1) deviserStart_restricted(1) [OF assms(3), of t]
    by (simp add: execute_def processCommand_no_prompt line_deviserStart t1_def
          prod_eq_iff)
  have after: "isFullFeatured t2
                    \<and> execute clk t2 ''ls'' = Some (Inr (processCommand_ls t2 [], t2))
                    \<and> set (listedNames (processCommand_ls t2 [])) =
                         {n \<in> fst ` set (fst (fileSystem t)). \<not> startsWith n ''.''}
                    \<and> execute clk t2 ''ls -a'' = Some (Inr (processCommand_ls t2 [''-a''], t2))
                    \<and> set (listedNames (processCommand_ls t2 [''-a''])) =
                         fst ` set (fst (fileSystem t))"
    if run: "runSession clk (fireAll clk fired t1) rest = Some t2"
      and home: "currentDirectory t2 = ''~''" and prompt: "\<not> isSudoPrompt t2"
    for fired rest t2
  proof -
    have "isFullFeatured (fireAll clk fired t1)" "fileSystem (fireAll clk fired t1) = fileSystem t"
      using deviserStart_restricted(2,3) [OF assms(3), of t]
      by (simp_all add: fireAll_fields t1_def)
    with runSession_invariant [OF run] have full: "isFullFeatured t2"
      and fs: "fst ` set (fst (fileSystem t2)) = fst ` set (fst (fileSystem t))"
      by simp_all
    have m0: "set (listedNames (processCommand_ls t2 [])) =
                {n \<in> fst ` set (fst (fileSystem t)). \<not> startsWith n ''.''}"
      unfolding names [OF home, of "[]", simplified] showHidden_simps fs
      using full by simp
    have m1: "set (listedNames (processCommand_ls t2 [''-a''])) = fst ` set (fst (fileSystem t))"
      unfolding names [OF home, of "[''-a'']", simplified] showHidden_simps fs
      using full by simp
    from full ls(1) [OF prompt] m0 ls(2) [OF prompt] m1
    show ?thesis by (intro conjI)
  qed
  have n0: "set (listedNames (processCommand_ls t [])) =
          {n \<in> fst ` set (fst (fileSystem t)). \<not> startsWith n ''.'' \<and> n \<notin> set hiddenFolders}"
    unfolding names [OF assms(2), of "[]", simplified] showHidden_simps
    using assms(3) by simp
  have n1: "set (listedNames (processCommand_ls t [''-a''])) =
          {n \<in> fst ` set (fst (fileSystem t)). n \<notin> set hiddenFolders}"
    unfolding names [OF assms(2), of "[''-a'']", simplified] showHidden_simps
    using assms(3) by simp
  have unlock: "\<exists>t1. execute clk t ''deviser start'' = Some (Inr ([], t1))
          \<and> (\<forall>fired rest t2.
                runSession clk (fireAll clk fired t1) rest = Some t2
                \<and> currentDirectory t2 = ''~'' \<and> \<not> isSudoPrompt t2
                \<longrightarrow> isFullFeatured t2
                    \<and> execute clk t2 ''ls'' = Some (Inr (processCommand_ls t2 [], t2))
                    \<and> set (listedNames (processCommand_ls t2 [])) =
                         {n \<in> fst ` set (fst (fileSystem t)). \<not> startsWith n ''.''}
                    \<and> execute clk t2 ''ls -a'' = Some (Inr (processCommand_ls t2 [''-a''], t2))
                    \<and> set (listedNames (processCommand_ls t2 [''-a''])) =
                         fst ` set (fst (fileSystem t)))"
  proof (rule exI [of _ t1], rule conjI [OF start], intro allI impI)
    fix fired rest t2
    assume h: "runSession clk (fireAll clk fired t1) rest = Some t2
                \<and> currentDirectory t2 = ''~'' \<and> \<not> isSudoPrompt t2"
    then have r: "runSession clk (fireAll clk fired t1) rest = Some t2"
      and c: "currentDirectory t2 = ''~''" and p: "\<not> isSudoPrompt t2"
      by simp_all
    from after [OF r c p]
    show "isFullFeatured t2
                    \<and> execute clk t2 ''ls'' = Some (Inr (processCommand_ls t2 [], t2))
                    \<and> set (listedNames (processCommand_ls t2 [])) =
                         {n \<in> fst ` set (fst (fileSystem t)). \<not> startsWith n ''.''}
                    \<and> execute clk t2 ''ls -a'' = Some (Inr (processCommand_ls t2 [''-a''], t2))
                    \<and> set (listedNames (processCommand_ls t2 [''-a''])) =
                         fst ` set (fst (fileSystem t))" .
  qed
  from ls(1) [OF assms(1)] n0 ls(2) [OF assms(1)] n1 unlock
  show ?thesis by (intro conjI)
qed

theorem restricted_listing_and_unlock_witness:
  "execute clock0 (initialTerminal 0) ''ls'' =
     Some (Inr ([CommandResult Success (Listing [LsEntry ''resume.pdf'' False None])],
                initialTerminal 0))
   \<and> set (listedNames (processCommand_ls (initialTerminal 0) [''-a''])) = {''resume.pdf'', ''.bashrc''}
   \<and> execute clock0 (initialTerminal 0) ''deviser start'' = Some (Inr ([], startedSession))
   \<and> isFullFeatured fullSession
   \<and> execute clock0 fullSession ''ls'' =
       Some (Inr ([CommandResult Success (Listing
          [LsEntry ''about'' True None, LsEntry ''contact'' True None,
           LsEntry ''projects'' True None, LsEntry ''skills'' True None,
           LsEntry ''resume.pdf'' False None])], fullSession))
   \<and> set (listedNames (processCommand_ls fullSession [''-a''])) =
       {''about'', ''skills'', ''projects'', ''contact'', ''.github'', ''resume.pdf'', ''.bashrc''}"
proof -
  note instance0 = restricted_listing_and_unlock [of "initialTerminal 0" clock0]
  have pre: "\<not> isSudoPrompt (initialTerminal 0)" "currentDirectory (initialTerminal 0) = ''~''"
    "\<not> isFullFeatured (initialTerminal 0)"
    by (simp_all add: initialTerminal_fields)
  have keys: "fst ` set (fst (fileSystemLiteral 0)) =
      {''about'', ''skills'', ''projects'', ''contact'', ''.github'', ''resume.pdf'', ''.bashrc''}"
    by (simp add: fileSystemLiteral_def)
  have ls0: "processCommand_ls (initialTerminal 0) [] =
      [CommandResult Success (Listing [LsEntry ''resume.pdf'' False None])]"
    by (simp add: processCommand_ls_def getCurrentDirectoryContent_def topLevel_def asItem_def
        initialTerminal_fields fileSystemLiteral_def ls_items_def ls_showHidden_def
        ls_showDetails_def sortBy_def ls_compare_def isDirectoryKey_def localeCompare_def
        ls_entry_def Let_def hiddenFolders_def startsWith_def fs_resume_pdf_def)
  have ls1: "processCommand_ls fullSession [] =
      [CommandResult Success (Listing
          [LsEntry ''about'' True None, LsEntry ''contact'' True None,
           LsEntry ''projects'' True None, LsEntry ''skills'' True None,
           LsEntry ''resume.pdf'' False None])]"
    by (simp add: processCommand_ls_def getCurrentDirectoryContent_def topLevel_def asItem_def
        fullSession_fields fileSystemLiteral_def ls_items_def ls_showHidden_def
        ls_showDetails_def sortBy_def ls_compare_def isDirectoryKey_def localeCompare_def
        ls_entry_def Let_def startsWith_def fs_resume_pdf_def
        fs_about_def fs_skills_def fs_projects_def fs_contact_def)
  note i = instance0 [OF pre]
  note a = i [THEN conjunct1]
  note b = i [THEN conjunct2, THEN conjunct2, THEN conjunct2, THEN conjunct1]
  note ex = i [THEN conjunct2, THEN conjunct2, THEN conjunct2, THEN conjunct2]
  from ex obtain t1 where
    cd: "execute clock0 (initialTerminal 0) ''deviser start'' = Some (Inr ([], t1))
          \<and> (\<forall>fired rest t2.
                runSession clock0 (fireAll clock0 fired t1) rest = Some t2
                \<and> currentDirectory t2 = ''~'' \<and> \<not> isSudoPrompt t2
                \<longrightarrow> isFullFeatured t2
                    \<and> execute clock0 t2 ''ls'' = Some (Inr (processCommand_ls t2 [], t2))
                    \<and> set (listedNames (processCommand_ls t2 [])) =
                         {n \<in> fst ` set (fst (fileSystem (initialTerminal 0))). \<not> startsWith n ''.''}
                    \<and> execute clock0 t2 ''ls -a'' = Some (Inr (processCommand_ls t2 [''-a''], t2))
                    \<and> set (listedNames (processCommand_ls t2 [''-a''])) =
                         fst ` set (fst (fileSystem (initialTerminal 0))))" ..
  note c = cd [THEN conjunct1]
  from c have t1: "t1 = startedSession"
    by (simp add: startedSession_reached)
  have run: "runSession clock0 (fireAll clock0 (concat (map snd (timers startedSession))) t1) [] = Some fullSession
             \<and> currentDirectory fullSession = ''~'' \<and> \<not> isSudoPrompt fullSession"
    by (simp add: t1 fullSession_def [symmetric] fullSession_fields)
  note e = cd [THEN conjunct2, rule_format, OF run]
  note e1 = e [THEN conjunct1]
  note e2 = e [THEN conjunct2, THEN conjunct1]
  note e5 = e [THEN conjunct2, THEN conjunct2, THEN conjunct2, THEN conjunct2]
  have w1: "execute clock0 (initialTerminal 0) ''ls'' =
     Some (Inr ([CommandResult Success (Listing [LsEntry ''resume.pdf'' False None])],
                initialTerminal 0))"
    using a by (simp only: ls0)
  have w2: "set (listedNames (processCommand_ls (initialTerminal 0) [''-a''])) = {''resume.pdf'', ''.bashrc''}"
    unfolding b initialTerminal_fields keys hiddenFolders_def by auto
  have w3: "execute clock0 (initialTerminal 0) ''deviser start'' = Some (Inr ([], startedSession))"
    using c by (simp only: t1)
  have w5: "execute clock0 fullSession ''ls'' =
       Some (Inr ([CommandResult Success (Listing
          [LsEntry ''about'' True None, LsEntry ''contact'' True None,
           LsEntry ''projects'' True None, LsEntry ''skills'' True None,
           LsEntry ''resume.pdf'' False None])], fullSession))"
    using e2 by (simp only: ls1)
  have w6: "set (listedNames (processCommand_ls fullSession [''-a''])) =
       {''about'', ''skills'', ''projects'', ''contact'', ''.github'', ''resume.pdf'', ''.bashrc''}"
    unfolding e5 initialTerminal_fields keys ..
  from w1 w2 w3 e1 w5 w6 show ?thesis
    by (intro conjI)
qed

section \<open>Unknown commands\<close>

text \<open>\<^verbatim>\<open>ls\<close> reads five arguments and ignores every other one.\<close>

lemma ls_ignores_other_arguments:
  "processCommand_ls t args =
     processCommand_ls t (filter (\<lambda>a. a \<in> set [''--help'', ''-a'', ''-l'', ''-la'', ''-al'']) args)"
  by (auto simp: processCommand_ls_def ls_items_def ls_showHidden_def ls_showDetails_def Let_def
           split: option.splits)

text \<open>A line answered by the \<^verbatim>\<open>switch\<close>, in either mode.\<close>

lemma execute_switch:
  assumes "\<not> isSudoPrompt t" and "\<not> js_includes cmd ''|''" and "\<not> js_includes cmd ''>''"
    and "js_split CHR '' '' cmd = command # args"
    and "toLowerCase command \<noteq> ''rm''"
    and "\<not> (toLowerCase command = ''deviser''
             \<and> (case args of [] \<Rightarrow> False | arg # rest \<Rightarrow> toLowerCase arg = ''start''))"
    and "isFullFeatured t
         \<or> ((toLowerCase command \<in> set basicCommands \<or> toLowerCase command = [])
             \<and> toLowerCase command \<noteq> ''help'')"
  shows "execute clk t cmd = Some (processCommand_switch clk t t cmd command args)"
proof -
  have "\<not> (startsWith cmd ''rm -rf'' \<or> startsWith cmd ''rm -fr'')"
  proof
    assume "startsWith cmd ''rm -rf'' \<or> startsWith cmd ''rm -fr''"
    then have "command = ''rm''"
      using rm_prefix_command [of cmd command args] assms(4) by simp
    with assms(5) show False
      by (simp add: startsWith_def toLowerChar_def)
  qed
  with assms line_to_switch [of cmd command args t clk t] show ?thesis
    by (simp add: execute_def processCommand_no_prompt)
qed

lemma lang_other_argument:
  assumes "toLowerCase arg \<noteq> ''en''" and "toLowerCase arg \<noteq> ''zh''"
  shows \<open>processCommand_lang t t (arg # rest) =
           ([CommandResult Error (Text (byLang t ((''{U+7121}{U+6548}{U+7684}{U+9078}{U+9805} -- '' @ [CHR 0x27]) @ arg @ [CHR 0x27])
                                                 ((''Invalid option -- '' @ [CHR 0x27]) @ arg @ [CHR 0x27]))),
             CommandResult Info (Text (byLang t ''{U+7528}{U+6CD5}: lang [zh|en]'' ''Usage: lang [zh|en]''))], t)\<close>
  using assms by (simp add: processCommand_lang_def)

text \<open>
  Claim C8, as the code has it. No password is awaited and the line has no bar and no
  greater-than sign.
  \<^item> The lower-cased command name is no label of the \<^verbatim>\<open>switch\<close>, the line is not the service
    start, and the mode is full (or, in the restricted mode, the name is \<^verbatim>\<open>deviser\<close> or
    empty, which the gate lets through). Then the line is answered by one error record
    and the state stays as it is: the invalid-option report, with the arguments in quotes,
    when a word of the line starts with a dash; the not-found report when the line holds no
    dash at all. (A line whose dashes are all inside its words is left out here.)
  \<^item> In the restricted mode a line whose command name is not empty and not a basic command,
    and that does not start with \<^verbatim>\<open>rm -rf\<close> or \<^verbatim>\<open>rm -fr\<close>, is answered by the unknown-command
    error and its two hints, dash or not.
  \<^item> On a known command a flag is the business of the case of that command: \<^verbatim>\<open>ls\<close> answers
    as if every argument other than \<^verbatim>\<open>--help\<close>, \<^verbatim>\<open>-a\<close>, \<^verbatim>\<open>-l\<close>, \<^verbatim>\<open>-la\<close> and \<^verbatim>\<open>-al\<close> were not
    there, and \<^verbatim>\<open>lang\<close> with a first argument other than \<^verbatim>\<open>en\<close> and \<^verbatim>\<open>zh\<close> returns an
    invalid-option error of its own and its usage line.
\<close>

theorem unknown_command_report:
  assumes "\<not> isSudoPrompt t" and "\<not> js_includes cmd ''|''" and "\<not> js_includes cmd ''>''"
    and "js_split CHR '' '' cmd = command # args"
  shows \<open>(toLowerCase command \<notin> set switchLabels
           \<and> \<not> (toLowerCase command = ''deviser''
                  \<and> (case args of [] \<Rightarrow> False | arg # rest \<Rightarrow> toLowerCase arg = ''start''))
           \<and> (isFullFeatured t \<or> toLowerCase command = ''deviser'' \<or> toLowerCase command = [])
          \<longrightarrow> ((\<exists>word \<in> set (command # args). startsWith word ''-'')
                 \<longrightarrow> execute clk t cmd =
                       Some (Inr ([CommandResult Error (Text
                                    (command @ '': '' @ byLang t ''{U+7121}{U+6548}{U+7684}{U+9078}{U+9805}'' ''Invalid option''
                                     @ ('' -- '' @ [CHR 0x27]) @ join '' '' args @ [CHR 0x27]))], t)))
              \<and> (\<not> js_includes cmd ''-''
                  \<longrightarrow> execute clk t cmd =
                        Some (Inr ([CommandResult Error (Text
                                     (command @ '': ''
                                      @ byLang t ''{U+547D}{U+4EE4}{U+672A}{U+627E}{U+5230}{U+FF0C}{U+8F38}{U+5165} "help" {U+67E5}{U+770B}{U+53EF}{U+7528}{U+547D}{U+4EE4}''
                                          ''Command not found, type "help" to see available commands''))],
                                   t))))
         \<and> (\<not> isFullFeatured t \<and> toLowerCase command \<notin> set basicCommands
              \<and> toLowerCase command \<noteq> []
              \<and> \<not> (startsWith cmd ''rm -rf'' \<or> startsWith cmd ''rm -fr'')
             \<longrightarrow> execute clk t cmd = Some (Inr (processCommand_unknown t command, t)))
         \<and> (toLowerCase command = ''ls''
             \<longrightarrow> execute clk t cmd =
                   Some (Inr (processCommand_ls t
                                (filter (\<lambda>a. a \<in> set [''--help'', ''-a'', ''-l'', ''-la'', ''-al'']) args),
                              t)))
         \<and> (toLowerCase command = ''lang'' \<and> args \<noteq> []
              \<and> toLowerCase (hd args) \<noteq> ''en'' \<and> toLowerCase (hd args) \<noteq> ''zh''
             \<longrightarrow> execute clk t cmd =
                   Some (Inr ([CommandResult Error (Text
                                 (byLang t ((''{U+7121}{U+6548}{U+7684}{U+9078}{U+9805} -- '' @ [CHR 0x27]) @ hd args @ [CHR 0x27])
                                           ((''Invalid option -- '' @ [CHR 0x27]) @ hd args @ [CHR 0x27]))),
                               CommandResult Info (Text
                                 (byLang t ''{U+7528}{U+6CD5}: lang [zh|en]'' ''Usage: lang [zh|en]''))], t)))\<close>
proof (intro conjI impI)
  assume a: "toLowerCase command \<notin> set switchLabels
           \<and> \<not> (toLowerCase command = ''deviser''
                  \<and> (case args of [] \<Rightarrow> False | arg # rest \<Rightarrow> toLowerCase arg = ''start''))
           \<and> (isFullFeatured t \<or> toLowerCase command = ''deviser'' \<or> toLowerCase command = [])"
    and dash: "\<exists>word \<in> set (command # args). startsWith word ''-''"
  from a have "toLowerCase command \<noteq> ''rm''" and "toLowerCase command \<noteq> ''help''"
    by (auto simp: switchLabels_def)
  with a assms have "execute clk t cmd = Some (processCommand_switch clk t t cmd command args)"
    by (intro execute_switch) (auto simp: basicCommands_def)
  moreover from dash assms(4) have "js_includes cmd ''-''"
    using dash_token_in_line [of cmd command args] by blast
  ultimately show \<open>execute clk t cmd =
                       Some (Inr ([CommandResult Error (Text
                                    (command @ '': '' @ byLang t ''{U+7121}{U+6548}{U+7684}{U+9078}{U+9805}'' ''Invalid option''
                                     @ ('' -- '' @ [CHR 0x27]) @ join '' '' args @ [CHR 0x27]))], t))\<close>
    using a by (simp add: switch_default processCommand_default_def getText_errors)
next
  assume a: "toLowerCase command \<notin> set switchLabels
           \<and> \<not> (toLowerCase command = ''deviser''
                  \<and> (case args of [] \<Rightarrow> False | arg # rest \<Rightarrow> toLowerCase arg = ''start''))
           \<and> (isFullFeatured t \<or> toLowerCase command = ''deviser'' \<or> toLowerCase command = [])"
    and nodash: "\<not> js_includes cmd ''-''"
  from a have "toLowerCase command \<noteq> ''rm''" and "toLowerCase command \<noteq> ''help''"
    by (auto simp: switchLabels_def)
  with a assms have "execute clk t cmd = Some (processCommand_switch clk t t cmd command args)"
    by (intro execute_switch) (auto simp: basicCommands_def)
  with a nodash show \<open>execute clk t cmd =
                        Some (Inr ([CommandResult Error (Text
                                     (command @ '': ''
                                      @ byLang t ''{U+547D}{U+4EE4}{U+672A}{U+627E}{U+5230}{U+FF0C}{U+8F38}{U+5165} "help" {U+67E5}{U+770B}{U+53EF}{U+7528}{U+547D}{U+4EE4}''
                                          ''Command not found, type "help" to see available commands''))],
                                   t))\<close>
    by (simp add: switch_default processCommand_default_def getText_errors)
next
  assume "\<not> isFullFeatured t \<and> toLowerCase command \<notin> set basicCommands
              \<and> toLowerCase command \<noteq> []
              \<and> \<not> (startsWith cmd ''rm -rf'' \<or> startsWith cmd ''rm -fr'')"
  with assms line_unknown [of cmd command args t clk t]
  show "execute clk t cmd = Some (Inr (processCommand_unknown t command, t))"
    by (simp add: execute_def processCommand_no_prompt)
next
  assume a: "toLowerCase command = ''ls''"
  with assms have "execute clk t cmd = Some (processCommand_switch clk t t cmd command args)"
    by (intro execute_switch) (simp_all add: basicCommands_def)
  with a show "execute clk t cmd =
                   Some (Inr (processCommand_ls t
                                (filter (\<lambda>a. a \<in> set [''--help'', ''-a'', ''-l'', ''-la'', ''-al'']) args),
                              t))"
    using ls_ignores_other_arguments [of t args]
    by (simp add: processCommand_switch_def)
next
  assume a: "toLowerCase command = ''lang'' \<and> args \<noteq> []
              \<and> toLowerCase (hd args) \<noteq> ''en'' \<and> toLowerCase (hd args) \<noteq> ''zh''"
  then obtain arg rest where args: "args = arg # rest"
    by (cases args) auto
  from a assms have "execute clk t cmd = Some (processCommand_switch clk t t cmd command args)"
    by (intro execute_switch) (simp_all add: basicCommands_def)
  with a args show \<open>execute clk t cmd =
                   Some (Inr ([CommandResult Error (Text
                                 (byLang t ((''{U+7121}{U+6548}{U+7684}{U+9078}{U+9805} -- '' @ [CHR 0x27]) @ hd args @ [CHR 0x27])
                                           ((''Invalid option -- '' @ [CHR 0x27]) @ hd args @ [CHR 0x27]))),
                               CommandResult Info (Text
                                 (byLang t ''{U+7528}{U+6CD5}: lang [zh|en]'' ''Usage: lang [zh|en]''))], t))\<close>
    using lang_other_argument [of arg t rest]
    by (simp add: processCommand_switch_def)
qed

theorem unknown_command_report_witness:
  \<open>execute clock0 fullSession ''foo -x'' =
     Some (Inr ([CommandResult Error (Text (''foo: {U+7121}{U+6548}{U+7684}{U+9078}{U+9805} -- '' @ [CHR 0x27] @ ''-x'' @ [CHR 0x27]))], fullSession))
   \<and> execute clock0 fullSession ''foo'' =
     Some (Inr ([CommandResult Error (Text ''foo: {U+547D}{U+4EE4}{U+672A}{U+627E}{U+5230}{U+FF0C}{U+8F38}{U+5165} "help" {U+67E5}{U+770B}{U+53EF}{U+7528}{U+547D}{U+4EE4}'')], fullSession))
   \<and> execute clock0 (initialTerminal 0) ''deviser stop'' =
     Some (Inr ([CommandResult Error (Text ''deviser: {U+547D}{U+4EE4}{U+672A}{U+627E}{U+5230}{U+FF0C}{U+8F38}{U+5165} "help" {U+67E5}{U+770B}{U+53EF}{U+7528}{U+547D}{U+4EE4}'')],
                initialTerminal 0))
   \<and> execute clock0 (initialTerminal 0) ''rm notes'' =
     Some (Inr (processCommand_unknown (initialTerminal 0) ''rm'', initialTerminal 0))
   \<and> execute clock0 fullSession ''ls -z'' =
     Some (Inr (processCommand_ls fullSession [], fullSession))
   \<and> execute clock0 fullSession ''lang -x'' =
     Some (Inr ([CommandResult Error (Text (''{U+7121}{U+6548}{U+7684}{U+9078}{U+9805} -- '' @ [CHR 0x27] @ ''-x'' @ [CHR 0x27])),
                 CommandResult Info (Text ''{U+7528}{U+6CD5}: lang [zh|en]'')], fullSession))\<close>
proof -
  have 1: \<open>execute clock0 fullSession ''foo -x'' =
     Some (Inr ([CommandResult Error (Text (''foo: {U+7121}{U+6548}{U+7684}{U+9078}{U+9805} -- '' @ [CHR 0x27] @ ''-x'' @ [CHR 0x27]))], fullSession))\<close>
    using unknown_command_report [of fullSession "''foo -x''" "''foo''" "[''-x'']" clock0,
            THEN conjunct1]
    by (simp add: fullSession_fields js_includes_single startsWith_def toLowerChar_def
          switchLabels_def byLang_def)
  have 2: \<open>execute clock0 fullSession ''foo'' =
     Some (Inr ([CommandResult Error (Text ''foo: {U+547D}{U+4EE4}{U+672A}{U+627E}{U+5230}{U+FF0C}{U+8F38}{U+5165} "help" {U+67E5}{U+770B}{U+53EF}{U+7528}{U+547D}{U+4EE4}'')], fullSession))\<close>
    using unknown_command_report [of fullSession "''foo''" "''foo''" "[]" clock0, THEN conjunct1]
    by (simp add: fullSession_fields js_includes_single startsWith_def toLowerChar_def
          switchLabels_def byLang_def)
  have 3: \<open>execute clock0 (initialTerminal 0) ''deviser stop'' =
     Some (Inr ([CommandResult Error (Text ''deviser: {U+547D}{U+4EE4}{U+672A}{U+627E}{U+5230}{U+FF0C}{U+8F38}{U+5165} "help" {U+67E5}{U+770B}{U+53EF}{U+7528}{U+547D}{U+4EE4}'')],
                initialTerminal 0))\<close>
    using unknown_command_report [of "initialTerminal 0" "''deviser stop''" "''deviser''"
            "[''stop'']" clock0, THEN conjunct1]
    by (simp add: initialTerminal_fields js_includes_single startsWith_def toLowerChar_def
          switchLabels_def byLang_def)
  have 4: "execute clock0 (initialTerminal 0) ''rm notes'' =
     Some (Inr (processCommand_unknown (initialTerminal 0) ''rm'', initialTerminal 0))"
    using unknown_command_report [of "initialTerminal 0" "''rm notes''" "''rm''" "[''notes'']" clock0,
            THEN conjunct2, THEN conjunct1]
    by (simp add: initialTerminal_fields js_includes_single startsWith_def toLowerChar_def
          basicCommands_def)
  have 5: "execute clock0 fullSession ''ls -z'' =
     Some (Inr (processCommand_ls fullSession [], fullSession))"
    using unknown_command_report [of fullSession "''ls -z''" "''ls''" "[''-z'']" clock0,
            THEN conjunct2, THEN conjunct2, THEN conjunct1]
    by (simp add: fullSession_fields js_includes_single startsWith_def toLowerChar_def)
  have 6: \<open>execute clock0 fullSession ''lang -x'' =
     Some (Inr ([CommandResult Error (Text (''{U+7121}{U+6548}{U+7684}{U+9078}{U+9805} -- '' @ [CHR 0x27] @ ''-x'' @ [CHR 0x27])),
                 CommandResult Info (Text ''{U+7528}{U+6CD5}: lang [zh|en]'')], fullSession))\<close>
    using unknown_command_report [of fullSession "''lang -x''" "''lang''" "[''-x'']" clock0,
            THEN conjunct2, THEN conjunct2, THEN conjunct2]
    by (simp add: fullSession_fields js_includes_single startsWith_def toLowerChar_def
          byLang_def)
  from 1 2 3 4 5 6 show ?thesis by (intro conjI)
qed

text \<open>
  As stated, the claim fails in two places. A known command with an unknown flag need not
  report an invalid option: \<^verbatim>\<open>ls -z\<close> lists the directory. And in the restricted mode an
  unknown command with a word that starts with a dash gets the unknown-command error of the
  gate, not the invalid-option one.
\<close>

theorem invalid_option_counterexample:
  \<open>execute clock0 fullSession ''ls -z'' =
     Some (Inr ([CommandResult Success (Listing
          [LsEntry ''about'' True None, LsEntry ''contact'' True None,
           LsEntry ''projects'' True None, LsEntry ''skills'' True None,
           LsEntry ''resume.pdf'' False None])], fullSession))
   \<and> execute clock0 (initialTerminal 0) ''foo -x'' =
     Some (Inr ([CommandResult Error (Text ''{U+672A}{U+77E5}{U+7684}{U+547D}{U+4EE4}: foo''),
                 CommandResult Info (Text ''{U+63D0}{U+793A}: {U+8F38}{U+5165} "deviser start" {U+4EE5}{U+555F}{U+52D5} deviser {U+670D}{U+52D9}''),
                 CommandResult Info (Text ''{U+8F38}{U+5165} "help" {U+67E5}{U+770B}{U+57FA}{U+672C}{U+547D}{U+4EE4}{U+5217}{U+8868}'')], initialTerminal 0))\<close>
proof -
  have 1: "execute clock0 fullSession ''ls -z'' =
     Some (Inr ([CommandResult Success (Listing
          [LsEntry ''about'' True None, LsEntry ''contact'' True None,
           LsEntry ''projects'' True None, LsEntry ''skills'' True None,
           LsEntry ''resume.pdf'' False None])], fullSession))"
    unfolding execute_def
    apply (subst processCommand_no_prompt)
     apply (simp add: fullSession_fields)
    apply (simp add: fullSession_fields processCommand_line_def js_includes_single startsWith_def
        processCommand_switch_def toLowerChar_def processCommand_ls_def
        getCurrentDirectoryContent_def topLevel_def asItem_def fileSystemLiteral_def
        ls_items_def ls_showHidden_def ls_showDetails_def sortBy_def ls_compare_def
        isDirectoryKey_def localeCompare_def ls_entry_def Let_def
        fs_about_def fs_skills_def fs_projects_def fs_contact_def fs_github_def
        fs_resume_pdf_def fs_bashrc_def)
    done
  have 2: \<open>execute clock0 (initialTerminal 0) ''foo -x'' =
     Some (Inr ([CommandResult Error (Text ''{U+672A}{U+77E5}{U+7684}{U+547D}{U+4EE4}: foo''),
                 CommandResult Info (Text ''{U+63D0}{U+793A}: {U+8F38}{U+5165} "deviser start" {U+4EE5}{U+555F}{U+52D5} deviser {U+670D}{U+52D9}''),
                 CommandResult Info (Text ''{U+8F38}{U+5165} "help" {U+67E5}{U+770B}{U+57FA}{U+672C}{U+547D}{U+4EE4}{U+5217}{U+8868}'')], initialTerminal 0))\<close>
    unfolding execute_def
    apply (subst processCommand_no_prompt)
     apply (simp add: initialTerminal_fields)
    apply (simp add: initialTerminal_fields processCommand_line_def js_includes_single
        startsWith_def toLowerChar_def basicCommands_def
        processCommand_unknown_def byLang_def)
    done
  from 1 2 show ?thesis by (intro conjI)
qed

text \<open>
  The test of the default case is \<^verbatim>\<open>cmd.includes('-')\<close>, which its comment reads as a
  command entered with parameters. It also holds for a dash inside a word, and the Kelvin
  sign in a name is the letter k of a label.
\<close>

lemma dash_inside_a_word:
  \<open>execute clock0 fullSession ''foo-bar'' =
     Some (Inr ([CommandResult Error (Text (''foo-bar: {U+7121}{U+6548}{U+7684}{U+9078}{U+9805} -- '' @ [CHR 0x27] @ [CHR 0x27]))], fullSession))\<close>
  unfolding execute_def
  apply (subst processCommand_no_prompt)
   apply (simp add: fullSession_fields)
  apply (simp add: fullSession_fields processCommand_line_def js_includes_single startsWith_def
      processCommand_switch_def toLowerChar_def processCommand_default_def
      getText_errors byLang_def)
  done

lemma kelvin_sign_in_a_name:
  "toLowerCase ''s{U+212A}ills'' = ''skills''"
  "toLowerCase ''s{U+212A}ills'' \<in> set switchLabels"
  by (simp_all add: startsWith_def toLowerChar_def switchLabels_def)

section \<open>\<^verbatim>\<open>cat\<close> and the language\<close>

lemma files_without_english_variant:
  "contentEn (fs_projects_terminal_portfolio_README_md now) = None"
  "contentEn (fs_projects_ai_transformer_README_md now) = None"
  "contentEn (fs_projects_crowdfunding_platform_README_md now) = None"
  "contentEn (fs_projects_implicit_sentiment_analysis_README_md now) = None"
  "contentEn (fs_projects_starhub_server_README_md now) = None"
  "contentEn (fs_projects_zu_discord_bot_README_md now) = None"
  "contentEn (fs_github_profile_txt now) = None"
  "contentEn (fs_github_stats_txt now) = None"
  "contentEn (fs_resume_pdf now) = None"
  "contentEn (fs_bashrc now) = None"
  by (simp_all add: fs_projects_terminal_portfolio_README_md_def
        fs_projects_ai_transformer_README_md_def fs_projects_crowdfunding_platform_README_md_def
        fs_projects_implicit_sentiment_analysis_README_md_def
        fs_projects_starhub_server_README_md_def fs_projects_zu_discord_bot_README_md_def
        fs_github_profile_txt_def fs_github_stats_txt_def fs_resume_pdf_def fs_bashrc_def)

lemma execute_cat:
  assumes "\<not> isSudoPrompt t" and "\<not> js_includes cmd ''|''" and "\<not> js_includes cmd ''>''"
    and "js_split CHR '' '' cmd = command # args"
    and "toLowerCase command = ''cat''"
  shows "execute clk t cmd = Some (Inr (processCommand_cat t t args))"
proof -
  have "\<not> (startsWith cmd ''rm -rf'' \<or> startsWith cmd ''rm -fr'')"
  proof
    assume "startsWith cmd ''rm -rf'' \<or> startsWith cmd ''rm -fr''"
    then have "command = ''rm''"
      using rm_prefix_command [of cmd command args] assms(4) by simp
    with assms(5) show False
      by (simp add: startsWith_def toLowerChar_def)
  qed
  with assms have "processCommand_line clk t t cmd = processCommand_switch clk t t cmd command args"
    by (intro line_to_switch) (simp_all add: basicCommands_def)
  with assms(1,5) show ?thesis
    by (simp add: execute_def processCommand_no_prompt processCommand_switch_def)
qed

text \<open>
  Claim C10, as the code has it. The language is English, no password is awaited and the
  line has no bar and no greater-than sign. A line \<^verbatim>\<open>cat\<close> whose first argument leads to a
  file that has no English variant returns the lines of the default content of that file,
  each as a success record, and leaves the state as it is, but for two cases that the branch
  decides before it reads the file: in the restricted mode an argument with a slash whose
  first part is one of the five gated folders is answered by the no-such-file error; and the
  argument \<^verbatim>\<open>resume.pdf\<close> is answered by the two records that open the simulated download,
  whose timers are scheduled.
\<close>

theorem cat_falls_back_to_default_content:
  assumes "\<not> isSudoPrompt t" and "language t = en_US"
    and "\<not> js_includes cmd ''|''" and "\<not> js_includes cmd ''>''"
    and "js_split CHR '' '' cmd = command # arg # rest"
    and "toLowerCase command = ''cat''"
    and "getFileContent_file t arg = Some (FileItem c None p ow g m)"
  shows "getFileContent t arg = Some c
         \<and> execute clk t cmd =
             Some (Inr (if \<not> isFullFeatured t \<and> CHR ''/'' \<in> set arg
                           \<and> hd (js_split CHR ''/'' arg) \<in> set restrictedFolders
                        then ([CommandResult Error (Text (''cat: '' @ arg @ '': No such file''))], t)
                        else if arg = ''resume.pdf''
                        then ([CommandResult System (Text ''Preparing to download resume.pdf...''),
                               CommandResult System (Text ''[          ] 0%'')],
                              scheduleAll (resume_timers t) t)
                        else (map (\<lambda>line. CommandResult Success (Text line)) c, t)))"
proof -
  have content: "getFileContent t arg = Some c"
    using assms(2,7) by (simp add: getFileContent_def)
  have run: "execute clk t cmd = Some (Inr (processCommand_cat t t (arg # rest)))"
    using assms(1,3,4,5,6) by (rule execute_cat)
  obtain firstDir ds where parts: "js_split CHR ''/'' arg = firstDir # ds"
    using js_split_not_empty [of "CHR ''/''" arg] by (cases "js_split CHR ''/'' arg") auto
  have "processCommand_cat t t (arg # rest) =
          (if \<not> isFullFeatured t \<and> CHR ''/'' \<in> set arg
              \<and> hd (js_split CHR ''/'' arg) \<in> set restrictedFolders
           then ([CommandResult Error (Text (''cat: '' @ arg @ '': No such file''))], t)
           else if arg = ''resume.pdf''
           then ([CommandResult System (Text ''Preparing to download resume.pdf...''),
                  CommandResult System (Text ''[          ] 0%'')],
                 scheduleAll (resume_timers t) t)
           else (map (\<lambda>line. CommandResult Success (Text line)) c, t))"
    using assms(2) content parts
    by (simp add: processCommand_cat_def cat_noSuchFile_def byLang_def)
  with run content show ?thesis
    by simp
qed

text \<open>
  In the full session in English: a file of the gated folder \<^verbatim>\<open>.github\<close>, which has no
  English variant, is printed in its default lines.
\<close>

theorem cat_falls_back_to_default_content_witness:
  \<open>execute clock0 fullEnglish ''cat .github/profile.txt'' =
     Some (Inr (map (\<lambda>line. CommandResult Success (Text line)) (content (fs_github_profile_txt 0)),
                fullEnglish))
   \<and> contentEn (fs_github_profile_txt 0) = None
   \<and> hd (content (fs_github_profile_txt 0)) = ''====== GitHub {U+8CC7}{U+8A0A} ======''
   \<and> length (content (fs_github_profile_txt 0)) = 14\<close>
proof -
  have found: "getFileContent_file fullEnglish ''.github/profile.txt'' =
      Some (FileItem (content (fs_github_profile_txt 0)) None ''rw-r--r--'' ''deviser'' ''users'' 0)"
    by (simp add: getFileContent_file_def normalizedPath_def startsWith_def filterTruthy_def
        fullEnglish_fields fileSystemLiteral_def fs_github_def fs_github_profile_txt_def Let_def)
  have 1: "execute clock0 fullEnglish ''cat .github/profile.txt'' =
     Some (Inr (map (\<lambda>line. CommandResult Success (Text line)) (content (fs_github_profile_txt 0)),
                fullEnglish))"
    using cat_falls_back_to_default_content
            [of fullEnglish "''cat .github/profile.txt''" "''cat''"
                "''.github/profile.txt''" "[]", OF _ _ _ _ _ _ found, of clock0]
    by (simp add: fullEnglish_fields js_includes_single startsWith_def toLowerChar_def)
  have 2: \<open>contentEn (fs_github_profile_txt 0) = None
   \<and> hd (content (fs_github_profile_txt 0)) = ''====== GitHub {U+8CC7}{U+8A0A} ======''
   \<and> length (content (fs_github_profile_txt 0)) = 14\<close>
    by (simp add: fs_github_profile_txt_def)
  from 1 2 show ?thesis by (intro conjI) simp_all
qed

text \<open>
  As stated, the claim fails. In the restricted mode, in English, \<^verbatim>\<open>cat .github/profile.txt\<close>
  names a file that exists and has no English variant, and the answer is the no-such-file
  error. And \<^verbatim>\<open>cat resume.pdf\<close>, a file without an English variant, is answered by the
  records of the download and not by the line of its content.
\<close>

theorem cat_gated_counterexample:
  \<open>language restrictedEnglish = en_US
   \<and> getFileContent restrictedEnglish ''.github/profile.txt'' = Some (content (fs_github_profile_txt 0))
   \<and> contentEn (fs_github_profile_txt 0) = None
   \<and> execute clock0 restrictedEnglish ''cat .github/profile.txt'' =
       Some (Inr ([CommandResult Error (Text ''cat: .github/profile.txt: No such file'')],
                  restrictedEnglish))
   \<and> getFileContent fullEnglish ''resume.pdf'' = Some [''[PDF {U+6587}{U+4EF6}{U+5167}{U+5BB9} - {U+986F}{U+793A}{U+70BA}{U+4E8C}{U+9032}{U+5236}]'']
   \<and> contentEn (fs_resume_pdf 0) = None
   \<and> execute clock0 fullEnglish ''cat resume.pdf'' =
       Some (Inr ([CommandResult System (Text ''Preparing to download resume.pdf...''),
                   CommandResult System (Text ''[          ] 0%'')],
                  scheduleAll (resume_timers fullEnglish) fullEnglish))\<close>
proof -
  have 1: "language restrictedEnglish = en_US"
    by (simp add: restrictedEnglish_fields)
  have 2: "getFileContent restrictedEnglish ''.github/profile.txt'' = Some (content (fs_github_profile_txt 0))"
    by (simp add: getFileContent_def getFileContent_file_def normalizedPath_def startsWith_def
        filterTruthy_def restrictedEnglish_fields fileSystemLiteral_def fs_github_def
        fs_github_profile_txt_def Let_def)
  have 3: "contentEn (fs_github_profile_txt 0) = None"
    by (simp add: fs_github_profile_txt_def)
  have 4: "execute clock0 restrictedEnglish ''cat .github/profile.txt'' =
       Some (Inr ([CommandResult Error (Text ''cat: .github/profile.txt: No such file'')],
                  restrictedEnglish))"
    unfolding execute_def
    apply (subst processCommand_no_prompt)
     apply (simp add: restrictedEnglish_fields)
    apply (simp add: restrictedEnglish_fields processCommand_line_def js_includes_single
        startsWith_def toLowerChar_def basicCommands_def processCommand_switch_def
        processCommand_cat_def restrictedFolders_def cat_noSuchFile_def byLang_def)
    done
  have 5: \<open>getFileContent fullEnglish ''resume.pdf'' = Some [''[PDF {U+6587}{U+4EF6}{U+5167}{U+5BB9} - {U+986F}{U+793A}{U+70BA}{U+4E8C}{U+9032}{U+5236}]'']\<close>
    by (simp add: getFileContent_def getFileContent_file_def normalizedPath_def startsWith_def
        filterTruthy_def fullEnglish_fields fileSystemLiteral_def fs_resume_pdf_def Let_def)
  have 6: "contentEn (fs_resume_pdf 0) = None"
    by (simp add: fs_resume_pdf_def)
  have 7: "execute clock0 fullEnglish ''cat resume.pdf'' =
       Some (Inr ([CommandResult System (Text ''Preparing to download resume.pdf...''),
                   CommandResult System (Text ''[          ] 0%'')],
                  scheduleAll (resume_timers fullEnglish) fullEnglish))"
    unfolding execute_def
    apply (subst processCommand_no_prompt)
     apply (simp add: fullEnglish_fields)
    apply (simp add: fullEnglish_fields processCommand_line_def js_includes_single
        startsWith_def toLowerChar_def processCommand_switch_def
        processCommand_cat_def byLang_def)
    done
  from 1 2 3 4 5 6 7 show ?thesis by (intro conjI)
qed

end
